theory Spec2Isabelle
  imports Main "HOL-Library.Sublist"
begin

chapter \<open>The Notion-to-Discord notifier (NotionToDiscordNotifier/main.js)\<close>

text \<open>
  The script receives a Notion webhook, compares the tracked properties of the page with
  the properties remembered in a spreadsheet, sends change notifications to Discord and
  writes one row to a log sheet. The model below follows main.js function by function.

  JavaScript strings are modelled as \<^typ>\<open>string\<close>; a character beyond ASCII is the
  sequence of its UTF-8 bytes, so equality, concatenation and prefixes are those of the
  source strings. A value that may be \<open>null\<close> or \<open>undefined\<close> is an \<^typ>\<open>'a option\<close>;
  only the \<open>properties\<close> of a page, on which \<open>JSON.stringify\<close> tells the two apart, keep
  the difference.
  The services of the host (script properties, spreadsheet access, \<open>JSON\<close>, the clock,
  \<open>UrlFetchApp\<close>, \<open>Utilities.formatDate\<close>) are the fields of a record \<open>platform\<close> that
  every function receives; an exception of the host is a value of \<open>js_error\<close>.
\<close>

section \<open>String constants of the source\<close>

text \<open>The property key kigyo-mei (company name) (U+4F01 U+696D U+540D).\<close>

definition KEY_KIGYOMEI :: string where
  "KEY_KIGYOMEI = [CHR 0xE4, CHR 0xBC, CHR 0x81, CHR 0xE6, CHR 0xA5, CHR 0xAD, CHR 0xE5, CHR 0x90, CHR 0x8D]"

text \<open>The property key shodan-status (deal status) (U+5546 U+8AC7 U+30B9 U+30C6 U+30FC U+30BF U+30B9).\<close>

definition KEY_SHODAN_STATUS :: string where
  "KEY_SHODAN_STATUS = [CHR 0xE5, CHR 0x95, CHR 0x86, CHR 0xE8, CHR 0xAB, CHR 0x87, CHR 0xE3, CHR 0x82, CHR 0xB9, CHR 0xE3, CHR 0x83, CHR 0x86, CHR 0xE3, CHR 0x83, CHR 0xBC, CHR 0xE3, CHR 0x82, CHR 0xBF, CHR 0xE3, CHR 0x82, CHR 0xB9]"

text \<open>The property key tanto (person in charge) (U+62C5 U+5F53).\<close>

definition KEY_TANTO :: string where
  "KEY_TANTO = [CHR 0xE6, CHR 0x8B, CHR 0x85, CHR 0xE5, CHR 0xBD, CHR 0x93]"

text \<open>The property key sharoushi-renkei (labour consultant liaison) (U+793E U+52B4 U+58EB U+9023 U+643A).\<close>

definition KEY_SHAROUSHI :: string where
  "KEY_SHAROUSHI = [CHR 0xE7, CHR 0xA4, CHR 0xBE, CHR 0xE5, CHR 0x8A, CHR 0xB4, CHR 0xE5, CHR 0xA3, CHR 0xAB, CHR 0xE9, CHR 0x80, CHR 0xA3, CHR 0xE6, CHR 0x90, CHR 0xBA]"

text \<open>CONFIG.SHEETS.STATE.NAME, the name of the state sheet (U+30DA U+30FC U+30B8 U+72B6 U+614B U+5C65 U+6B74).\<close>

definition STATE_NAME :: string where
  "STATE_NAME = [CHR 0xE3, CHR 0x83, CHR 0x9A, CHR 0xE3, CHR 0x83, CHR 0xBC, CHR 0xE3, CHR 0x82, CHR 0xB8, CHR 0xE7, CHR 0x8A, CHR 0xB6, CHR 0xE6, CHR 0x85, CHR 0x8B, CHR 0xE5, CHR 0xB1, CHR 0xA5, CHR 0xE6, CHR 0xAD, CHR 0xB4]"

text \<open>The overall status seikou (success) (U+6210 U+529F).\<close>

definition STATUS_SEIKOU :: string where
  "STATUS_SEIKOU = [CHR 0xE6, CHR 0x88, CHR 0x90, CHR 0xE5, CHR 0x8A, CHR 0x9F]"

text \<open>The overall status ichibu-error (partial error) (U+4E00 U+90E8 U+30A8 U+30E9 U+30FC).\<close>

definition STATUS_ICHIBU_ERROR :: string where
  "STATUS_ICHIBU_ERROR = [CHR 0xE4, CHR 0xB8, CHR 0x80, CHR 0xE9, CHR 0x83, CHR 0xA8, CHR 0xE3, CHR 0x82, CHR 0xA8, CHR 0xE3, CHR 0x83, CHR 0xA9, CHR 0xE3, CHR 0x83, CHR 0xBC]"

text \<open>The overall status chimeiteki-error (fatal error) (U+81F4 U+547D U+7684 U+30A8 U+30E9 U+30FC).\<close>

definition STATUS_CHIMEITEKI_ERROR :: string where
  "STATUS_CHIMEITEKI_ERROR = [CHR 0xE8, CHR 0x87, CHR 0xB4, CHR 0xE5, CHR 0x91, CHR 0xBD, CHR 0xE7, CHR 0x9A, CHR 0x84, CHR 0xE3, CHR 0x82, CHR 0xA8, CHR 0xE3, CHR 0x83, CHR 0xA9, CHR 0xE3, CHR 0x83, CHR 0xBC]"

text \<open>The placeholder kigyomei-fumei (company name unknown) (U+4F01 U+696D U+540D U+4E0D U+660E).\<close>

definition KIGYOMEI_FUMEI :: string where
  "KIGYOMEI_FUMEI = [CHR 0xE4, CHR 0xBC, CHR 0x81, CHR 0xE6, CHR 0xA5, CHR 0xAD, CHR 0xE5, CHR 0x90, CHR 0x8D, CHR 0xE4, CHR 0xB8, CHR 0x8D, CHR 0xE6, CHR 0x98, CHR 0x8E]"

text \<open>The placeholder URL-fumei (URL unknown) (U+4E0D U+660E).\<close>

definition URL_FUMEI :: string where
  "URL_FUMEI = ''URL'' @ [CHR 0xE4, CHR 0xB8, CHR 0x8D, CHR 0xE6, CHR 0x98, CHR 0x8E]"

text \<open>The placeholder nichiji-fumei (date unknown) (U+65E5 U+6642 U+4E0D U+660E).\<close>

definition NICHIJI_FUMEI :: string where
  "NICHIJI_FUMEI = [CHR 0xE6, CHR 0x97, CHR 0xA5, CHR 0xE6, CHR 0x99, CHR 0x82, CHR 0xE4, CHR 0xB8, CHR 0x8D, CHR 0xE6, CHR 0x98, CHR 0x8E]"

text \<open>The display string (misettei), not set, in full-width parentheses (U+FF08 U+672A U+8A2D U+5B9A U+FF09).\<close>

definition MISETTEI :: string where
  "MISETTEI = [CHR 0xEF, CHR 0xBC, CHR 0x88, CHR 0xE6, CHR 0x9C, CHR 0xAA, CHR 0xE8, CHR 0xA8, CHR 0xAD, CHR 0xE5, CHR 0xAE, CHR 0x9A, CHR 0xEF, CHR 0xBC, CHR 0x89]"

text \<open>The display string (henkou-mae data nashi), no data before the change (U+FF08 U+5909 U+66F4 U+524D U+30C7 U+30FC U+30BF U+306A U+3057 U+FF09).\<close>

definition HENKOUMAE_NASHI :: string where
  "HENKOUMAE_NASHI = [CHR 0xEF, CHR 0xBC, CHR 0x88, CHR 0xE5, CHR 0xA4, CHR 0x89, CHR 0xE6, CHR 0x9B, CHR 0xB4, CHR 0xE5, CHR 0x89, CHR 0x8D, CHR 0xE3, CHR 0x83, CHR 0x87, CHR 0xE3, CHR 0x83, CHR 0xBC, CHR 0xE3, CHR 0x82, CHR 0xBF, CHR 0xE3, CHR 0x81, CHR 0xAA, CHR 0xE3, CHR 0x81, CHR 0x97, CHR 0xEF, CHR 0xBC, CHR 0x89]"

text \<open>The result type of the status / person-in-charge notification (U+30B9 U+30C6 U+30FC U+30BF U+30B9 U+30FB U+62C5 U+5F53 U+8005 U+5909 U+66F4).\<close>

definition TYPE_STATUS_TANTO :: string where
  "TYPE_STATUS_TANTO = [CHR 0xE3, CHR 0x82, CHR 0xB9, CHR 0xE3, CHR 0x83, CHR 0x86, CHR 0xE3, CHR 0x83, CHR 0xBC, CHR 0xE3, CHR 0x82, CHR 0xBF, CHR 0xE3, CHR 0x82, CHR 0xB9, CHR 0xE3, CHR 0x83, CHR 0xBB, CHR 0xE6, CHR 0x8B, CHR 0x85, CHR 0xE5, CHR 0xBD, CHR 0x93, CHR 0xE8, CHR 0x80, CHR 0x85, CHR 0xE5, CHR 0xA4, CHR 0x89, CHR 0xE6, CHR 0x9B, CHR 0xB4]"

text \<open>The send status: skipped because the URL is not set or invalid (U+672A U+8A2D U+5B9A U+4E0D U+6B63 U+306E U+305F U+3081 U+30B9 U+30AD U+30C3 U+30D7).\<close>

definition SEND_SKIPPED :: string where
  "SEND_SKIPPED = ''URL'' @ [CHR 0xE6, CHR 0x9C, CHR 0xAA, CHR 0xE8, CHR 0xA8, CHR 0xAD, CHR 0xE5, CHR 0xAE, CHR 0x9A] @ ''/'' @ [CHR 0xE4, CHR 0xB8, CHR 0x8D, CHR 0xE6, CHR 0xAD, CHR 0xA3, CHR 0xE3, CHR 0x81, CHR 0xAE, CHR 0xE3, CHR 0x81, CHR 0x9F, CHR 0xE3, CHR 0x82, CHR 0x81, CHR 0xE3, CHR 0x82, CHR 0xB9, CHR 0xE3, CHR 0x82, CHR 0xAD, CHR 0xE3, CHR 0x83, CHR 0x83, CHR 0xE3, CHR 0x83, CHR 0x97]"

text \<open>The send status soushin-seikou (sent) (U+9001 U+4FE1 U+6210 U+529F).\<close>

definition SEND_OK :: string where
  "SEND_OK = [CHR 0xE9, CHR 0x80, CHR 0x81, CHR 0xE4, CHR 0xBF, CHR 0xA1, CHR 0xE6, CHR 0x88, CHR 0x90, CHR 0xE5, CHR 0x8A, CHR 0x9F]"

text \<open>The send status soushin-error (send error) (U+9001 U+4FE1 U+30A8 U+30E9 U+30FC).\<close>

definition SEND_ERROR :: string where
  "SEND_ERROR = [CHR 0xE9, CHR 0x80, CHR 0x81, CHR 0xE4, CHR 0xBF, CHR 0xA1, CHR 0xE3, CHR 0x82, CHR 0xA8, CHR 0xE3, CHR 0x83, CHR 0xA9, CHR 0xE3, CHR 0x83, CHR 0xBC]"

text \<open>Message label for the company name (U+4F01 U+696D U+540D).\<close>

definition MSG_KIGYOMEI :: string where
  "MSG_KIGYOMEI = ''**'' @ [CHR 0xE4, CHR 0xBC, CHR 0x81, CHR 0xE6, CHR 0xA5, CHR 0xAD, CHR 0xE5, CHR 0x90, CHR 0x8D] @ '':** ''"

text \<open>Message label for the deal status (U+5546 U+8AC7 U+30B9 U+30C6 U+30FC U+30BF U+30B9).\<close>

definition MSG_STATUS :: string where
  "MSG_STATUS = ''**'' @ [CHR 0xE5, CHR 0x95, CHR 0x86, CHR 0xE8, CHR 0xAB, CHR 0x87, CHR 0xE3, CHR 0x82, CHR 0xB9, CHR 0xE3, CHR 0x83, CHR 0x86, CHR 0xE3, CHR 0x83, CHR 0xBC, CHR 0xE3, CHR 0x82, CHR 0xBF, CHR 0xE3, CHR 0x82, CHR 0xB9] @ '':** ''"

text \<open>Message label for the person in charge (U+62C5 U+5F53).\<close>

definition MSG_TANTO :: string where
  "MSG_TANTO = ''**'' @ [CHR 0xE6, CHR 0x8B, CHR 0x85, CHR 0xE5, CHR 0xBD, CHR 0x93] @ '':** ''"

text \<open>Opens a quoted value ().\<close>

definition MSG_OPEN :: string where
  "MSG_OPEN = ''**'' @ [CHR 0x60]"

text \<open>The arrow between the old and the new value (U+2192).\<close>

definition MSG_ARROW :: string where
  "MSG_ARROW = [CHR 0x60] @ ''** '' @ [CHR 0xE2, CHR 0x86, CHR 0x92] @ '' **'' @ [CHR 0x60]"

text \<open>Closes the arrow line: ni henkou (changed to) (U+306B U+5909 U+66F4).\<close>

definition MSG_CHANGED :: string where
  "MSG_CHANGED = [CHR 0x60] @ ''** '' @ [CHR 0xE3, CHR 0x81, CHR 0xAB, CHR 0xE5, CHR 0xA4, CHR 0x89, CHR 0xE6, CHR 0x9B, CHR 0xB4, CHR 0x0A]"

text \<open>Message label for the last edit time (U+6700 U+7D42 U+66F4 U+65B0 U+65E5 U+6642).\<close>

definition MSG_LAST_EDITED :: string where
  "MSG_LAST_EDITED = ''**'' @ [CHR 0xE6, CHR 0x9C, CHR 0x80, CHR 0xE7, CHR 0xB5, CHR 0x82, CHR 0xE6, CHR 0x9B, CHR 0xB4, CHR 0xE6, CHR 0x96, CHR 0xB0, CHR 0xE6, CHR 0x97, CHR 0xA5, CHR 0xE6, CHR 0x99, CHR 0x82] @ '':** ''"

text \<open>Title line of the status message (U+3010 U+5546 U+8AC7 U+30B9 U+30C6 U+30FC U+30BF U+30B9 U+3011 U+66F4 U+65B0 U+901A U+77E5 U+1F4E2).\<close>

definition MSG_STATUS_TITLE :: string where
  "MSG_STATUS_TITLE = ''**'' @ [CHR 0xE3, CHR 0x80, CHR 0x90, CHR 0xE5, CHR 0x95, CHR 0x86, CHR 0xE8, CHR 0xAB, CHR 0x87, CHR 0xE3, CHR 0x82, CHR 0xB9, CHR 0xE3, CHR 0x83, CHR 0x86, CHR 0xE3, CHR 0x83, CHR 0xBC, CHR 0xE3, CHR 0x82, CHR 0xBF, CHR 0xE3, CHR 0x82, CHR 0xB9, CHR 0xE3, CHR 0x80, CHR 0x91, CHR 0xE6, CHR 0x9B, CHR 0xB4, CHR 0xE6, CHR 0x96, CHR 0xB0, CHR 0xE9, CHR 0x80, CHR 0x9A, CHR 0xE7, CHR 0x9F, CHR 0xA5] @ ''** '' @ [CHR 0xF0, CHR 0x9F, CHR 0x93, CHR 0xA2, CHR 0x0A]"

text \<open>The horizontal rule line ().\<close>

definition MSG_RULE :: string where
  "MSG_RULE = ''------------------------------------'' @ [CHR 0x0A]"

text \<open>Label of the link line: details here (U+8A73 U+7D30 U+306F U+3053 U+3061 U+3089).\<close>

definition MSG_DETAILS :: string where
  "MSG_DETAILS = [CHR 0xE8, CHR 0xA9, CHR 0xB3, CHR 0xE7, CHR 0xB4, CHR 0xB0, CHR 0xE3, CHR 0x81, CHR 0xAF, CHR 0xE3, CHR 0x81, CHR 0x93, CHR 0xE3, CHR 0x81, CHR 0xA1, CHR 0xE3, CHR 0x82, CHR 0x89] @ '': ''"

text \<open>Title line of the liaison message (U+3010 U+793E U+52B4 U+58EB U+9023 U+643A U+3011 U+66F4 U+65B0 U+901A U+77E5 U+1F514).\<close>

definition MSG_SHAROUSHI_TITLE :: string where
  "MSG_SHAROUSHI_TITLE = ''**'' @ [CHR 0xE3, CHR 0x80, CHR 0x90, CHR 0xE7, CHR 0xA4, CHR 0xBE, CHR 0xE5, CHR 0x8A, CHR 0xB4, CHR 0xE5, CHR 0xA3, CHR 0xAB, CHR 0xE9, CHR 0x80, CHR 0xA3, CHR 0xE6, CHR 0x90, CHR 0xBA, CHR 0xE3, CHR 0x80, CHR 0x91, CHR 0xE6, CHR 0x9B, CHR 0xB4, CHR 0xE6, CHR 0x96, CHR 0xB0, CHR 0xE9, CHR 0x80, CHR 0x9A, CHR 0xE7, CHR 0x9F, CHR 0xA5] @ ''** '' @ [CHR 0xF0, CHR 0x9F, CHR 0x94, CHR 0x94, CHR 0x0A]"

text \<open>Message label for the liaison status (U+9023 U+643A U+30B9 U+30C6 U+30FC U+30BF U+30B9).\<close>

definition MSG_RENKEI_STATUS :: string where
  "MSG_RENKEI_STATUS = ''**'' @ [CHR 0xE9, CHR 0x80, CHR 0xA3, CHR 0xE6, CHR 0x90, CHR 0xBA, CHR 0xE3, CHR 0x82, CHR 0xB9, CHR 0xE3, CHR 0x83, CHR 0x86, CHR 0xE3, CHR 0x83, CHR 0xBC, CHR 0xE3, CHR 0x82, CHR 0xBF, CHR 0xE3, CHR 0x82, CHR 0xB9] @ '':** ''"

text \<open>Closes the liaison transition: ni henkou saremashita (U+306B U+5909 U+66F4 U+3055 U+308C U+307E U+3057 U+305F U+3002).\<close>

definition MSG_WAS_CHANGED :: string where
  "MSG_WAS_CHANGED = [CHR 0x60] @ ''** '' @ [CHR 0xE3, CHR 0x81, CHR 0xAB, CHR 0xE5, CHR 0xA4, CHR 0x89, CHR 0xE6, CHR 0x9B, CHR 0xB4, CHR 0xE3, CHR 0x81, CHR 0x95, CHR 0xE3, CHR 0x82, CHR 0x8C, CHR 0xE3, CHR 0x81, CHR 0xBE, CHR 0xE3, CHR 0x81, CHR 0x97, CHR 0xE3, CHR 0x81, CHR 0x9F, CHR 0xE3, CHR 0x80, CHR 0x82]"

text \<open>Log label for the status (U+30B9 U+30C6 U+30FC U+30BF U+30B9).\<close>

definition LOG_STATUS_LABEL :: string where
  "LOG_STATUS_LABEL = '', '' @ [CHR 0xE3, CHR 0x82, CHR 0xB9, CHR 0xE3, CHR 0x83, CHR 0x86, CHR 0xE3, CHR 0x83, CHR 0xBC, CHR 0xE3, CHR 0x82, CHR 0xBF, CHR 0xE3, CHR 0x82, CHR 0xB9] @ '': ''"

text \<open>Log label for the person in charge (U+62C5 U+5F53).\<close>

definition LOG_TANTO_LABEL :: string where
  "LOG_TANTO_LABEL = '', '' @ [CHR 0xE6, CHR 0x8B, CHR 0x85, CHR 0xE5, CHR 0xBD, CHR 0x93] @ '': ''"

text \<open>Log label for the liaison status (U+793E U+52B4 U+58EB U+9023 U+643A).\<close>

definition LOG_SHAROUSHI_LABEL :: string where
  "LOG_SHAROUSHI_LABEL = '', '' @ [CHR 0xE7, CHR 0xA4, CHR 0xBE, CHR 0xE5, CHR 0x8A, CHR 0xB4, CHR 0xE5, CHR 0xA3, CHR 0xAB, CHR 0xE9, CHR 0x80, CHR 0xA3, CHR 0xE6, CHR 0x90, CHR 0xBA] @ '': ''"

text \<open>Head of the extraction log line (U+4F01 U+696D U+540D).\<close>

definition LOG_EXTRACTED :: string where
  "LOG_EXTRACTED = ''Extracted Info => '' @ [CHR 0xE4, CHR 0xBC, CHR 0x81, CHR 0xE6, CHR 0xA5, CHR 0xAD, CHR 0xE5, CHR 0x90, CHR 0x8D] @ '': ''"

text \<open>CONFIG.SHEETS.LOG.HEADERS, the nine column titles of the log sheet.\<close>

definition LOG_HEADERS :: "string list" where
  "LOG_HEADERS = [
    [CHR 0xE5, CHR 0x8F, CHR 0x97, CHR 0xE4, CHR 0xBF, CHR 0xA1, CHR 0xE6, CHR 0x97, CHR 0xA5, CHR 0xE6, CHR 0x99, CHR 0x82],
    [CHR 0xE4, CHR 0xBC, CHR 0x81, CHR 0xE6, CHR 0xA5, CHR 0xAD, CHR 0xE5, CHR 0x90, CHR 0x8D],
    [CHR 0xE3, CHR 0x82, CHR 0xB9, CHR 0xE3, CHR 0x83, CHR 0x86, CHR 0xE3, CHR 0x83, CHR 0xBC, CHR 0xE3, CHR 0x82, CHR 0xBF, CHR 0xE3, CHR 0x82, CHR 0xB9],
    [CHR 0xE6, CHR 0x8B, CHR 0x85, CHR 0xE5, CHR 0xBD, CHR 0x93],
    [CHR 0xE5, CHR 0x85, CHR 0xA8, CHR 0xE4, CHR 0xBD, CHR 0x93, CHR 0xE5, CHR 0x87, CHR 0xA6, CHR 0xE7, CHR 0x90, CHR 0x86, CHR 0xE3, CHR 0x82, CHR 0xB9, CHR 0xE3, CHR 0x83, CHR 0x86, CHR 0xE3, CHR 0x83, CHR 0xBC, CHR 0xE3, CHR 0x82, CHR 0xBF, CHR 0xE3, CHR 0x82, CHR 0xB9],
    ''Discord'' @ [CHR 0xE9, CHR 0x80, CHR 0x9A, CHR 0xE7, CHR 0x9F, CHR 0xA5, CHR 0xE7, CHR 0xB5, CHR 0x90, CHR 0xE6, CHR 0x9E, CHR 0x9C],
    [CHR 0xE5, CHR 0xAE, CHR 0x9F, CHR 0xE8, CHR 0xA1, CHR 0x8C, CHR 0xE3, CHR 0x83, CHR 0xAD, CHR 0xE3, CHR 0x82, CHR 0xB0, CHR 0xE3, CHR 0x83, CHR 0xBB, CHR 0xE3, CHR 0x82, CHR 0xA8, CHR 0xE3, CHR 0x83, CHR 0xA9, CHR 0xE3, CHR 0x83, CHR 0xBC, CHR 0xE8, CHR 0xA9, CHR 0xB3, CHR 0xE7, CHR 0xB4, CHR 0xB0],
    [CHR 0xE5, CHR 0x8F, CHR 0x97, CHR 0xE4, CHR 0xBF, CHR 0xA1, CHR 0xE3, CHR 0x83, CHR 0x87, CHR 0xE3, CHR 0x83, CHR 0xBC, CHR 0xE3, CHR 0x82, CHR 0xBF] @ ''(raw)'',
    [CHR 0xE3, CHR 0x82, CHR 0xA4, CHR 0xE3, CHR 0x83, CHR 0x99, CHR 0xE3, CHR 0x83, CHR 0xB3, CHR 0xE3, CHR 0x83, CHR 0x88, CHR 0xE5, CHR 0x85, CHR 0xA8, CHR 0xE4, CHR 0xBD, CHR 0x93] @ ''(raw)'']"

text \<open>The line feed of the template literals.\<close>

definition NL :: string where
  "NL = [CHR 0x0A]"

text \<open>The keys of CONFIG.PROP_KEYS and the remaining values of CONFIG.SHEETS.\<close>

definition PROP_KEYS_SPREADSHEET_ID :: string where
  "PROP_KEYS_SPREADSHEET_ID = ''SPREADSHEET_ID_SECRET''"

definition PROP_KEYS_LOG_SHEET_NAME :: string where
  "PROP_KEYS_LOG_SHEET_NAME = ''SHEET_NAME_VALUE''"

definition PROP_KEYS_DISCORD_URL :: string where
  "PROP_KEYS_DISCORD_URL = ''DISCORD_WEBHOOK_URL_SECRET''"

definition PROP_KEYS_DISCORD_URL_SHAROUSHI :: string where
  "PROP_KEYS_DISCORD_URL_SHAROUSHI = ''DISCORD_WEBHOOK_URL_SHAROUSHI''"

definition LOG_NAME_DEFAULT :: string where
  "LOG_NAME_DEFAULT = ''NotionWebhookLog''"

definition STATE_HEADERS :: "string list" where
  "STATE_HEADERS = [''Page ID'', ''Last Known Properties (JSON)'']"

definition DISCORD_PREFIX :: string where
  "DISCORD_PREFIX = ''https://discord.com/api/webhooks/''"

definition NOT_AVAILABLE :: string where
  "NOT_AVAILABLE = ''N/A''"

definition MESSAGE_PROCESSED :: string where
  "MESSAGE_PROCESSED = ''Webhook processed.''"

section \<open>JavaScript values\<close>

text \<open>
  Truthiness of a value that is a string, \<open>null\<close> or \<open>undefined\<close>: only a non-empty
  string is truthy. \<open>or_else v d\<close> is \<open>v || d\<close> for a string \<open>d\<close>, and \<open>or_null v\<close> is
  \<open>v || null\<close>.
\<close>

definition truthy :: "string option \<Rightarrow> bool" where
  "truthy v = (case v of None \<Rightarrow> False | Some s \<Rightarrow> s \<noteq> [])"

definition or_else :: "string option \<Rightarrow> string \<Rightarrow> string" where
  "or_else v d = (case v of None \<Rightarrow> d | Some s \<Rightarrow> if s = [] then d else s)"

definition or_null :: "string option \<Rightarrow> string option" where
  "or_null v = (case v of None \<Rightarrow> None | Some s \<Rightarrow> if s = [] then None else Some s)"

text \<open>\<open>Array.prototype.join\<close> on an array of strings.\<close>

fun join :: "string \<Rightarrow> string list \<Rightarrow> string" where
  "join sep [] = []"
| "join sep [x] = x"
| "join sep (x # y # ys) = x @ sep @ join sep (y # ys)"

text \<open>The decimal numeral of a row number, as a template literal prints it.\<close>

fun showNat :: "nat \<Rightarrow> string" where
  "showNat n =
     (if n < 10 then [char_of (48 + n)]
      else showNat (n div 10) @ [char_of (48 + n mod 10)])"

text \<open>
  An exception: its name and its message. \<open>toString\<close> is \<open>Error.prototype.toString\<close>:
  the name alone when the message is empty, the message alone when the name is empty,
  and otherwise the name, a colon, a space and the message.
\<close>

datatype js_error = JsError (errName: string) (errMessage: string)

definition newError :: "string \<Rightarrow> js_error" where
  "newError m = JsError ''Error'' m"

definition toString :: "js_error \<Rightarrow> string" where
  "toString e =
     (if errMessage e = [] then errName e
      else if errName e = [] then errMessage e
      else errName e @ '': '' @ errMessage e)"

text \<open>
  A value that is \<open>undefined\<close>, \<open>null\<close> or an object. \<open>JSON.stringify\<close> tells the first
  two apart, so the \<open>properties\<close> of a page keep the difference.
\<close>

datatype 'a js_value = Undefined | Null | Object 'a

section \<open>The data of a webhook\<close>

text \<open>
  The page object of the webhook body, \<open>{id, url, last_edited_time, properties}\<close>, with
  every part optional. A property carries the parts the script reads: \<open>title\<close> (a list
  of rich-text items with a \<open>plain_text\<close>), \<open>status\<close> and \<open>select\<close> (each an object with
  a \<open>name\<close>). \<open>properties\<close> is the object keyed by property name, or \<open>null\<close>, or
  missing. The texts are strings, as main.js documents the fields of the extracted
  record (string or \<open>null\<close>) and as Notion sends them; of every other part a missing one
  and a \<open>null\<close> one are both \<open>None\<close>, which optional chaining and \<open>||\<close> treat alike, and
  the empty string, which \<open>||\<close> also replaces, is \<open>Some []\<close>.
\<close>

record rich_text =
  plain_text :: "string option"

record option_value =
  name :: "string option"

record notion_property =
  prop_title :: "rich_text list option"
  prop_status :: "option_value option"
  prop_select :: "option_value option"

type_synonym properties = "string \<rightharpoonup> notion_property"

record page_data =
  page_id :: "string option"
  url :: "string option"
  last_edited_time :: "string option"
  properties :: "properties js_value"

text \<open>The event \<open>e\<close> of \<open>doPost\<close>: \<open>e.postData.contents\<close> is the body of the request.\<close>

record post_data =
  contents :: "string option"

record event =
  postData :: "post_data option"

text \<open>\<open>e.postData.contents\<close>, where it exists.\<close>

definition contentsOf :: "event option \<Rightarrow> string option" where
  "contentsOf e =
     (case e of None \<Rightarrow> None
      | Some ev \<Rightarrow> (case postData ev of None \<Rightarrow> None | Some pd \<Rightarrow> contents pd))"

text \<open>The record that \<open>extractNotionInfo\<close> returns.\<close>

record notion_info =
  kigyoMei :: string
  status :: "string option"
  tanto :: "string option"
  sharoushi :: "string option"
  pageUrl :: string
  lastEditedTime :: string

section \<open>The spreadsheet and the host\<close>

text \<open>
  A cell holds a text (the empty text for a blank cell) or a date. A sheet is the list
  of its rows, the header row first; the spreadsheet maps a sheet name to its sheet.
  \<open>cellAt row j\<close> is \<open>row[j]\<close> in the rectangular array of \<open>getValues\<close>, where a missing
  cell reads as the empty text.
\<close>

datatype cell = Text string | Date nat

type_synonym sheet = "cell list list"

type_synonym spreadsheet = "string \<rightharpoonup> sheet"

definition cellAt :: "cell list \<Rightarrow> nat \<Rightarrow> cell" where
  "cellAt row j = (if j < length row then row ! j else Text [])"

text \<open>A value written to a cell: \<open>null\<close> and \<open>undefined\<close> leave it blank.\<close>

definition toCell :: "string option \<Rightarrow> cell" where
  "toCell v = (case v of None \<Rightarrow> Text [] | Some s \<Rightarrow> Text s)"

text \<open>
  The host. \<open>getProperty\<close> reads a script property; \<open>openById\<close> gives the exception of
  \<open>SpreadsheetApp.openById\<close>, if it throws; \<open>JSON_parse_event\<close> is \<open>JSON.parse\<close> on the
  request body followed by \<open>.data\<close> (the exception, or the page object if there is one);
  \<open>JSON_stringify_properties\<close> is \<open>JSON.stringify\<close> on a properties object and
  \<open>JSON_parse_properties\<close> is \<open>JSON.parse\<close> on a text other than \<open>null\<close> (\<open>None\<close> when it
  throws);
  \<open>fetch url content\<close> is \<open>UrlFetchApp.fetch\<close> posting \<open>{content: content}\<close> to \<open>url\<close>
  (the exception, if it throws); \<open>stateWriteError\<close> and \<open>logAppendError\<close> are the
  exceptions of the write to the state sheet and of the append to the log sheet, if they
  throw; \<open>errorStack\<close> is the \<open>stack\<close> of an exception; \<open>now\<close> is \<open>new Date()\<close>.
\<close>

record platform =
  getProperty :: "string \<Rightarrow> string option"
  openById :: "string \<Rightarrow> js_error option"
  JSON_stringify_event :: "event \<Rightarrow> string"
  JSON_parse_event :: "string \<Rightarrow> js_error + page_data option"
  JSON_parse_properties :: "string \<Rightarrow> properties option"
  JSON_stringify_properties :: "properties \<Rightarrow> string"
  formatDate :: "string \<Rightarrow> string"
  fetch :: "string \<Rightarrow> string \<Rightarrow> js_error option"
  stateWriteError :: "js_error option"
  logAppendError :: "js_error option"
  errorStack :: "js_error \<Rightarrow> string"
  now :: nat

section \<open>extractNotionInfo\<close>

text \<open>
  The three getters of \<open>extractNotionInfo\<close>, with their optional chaining:
  \<open>prop?.title?.[0]?.plain_text\<close>, \<open>prop?.status?.name\<close> and \<open>prop?.select?.name\<close>.
\<close>

definition getPlainText :: "notion_property option \<Rightarrow> string option" where
  "getPlainText prop =
     (case prop of None \<Rightarrow> None
      | Some p \<Rightarrow> (case prop_title p of None \<Rightarrow> None
          | Some ts \<Rightarrow> (case ts of [] \<Rightarrow> None | t # _ \<Rightarrow> plain_text t)))"

definition getStatusName :: "notion_property option \<Rightarrow> string option" where
  "getStatusName prop =
     (case prop of None \<Rightarrow> None
      | Some p \<Rightarrow> (case prop_status p of None \<Rightarrow> None | Some s \<Rightarrow> name s))"

definition getSelectName :: "notion_property option \<Rightarrow> string option" where
  "getSelectName prop =
     (case prop of None \<Rightarrow> None
      | Some p \<Rightarrow> (case prop_select p of None \<Rightarrow> None | Some s \<Rightarrow> name s))"

definition extractedInfoLog :: "notion_info \<Rightarrow> string" where
  "extractedInfoLog info =
     LOG_EXTRACTED @ kigyoMei info
       @ LOG_STATUS_LABEL @ or_else (status info) NOT_AVAILABLE
       @ LOG_TANTO_LABEL @ or_else (tanto info) NOT_AVAILABLE
       @ LOG_SHAROUSHI_LABEL @ or_else (sharoushi info) NOT_AVAILABLE"

text \<open>
  \<open>extractNotionInfo\<close> returns the record and the execution log it has extended. The
  test \<open>!properties\<close> holds for a missing \<open>properties\<close> and for \<open>null\<close>.
\<close>

definition extractNotionInfo ::
  "platform \<Rightarrow> page_data \<Rightarrow> string list \<Rightarrow> notion_info \<times> string list" where
  "extractNotionInfo pf notionPageData executionLogs =
     (case properties notionPageData of
        Object props \<Rightarrow>
          (let info = \<lparr>
                 kigyoMei = or_else (getPlainText (props KEY_KIGYOMEI)) KIGYOMEI_FUMEI,
                 status = or_null (getStatusName (props KEY_SHODAN_STATUS)),
                 tanto = or_null (getSelectName (props KEY_TANTO)),
                 sharoushi = or_null (getStatusName (props KEY_SHAROUSHI)),
                 pageUrl = or_else (url notionPageData) URL_FUMEI,
                 lastEditedTime =
                   (case last_edited_time notionPageData of
                      None \<Rightarrow> NICHIJI_FUMEI
                    | Some t \<Rightarrow> if t = [] then NICHIJI_FUMEI else formatDate pf t)\<rparr>
           in (info, executionLogs @ [extractedInfoLog info]))
      | _ \<Rightarrow>
          (\<lparr>kigyoMei = KIGYOMEI_FUMEI, status = None, tanto = None, sharoushi = None,
            pageUrl = URL_FUMEI, lastEditedTime = NICHIJI_FUMEI\<rparr>,
           executionLogs @ [''ERROR: 'properties' object is missing in notionPageData.'']))"
section \<open>Composing the messages\<close>

text \<open>
  \<open>createStatusChangeMessage\<close>. A missing value is shown as \<open>MISETTEI\<close>, also when there
  is no previous record at all. Each of the two fields gets the transition line
  \<open>label **`prev`** -> **`current`** ni henkou\<close> when the shown values differ and the
  plain line \<open>label current\<close> otherwise.
\<close>

definition createStatusChangeMessage :: "notion_info option \<Rightarrow> notion_info \<Rightarrow> string" where
  "createStatusChangeMessage previousInfo currentInfo =
     (let messageBody0 = MSG_KIGYOMEI @ kigyoMei currentInfo @ NL;
          na = MISETTEI;
          prevStatus = (case previousInfo of Some p \<Rightarrow> or_else (status p) na | None \<Rightarrow> na);
          currentStatus = or_else (status currentInfo) na;
          prevTanto = (case previousInfo of Some p \<Rightarrow> or_else (tanto p) na | None \<Rightarrow> na);
          currentTanto = or_else (tanto currentInfo) na;
          messageBody1 =
            (if currentStatus \<noteq> prevStatus
             then messageBody0 @ MSG_STATUS @ MSG_OPEN @ prevStatus @ MSG_ARROW
                  @ currentStatus @ MSG_CHANGED
             else messageBody0 @ MSG_STATUS @ currentStatus @ NL);
          messageBody2 =
            (if currentTanto \<noteq> prevTanto
             then messageBody1 @ MSG_TANTO @ MSG_OPEN @ prevTanto @ MSG_ARROW
                  @ currentTanto @ MSG_CHANGED
             else messageBody1 @ MSG_TANTO @ currentTanto @ NL);
          messageBody = messageBody2 @ MSG_LAST_EDITED @ lastEditedTime currentInfo @ NL
      in MSG_STATUS_TITLE @ MSG_RULE @ messageBody @ MSG_RULE
         @ MSG_DETAILS @ pageUrl currentInfo)"

definition createSharoushiUpdateMessage :: "notion_info option \<Rightarrow> notion_info \<Rightarrow> string" where
  "createSharoushiUpdateMessage previousInfo currentInfo =
     (let prevSharoushi =
            (case previousInfo of Some p \<Rightarrow> or_else (sharoushi p) MISETTEI
             | None \<Rightarrow> HENKOUMAE_NASHI);
          changeMessage =
            MSG_OPEN @ prevSharoushi @ MSG_ARROW
            @ or_else (sharoushi currentInfo) MISETTEI @ MSG_WAS_CHANGED
      in MSG_SHAROUSHI_TITLE @ MSG_RULE
         @ MSG_KIGYOMEI @ kigyoMei currentInfo @ NL
         @ MSG_TANTO @ or_else (tanto currentInfo) MISETTEI @ NL
         @ MSG_RENKEI_STATUS @ changeMessage @ NL
         @ MSG_RULE
         @ MSG_DETAILS @ pageUrl currentInfo)"

section \<open>sendDiscordMessage\<close>

text \<open>
  The result \<open>{status, error}\<close> of a send. The function returns it together with the
  extended execution log and the requests it made, as pairs of URL and message content:
  the network I/O of the call.
\<close>

record send_result =
  send_status :: string
  send_error :: "string option"

type_synonym request = "string \<times> string"

definition sendDiscordMessage ::
  "platform \<Rightarrow> string option \<Rightarrow> string \<Rightarrow> string list
   \<Rightarrow> send_result \<times> string list \<times> request list" where
  "sendDiscordMessage pf webhookUrl content executionLogs =
     (let skipped =
            (\<lparr>send_status = SEND_SKIPPED, send_error = None\<rparr>,
             executionLogs @
               [''WARN: Discord Webhook URL is not configured or invalid. Skipping notification.''],
             [])
      in case webhookUrl of
           None \<Rightarrow> skipped
         | Some u \<Rightarrow>
             if u = [] \<or> \<not> prefix DISCORD_PREFIX u then skipped
             else (case fetch pf u content of
                     None \<Rightarrow>
                       (\<lparr>send_status = SEND_OK, send_error = None\<rparr>,
                        executionLogs @ [''Successfully sent message to Discord.''],
                        [(u, content)])
                   | Some e \<Rightarrow>
                       (\<lparr>send_status = SEND_ERROR, send_error = Some (toString e)\<rparr>,
                        executionLogs @
                          [''ERROR: Sending message to Discord failed: '' @ toString e],
                        [(u, content)])))"

section \<open>handleNotifications\<close>

text \<open>The configuration object of \<open>loadConfig\<close>.\<close>

record config =
  spreadsheetId :: "string option"
  logSheetName :: string
  stateSheetName :: string
  discordUrl :: "string option"
  discordUrlSharoushi :: "string option"

text \<open>The result type of the liaison notification is the text of the property key.\<close>

definition TYPE_SHAROUSHI :: string where
  "TYPE_SHAROUSHI = KEY_SHAROUSHI"

text \<open>An entry \<open>{type, status, error}\<close> of the result array.\<close>

record notification_result =
  res_type :: string
  res_status :: string
  res_error :: "string option"

definition needsStatusNotification :: "notion_info option \<Rightarrow> notion_info \<Rightarrow> bool" where
  "needsStatusNotification previousInfo currentInfo =
     (case previousInfo of
        None \<Rightarrow> truthy (status currentInfo) \<or> truthy (tanto currentInfo)
      | Some p \<Rightarrow> status p \<noteq> status currentInfo \<or> tanto p \<noteq> tanto currentInfo)"

definition needsSharoushiNotification :: "notion_info option \<Rightarrow> notion_info \<Rightarrow> bool" where
  "needsSharoushiNotification previousInfo currentInfo =
     (case previousInfo of
        None \<Rightarrow> truthy (sharoushi currentInfo)
      | Some p \<Rightarrow> sharoushi p \<noteq> sharoushi currentInfo)"

text \<open>
  \<open>handleNotifications\<close> returns the result array, the extended execution log and the
  requests made, in the order of the calls.
\<close>

definition handleNotifications ::
  "platform \<Rightarrow> notion_info option \<Rightarrow> notion_info \<Rightarrow> config \<Rightarrow> string list
   \<Rightarrow> notification_result list \<times> string list \<times> request list" where
  "handleNotifications pf previousInfo currentInfo cfg executionLogs =
     (let (results1, logs1, reqs1) =
            (if needsStatusNotification previousInfo currentInfo
             then (let message = createStatusChangeMessage previousInfo currentInfo;
                       (result, logs, reqs) =
                         sendDiscordMessage pf (discordUrl cfg) message
                           (executionLogs @
                              [''Status or Tanto change detected. Preparing notification.''])
                   in ([\<lparr>res_type = TYPE_STATUS_TANTO, res_status = send_status result,
                          res_error = send_error result\<rparr>], logs, reqs))
             else ([], executionLogs, []));
          (results2, logs2, reqs2) =
            (if needsSharoushiNotification previousInfo currentInfo
             then (let message = createSharoushiUpdateMessage previousInfo currentInfo;
                       (result, logs, reqs) =
                         sendDiscordMessage pf (discordUrlSharoushi cfg) message
                           (logs1 @
                              [''Sharoushi status change detected. Preparing notification.''])
                   in (results1 @
                         [\<lparr>res_type = TYPE_SHAROUSHI, res_status = send_status result,
                           res_error = send_error result\<rparr>], logs, reqs1 @ reqs))
             else (results1, logs1, reqs1))
      in (results2,
          (if results2 = []
           then logs2 @ [''No significant changes detected for notification.'']
           else logs2),
          reqs2))"

section \<open>The state sheet: getPreviousState and updateCurrentState\<close>

text \<open>
  \<open>JSON.parse\<close> on the value of a cell. The empty text and the text of a date are not
  JSON, so \<open>JSON.parse\<close> throws on a blank cell and on a date cell; the text \<open>null\<close> is
  the JSON of \<open>null\<close>; every other text is left to the host, which gives the object it
  denotes or throws. (\<open>updateCurrentState\<close> writes no other text than \<open>null\<close> and the text
  of an object. For a text put there by hand that denotes a number, a string or a boolean,
  the host gives the object without properties: \<open>extractNotionInfo\<close> finds no property in
  such a value and returns the same record as for that object.)
\<close>

definition JSON_parse_cell :: "platform \<Rightarrow> cell \<Rightarrow> properties js_value option" where
  "JSON_parse_cell pf c =
     (case c of
        Text s \<Rightarrow>
          if s = [] then None
          else if s = ''null'' then Some Null
          else map_option Object (JSON_parse_properties pf s)
      | Date d \<Rightarrow> None)"

text \<open>
  \<open>JSON.stringify(newProperties)\<close>: \<open>undefined\<close> for \<open>undefined\<close>, the text \<open>null\<close> for
  \<open>null\<close>, and the text of the host for an object.
\<close>

definition JSON_stringify :: "platform \<Rightarrow> properties js_value \<Rightarrow> string option" where
  "JSON_stringify pf v =
     (case v of
        Undefined \<Rightarrow> None
      | Null \<Rightarrow> Some ''null''
      | Object props \<Rightarrow> Some (JSON_stringify_properties pf props))"

text \<open>
  The value \<open>{rowIndex, properties}\<close> that \<open>getPreviousState\<close> returns; its \<open>properties\<close>
  are what \<open>JSON.parse\<close> returned, an object or \<open>null\<close>.
\<close>

record previous_state =
  rowIndex :: nat
  prev_properties :: "properties js_value"

text \<open>
  The loop \<open>for (let i = data.length - 1; i > 0; i--)\<close> from index \<open>i\<close> down: the header
  row, index 0, is never looked at. The first row whose first cell is the page id ends
  the search, also when its JSON does not parse.
\<close>

fun scanRows ::
  "platform \<Rightarrow> sheet \<Rightarrow> string \<Rightarrow> nat \<Rightarrow> string list
   \<Rightarrow> previous_state option \<times> string list" where
  "scanRows pf data pageId 0 executionLogs =
     (None, executionLogs @ [''No previous state found for this page.''])"
| "scanRows pf data pageId (Suc k) executionLogs =
     (if cellAt (data ! Suc k) 0 = Text pageId
      then (case JSON_parse_cell pf (cellAt (data ! Suc k) 1) of
              Some props \<Rightarrow>
                (Some \<lparr>rowIndex = Suc k + 1, prev_properties = props\<rparr>,
                 executionLogs @
                   [''Previous state found at row '' @ showNat (Suc k + 1) @ ''.''])
            | None \<Rightarrow>
                (None,
                 executionLogs @
                   [''ERROR: Failed to parse stored JSON for page '' @ pageId
                    @ '' at row '' @ showNat (Suc k + 1) @ ''.'']))
      else scanRows pf data pageId k executionLogs)"

text \<open>
  \<open>stateSheet\<close> is the array of \<open>getDataRange().getValues()\<close>. The search starts at the
  last row; on an empty sheet the array has the single row of one blank cell and the loop
  does not run.
\<close>

definition getPreviousState ::
  "platform \<Rightarrow> sheet \<Rightarrow> string \<Rightarrow> string list \<Rightarrow> previous_state option \<times> string list" where
  "getPreviousState pf stateSheet pageId executionLogs =
     scanRows pf stateSheet pageId (length stateSheet - 1)
       (executionLogs @ [''Searching for previous state of page ID: '' @ pageId])"

text \<open>
  \<open>getRange(r, c).setValue(v)\<close> with the row and the column counted from 1: a sheet
  shorter than \<open>r\<close> rows, or a row shorter than \<open>c\<close> cells, is extended with blanks.
\<close>

definition setValue :: "sheet \<Rightarrow> nat \<Rightarrow> nat \<Rightarrow> cell \<Rightarrow> sheet" where
  "setValue sh r c v =
     (let rows = sh @ replicate (r - length sh) [];
          row = rows ! (r - 1);
          row' = (row @ replicate (c - length row) (Text []))[c - 1 := v]
      in rows[r - 1 := row'])"

text \<open>
  \<open>updateCurrentState\<close> returns the new sheet and the extended log, or the exception of
  the write. \<open>appendRow\<close> puts the row \<open>[pageId, newPropertiesJson]\<close> below the last row.
  When the page object has no \<open>properties\<close>, \<open>JSON.stringify\<close> gives \<open>undefined\<close> and the
  cell is left blank. \<open>rowIdx\<close> is the parameter \<open>rowIndex\<close>; row 0 is not a row of a
  sheet, and \<open>getRange\<close> throws on it.
\<close>

definition updateCurrentState ::
  "platform \<Rightarrow> sheet \<Rightarrow> string \<Rightarrow> properties js_value \<Rightarrow> int \<Rightarrow> string list
   \<Rightarrow> js_error + sheet \<times> string list" where
  "updateCurrentState pf stateSheet pageId newProperties rowIdx executionLogs =
     (let newPropertiesJson = JSON_stringify pf newProperties
      in case stateWriteError pf of
           Some e \<Rightarrow> Inl e
         | None \<Rightarrow>
             if rowIdx > - 1
             then (if rowIdx = 0
                   then Inl (JsError ''Exception'' ''The starting row of the range is too small.'')
                   else Inr (setValue stateSheet (nat rowIdx) 2 (toCell newPropertiesJson),
                             executionLogs @
                               [''Updated state for page '' @ pageId @ '' at row ''
                                @ showNat (nat rowIdx) @ ''.'']))
             else Inr (stateSheet @ [[Text pageId, toCell newPropertiesJson]],
                       executionLogs @ [''Appended new state for page '' @ pageId @ ''.'']))"
section \<open>loadConfig and getOrCreateSheet\<close>

text \<open>The double quote of the messages of \<open>loadConfig\<close>.\<close>

definition DQ :: string where
  "DQ = [CHR 0x22]"

definition notSetMessage :: string where
  "notSetMessage = ''Script Property '' @ DQ @ PROP_KEYS_SPREADSHEET_ID @ DQ @ '' is not set.''"

text \<open>
  \<open>loadConfig\<close> reads the five settings and throws when the spreadsheet id is missing or
  empty. It returns the configuration or the exception, and the extended log.
\<close>

definition loadConfig :: "platform \<Rightarrow> string list \<Rightarrow> (js_error + config) \<times> string list" where
  "loadConfig pf executionLogs =
     (let cfg = \<lparr>spreadsheetId = getProperty pf PROP_KEYS_SPREADSHEET_ID,
                 logSheetName =
                   or_else (getProperty pf PROP_KEYS_LOG_SHEET_NAME) LOG_NAME_DEFAULT,
                 stateSheetName = STATE_NAME,
                 discordUrl = getProperty pf PROP_KEYS_DISCORD_URL,
                 discordUrlSharoushi = getProperty pf PROP_KEYS_DISCORD_URL_SHAROUSHI\<rparr>
      in if \<not> truthy (spreadsheetId cfg)
         then (Inl (newError notSetMessage), executionLogs @ [''FATAL: '' @ notSetMessage])
         else (Inr cfg, executionLogs @ [''Configuration loaded successfully.'']))"

text \<open>
  \<open>getOrCreateSheet\<close> on the spreadsheet that the id denotes: an existing sheet is
  returned as it is, a missing one is inserted and gets the header row when \<open>headers\<close>
  is not empty. The sheet object is its name in the spreadsheet, so the function returns
  the spreadsheet after the call. Any exception is wrapped in a new one.
\<close>

definition getOrCreateSheet ::
  "platform \<Rightarrow> spreadsheet \<Rightarrow> string option \<Rightarrow> string \<Rightarrow> string list
   \<Rightarrow> js_error + spreadsheet" where
  "getOrCreateSheet pf book sid sheetName headers =
     (case openById pf (or_else sid ''null'') of
        Some error \<Rightarrow>
          Inl (newError (''Failed to access or setup spreadsheet/sheet. ID: ''
                 @ or_else sid ''null'' @ '', Name: '' @ sheetName
                 @ ''. Details: '' @ errMessage error))
      | None \<Rightarrow>
          (case book sheetName of
             Some sh \<Rightarrow> Inr book
           | None \<Rightarrow>
               Inr (book(sheetName \<mapsto> (if headers \<noteq> [] then [map Text headers] else [])))))"

section \<open>parseWebhookEvent\<close>

record webhook_data =
  rawContents :: string
  fullEventString :: string
  notionPageData :: "page_data option"

definition parseWebhookEvent ::
  "platform \<Rightarrow> event option \<Rightarrow> string list \<Rightarrow> webhook_data \<times> string list" where
  "parseWebhookEvent pf e executionLogs =
     (let logs = executionLogs @ [''Parsing webhook event...'']
      in case e of
           None \<Rightarrow>
             (\<lparr>rawContents = NOT_AVAILABLE,
               fullEventString = ''Event object 'e' is undefined or null'',
               notionPageData = None\<rparr>,
              logs @ [''ERROR: Event object 'e' is undefined or null.''])
         | Some ev \<Rightarrow>
             (let full = JSON_stringify_event pf ev
              in if \<not> truthy (case postData ev of None \<Rightarrow> None | Some pd \<Rightarrow> contents pd)
                 then (\<lparr>rawContents = ''e.postData or e.postData.contents is missing'',
                         fullEventString = full, notionPageData = None\<rparr>,
                       logs @ [''WARN: e.postData or e.postData.contents is missing.''])
                 else (let raw = or_else
                                   (case postData ev of None \<Rightarrow> None | Some pd \<Rightarrow> contents pd) []
                       in case JSON_parse_event pf raw of
                            Inr (Some pageData) \<Rightarrow>
                              (\<lparr>rawContents = raw, fullEventString = full,
                                notionPageData = Some pageData\<rparr>,
                               logs @ [''Notion Page Data parsed successfully.''])
                          | Inr None \<Rightarrow>
                              (\<lparr>rawContents = raw, fullEventString = full,
                                notionPageData = None\<rparr>,
                               logs @ [''WARN: 'data' property for Notion page is missing in parsed content.''])
                          | Inl parseError \<Rightarrow>
                              (\<lparr>rawContents = raw, fullEventString = full,
                                notionPageData = None\<rparr>,
                               logs @ [''ERROR: Parsing received contents as JSON failed: ''
                                       @ toString parseError]))))"

section \<open>logToSheet\<close>

record log_data =
  timestamp :: nat
  ld_rawContents :: string
  ld_fullEventString :: string
  notionInfo :: "notion_info option"
  overallStatus :: string
  discordSendStatus :: "string list"

text \<open>The row that \<open>logToSheet\<close> appends: nine cells, in the order of the headers.\<close>

definition logRow :: "log_data \<Rightarrow> string list \<Rightarrow> cell list" where
  "logRow ld executionLogs =
     (let (k, s, t) =
            (case notionInfo ld of
               Some info \<Rightarrow> (Text (kigyoMei info), toCell (status info), toCell (tanto info))
             | None \<Rightarrow> (Text NOT_AVAILABLE, Text NOT_AVAILABLE, Text NOT_AVAILABLE))
      in [Date (timestamp ld), k, s, t, Text (overallStatus ld),
          Text (join NL (discordSendStatus ld)), Text (join NL executionLogs),
          Text (ld_rawContents ld), Text (ld_fullEventString ld)])"

definition sheetData :: "spreadsheet \<Rightarrow> string \<Rightarrow> sheet" where
  "sheetData book sheetName = (case book sheetName of None \<Rightarrow> [] | Some sh \<Rightarrow> sh)"

text \<open>
  \<open>logToSheet\<close> returns the spreadsheet after the append and what it wrote with
  \<open>Logger.log\<close>: an exception of the append is caught and only logged there.
\<close>

definition logToSheet ::
  "platform \<Rightarrow> spreadsheet \<Rightarrow> string \<Rightarrow> log_data \<Rightarrow> string list
   \<Rightarrow> spreadsheet \<times> string list" where
  "logToSheet pf book sheetName ld executionLogs =
     (case logAppendError pf of
        None \<Rightarrow> (book(sheetName \<mapsto> sheetData book sheetName @ [logRow ld executionLogs]), [])
      | Some error \<Rightarrow>
          (book, [''CRITICAL: Error appending final log to spreadsheet: '' @ toString error
                  @ NL @ errorStack pf error]))"

section \<open>processWebhook and doPost\<close>

text \<open>
  The variables of one call of \<open>processWebhook\<close>: the spreadsheet, \<open>executionLogs\<close>,
  \<open>logData\<close>, \<open>logSheet\<close> (undefined until the log sheet is there), the requests sent,
  the array \<open>notificationResults\<close> (empty until step 6), the output of \<open>Logger.log\<close>, and
  the exception that left the \<open>try\<close> block, if one did.
\<close>

record run =
  book :: spreadsheet
  executionLogs :: "string list"
  logData :: log_data
  logSheet :: "string option"
  requests :: "request list"
  notificationResults :: "notification_result list"
  loggerLog :: "string list"
  thrown :: "js_error option"

text \<open>
  The row index that \<open>processWebhook\<close> passes to \<open>updateCurrentState\<close>:
  \<open>previousState ? previousState.rowIndex : -1\<close>.
\<close>

definition rowIndexOf :: "previous_state option \<Rightarrow> int" where
  "rowIndexOf previousState = (case previousState of Some st \<Rightarrow> int (rowIndex st) | None \<Rightarrow> - 1)"

definition throw :: "js_error \<Rightarrow> run \<Rightarrow> run" where
  "throw error r = r\<lparr>thrown := Some error\<rparr>"

text \<open>
  Steps 4 to 7 of the \<open>try\<close> block, for a page object with the page id \<open>pageId\<close>.
\<close>

definition processPage :: "platform \<Rightarrow> config \<Rightarrow> page_data \<Rightarrow> string \<Rightarrow> run \<Rightarrow> run" where
  "processPage pf cfg currentPageData pageId r =
     (let (currentInfo, logs4) = extractNotionInfo pf currentPageData (executionLogs r);
          ld4 = (logData r)\<lparr>notionInfo := Some currentInfo\<rparr>;
          stateSheet = sheetData (book r) (stateSheetName cfg);
          (previousState, logs5) = getPreviousState pf stateSheet pageId logs4;
          (previousInfo, logs5') =
            (case previousState of
               None \<Rightarrow> (None, logs5)
             | Some st \<Rightarrow>
                 (let (info, logs) =
                        extractNotionInfo pf
                          \<lparr>page_id = None, url = None, last_edited_time = None,
                            properties = prev_properties st\<rparr> logs5
                  in (Some info, logs)));
          (results, logs6, reqs) = handleNotifications pf previousInfo currentInfo cfg logs5';
          ld6 = ld4\<lparr>discordSendStatus := map (\<lambda>x. res_type x @ '': '' @ res_status x) results,
                    overallStatus :=
                      (if list_ex (\<lambda>x. truthy (res_error x)) results
                       then STATUS_ICHIBU_ERROR else overallStatus ld4)\<rparr>;
          r6 = r\<lparr>executionLogs := logs6, logData := ld6, requests := requests r @ reqs,
                 notificationResults := results\<rparr>
      in case updateCurrentState pf stateSheet pageId (properties currentPageData)
                (rowIndexOf previousState) logs6 of
           Inl error \<Rightarrow> throw error r6
         | Inr (stateSheet', logs7) \<Rightarrow>
             r6\<lparr>book := (book r6)(stateSheetName cfg \<mapsto> stateSheet'),
                executionLogs := logs7\<rparr>)"

text \<open>Step 3 and the check of the page object and its id.\<close>

definition processEvent :: "platform \<Rightarrow> config \<Rightarrow> event option \<Rightarrow> run \<Rightarrow> run" where
  "processEvent pf cfg e r =
     (let (webhookData, logs3) = parseWebhookEvent pf e (executionLogs r);
          r3 = r\<lparr>executionLogs := logs3,
                 logData := (logData r)\<lparr>ld_rawContents := rawContents webhookData,
                                         ld_fullEventString := fullEventString webhookData\<rparr>\<rparr>
      in case notionPageData webhookData of
           None \<Rightarrow> throw (newError ''Notion page data or Page ID could not be parsed.'') r3
         | Some currentPageData \<Rightarrow>
             (case page_id currentPageData of
                None \<Rightarrow> throw (newError ''Notion page data or Page ID could not be parsed.'') r3
              | Some pageId \<Rightarrow>
                  if pageId = []
                  then throw (newError ''Notion page data or Page ID could not be parsed.'') r3
                  else processPage pf cfg currentPageData pageId r3))"

text \<open>The \<open>try\<close> block: steps 1 and 2, then the rest.\<close>

definition tryBlock :: "platform \<Rightarrow> event option \<Rightarrow> run \<Rightarrow> run" where
  "tryBlock pf e r =
     (case loadConfig pf (executionLogs r) of
        (Inl error, logs1) \<Rightarrow> throw error (r\<lparr>executionLogs := logs1\<rparr>)
      | (Inr cfg, logs1) \<Rightarrow>
          (case getOrCreateSheet pf (book r) (spreadsheetId cfg) (logSheetName cfg)
                  LOG_HEADERS of
             Inl error \<Rightarrow> throw error (r\<lparr>executionLogs := logs1\<rparr>)
           | Inr book1 \<Rightarrow>
               (case getOrCreateSheet pf book1 (spreadsheetId cfg) (stateSheetName cfg)
                       STATE_HEADERS of
                  Inl error \<Rightarrow>
                    throw error
                      (r\<lparr>executionLogs := logs1, book := book1,
                         logSheet := Some (logSheetName cfg)\<rparr>)
                | Inr book2 \<Rightarrow>
                    processEvent pf cfg e
                      (r\<lparr>executionLogs := logs1, book := book2,
                         logSheet := Some (logSheetName cfg)\<rparr>))))"

text \<open>The \<open>catch\<close> block, entered with the exception thrown.\<close>

definition catchBlock :: "platform \<Rightarrow> run \<Rightarrow> run" where
  "catchBlock pf r =
     (case thrown r of
        None \<Rightarrow> r
      | Some error \<Rightarrow>
          r\<lparr>executionLogs :=
              executionLogs r @
                [''Critical Error: '' @ errMessage error @ '' '' @ NL @ errorStack pf error],
            logData := (logData r)\<lparr>overallStatus := STATUS_CHIMEITEKI_ERROR\<rparr>,
            loggerLog :=
              loggerLog r @ [''Critical Error in processWebhook: '' @ toString error]\<rparr>)"

text \<open>The \<open>finally\<close> block: the log row, or a trace when there is no log sheet.\<close>

definition finallyBlock :: "platform \<Rightarrow> run \<Rightarrow> run" where
  "finallyBlock pf r =
     (case logSheet r of
        Some sheetName \<Rightarrow>
          (let (book', trace) = logToSheet pf (book r) sheetName (logData r) (executionLogs r)
           in r\<lparr>book := book', loggerLog := loggerLog r @ trace\<rparr>)
      | None \<Rightarrow>
          r\<lparr>loggerLog :=
              loggerLog r @
                [''CRITICAL: Log sheet was not available. Logs:'' @ NL
                 @ join NL (executionLogs r)]\<rparr>)"

record result =
  result_status :: string
  result_message :: string

text \<open>The variables as \<open>processWebhook\<close> declares them, before the \<open>try\<close> block.\<close>

definition initialRun :: "platform \<Rightarrow> spreadsheet \<Rightarrow> run" where
  "initialRun pf book0 =
     \<lparr>book = book0,
      executionLogs = [''--- Webhook Execution Start ---''],
      logData = \<lparr>timestamp = now pf, ld_rawContents = NOT_AVAILABLE,
                  ld_fullEventString = NOT_AVAILABLE, notionInfo = None,
                  overallStatus = STATUS_SEIKOU, discordSendStatus = []\<rparr>,
      logSheet = None, requests = [], notificationResults = [],
      loggerLog = [], thrown = None\<rparr>"

text \<open>
  \<open>processWebhook\<close> on the spreadsheet \<open>book0\<close>: it returns the result object and the
  final values of the variables, among them the spreadsheet after the call.
\<close>

definition processWebhook :: "platform \<Rightarrow> spreadsheet \<Rightarrow> event option \<Rightarrow> result \<times> run" where
  "processWebhook pf book0 e =
     (let r1 = finallyBlock pf (catchBlock pf (tryBlock pf e (initialRun pf book0)));
          logs = executionLogs r1 @ [''--- Webhook Execution End ---''];
          r2 = r1\<lparr>executionLogs := logs, loggerLog := loggerLog r1 @ [join NL logs]\<rparr>
      in (\<lparr>result_status = overallStatus (logData r2), result_message = MESSAGE_PROCESSED\<rparr>,
          r2))"

text \<open>
  \<open>doPost\<close> answers with the JSON of \<open>{status, message}\<close> taken from the result: the
  model returns that object.
\<close>

definition doPost :: "platform \<Rightarrow> spreadsheet \<Rightarrow> event option \<Rightarrow> result" where
  "doPost pf book0 e =
     (let res = fst (processWebhook pf book0 e)
      in \<lparr>result_status = result_status res, result_message = result_message res\<rparr>)"

section \<open>The values computed, apart from the execution log\<close>

text \<open>
  Every function above threads the execution log through its result. The values it
  computes do not depend on the log; they are named here, evaluated on the empty log.
  \<open>configOf\<close> is the configuration of \<open>loadConfig\<close> or its exception, \<open>sheetsOf\<close> the
  spreadsheet after the two calls of \<open>getOrCreateSheet\<close> of step 2 or the exception of
  the first that throws, \<open>pageOf\<close> the page object of \<open>parseWebhookEvent\<close>.
  \<open>infoOf\<close> is the record of \<open>extractNotionInfo\<close>, \<open>previousStateOf\<close> the value of
  \<open>getPreviousState\<close>, \<open>previousInfoOf\<close> the record \<open>previousInfo\<close> of step 5 (extracted
  from \<open>{properties: previousState.properties}\<close>, or \<open>null\<close>), \<open>resultsOf\<close> and
  \<open>requestsOf\<close> the result array and the requests of \<open>handleNotifications\<close>, and
  \<open>writtenSheet\<close> the state sheet after \<open>updateCurrentState\<close>, or its exception.
\<close>

definition configOf :: "platform \<Rightarrow> js_error + config" where
  "configOf pf = fst (loadConfig pf [])"

definition sheetsOf :: "platform \<Rightarrow> spreadsheet \<Rightarrow> config \<Rightarrow> js_error + spreadsheet" where
  "sheetsOf pf book0 cfg =
     (case getOrCreateSheet pf book0 (spreadsheetId cfg) (logSheetName cfg) LOG_HEADERS of
        Inl error \<Rightarrow> Inl error
      | Inr book1 \<Rightarrow>
          getOrCreateSheet pf book1 (spreadsheetId cfg) (stateSheetName cfg) STATE_HEADERS)"

definition pageOf :: "platform \<Rightarrow> event option \<Rightarrow> page_data option" where
  "pageOf pf e = notionPageData (fst (parseWebhookEvent pf e []))"

definition infoOf :: "platform \<Rightarrow> page_data \<Rightarrow> notion_info" where
  "infoOf pf pd = fst (extractNotionInfo pf pd [])"

definition previousStateOf :: "platform \<Rightarrow> sheet \<Rightarrow> string \<Rightarrow> previous_state option" where
  "previousStateOf pf stateSheet pageId = fst (getPreviousState pf stateSheet pageId [])"

definition previousInfoOf :: "platform \<Rightarrow> sheet \<Rightarrow> string \<Rightarrow> notion_info option" where
  "previousInfoOf pf stateSheet pageId =
     map_option
       (\<lambda>st. infoOf pf \<lparr>page_id = None, url = None, last_edited_time = None,
                          properties = prev_properties st\<rparr>)
       (previousStateOf pf stateSheet pageId)"

definition resultsOf ::
  "platform \<Rightarrow> notion_info option \<Rightarrow> notion_info \<Rightarrow> config \<Rightarrow> notification_result list" where
  "resultsOf pf previousInfo currentInfo cfg =
     fst (handleNotifications pf previousInfo currentInfo cfg [])"

definition requestsOf ::
  "platform \<Rightarrow> notion_info option \<Rightarrow> notion_info \<Rightarrow> config \<Rightarrow> request list" where
  "requestsOf pf previousInfo currentInfo cfg =
     snd (snd (handleNotifications pf previousInfo currentInfo cfg []))"

definition writtenSheet ::
  "platform \<Rightarrow> sheet \<Rightarrow> string \<Rightarrow> properties js_value \<Rightarrow> int \<Rightarrow> js_error + sheet" where
  "writtenSheet pf stateSheet pageId newProperties rowIdx =
     map_sum id fst (updateCurrentState pf stateSheet pageId newProperties rowIdx [])"

section \<open>Counting the rows of a page\<close>

text \<open>The number of rows of a sheet whose first cell is the page id.\<close>

definition rowCount :: "sheet \<Rightarrow> string \<Rightarrow> nat" where
  "rowCount sh pageId = length (filter (\<lambda>row. cellAt row 0 = Text pageId) sh)"

section \<open>A concrete host and a concrete webhook\<close>

text \<open>
  A page P1 of the company Acme with the status Negotiating and the person in charge
  Tanaka, the body and the event that carry it, and a host on which the spreadsheet id is
  set, no Discord URL is set, nothing throws, the body parses to the page and the stored
  text \<open>sampleJson\<close> parses to its properties.
\<close>

definition sampleProps :: properties where
  "sampleProps =
     [KEY_KIGYOMEI \<mapsto> \<lparr>prop_title = Some [\<lparr>plain_text = Some ''Acme''\<rparr>],
                       prop_status = None, prop_select = None\<rparr>,
      KEY_SHODAN_STATUS \<mapsto> \<lparr>prop_title = None,
                            prop_status = Some \<lparr>name = Some ''Negotiating''\<rparr>,
                            prop_select = None\<rparr>,
      KEY_TANTO \<mapsto> \<lparr>prop_title = None, prop_status = None,
                    prop_select = Some \<lparr>name = Some ''Tanaka''\<rparr>\<rparr>]"

definition samplePage :: page_data where
  "samplePage = \<lparr>page_id = Some ''P1'', url = Some ''https://www.notion.so/P1'',
                 last_edited_time = Some ''2025-01-01T00:00:00.000Z'',
                 properties = Object sampleProps\<rparr>"

definition sampleBody :: string where
  "sampleBody = ''{data: P1}''"

definition sampleJson :: string where
  "sampleJson = ''{properties of P1}''"

definition sampleEvent :: "event option" where
  "sampleEvent = Some \<lparr>postData = Some \<lparr>contents = Some sampleBody\<rparr>\<rparr>"

definition samplePlatform :: platform where
  "samplePlatform =
     \<lparr>getProperty = (\<lambda>k. if k = PROP_KEYS_SPREADSHEET_ID then Some ''book-1'' else None),
      openById = (\<lambda>i. None),
      JSON_stringify_event = (\<lambda>ev. ''{event}''),
      JSON_parse_event =
        (\<lambda>s. if s = sampleBody then Inr (Some samplePage)
             else Inl (JsError ''SyntaxError'' ''Unexpected token'')),
      JSON_parse_properties = (\<lambda>s. if s = sampleJson then Some sampleProps else None),
      JSON_stringify_properties = (\<lambda>p. sampleJson),
      formatDate = (\<lambda>t. ''2025/01/01 09:00:00''),
      fetch = (\<lambda>u c. None),
      stateWriteError = None,
      logAppendError = None,
      errorStack = (\<lambda>e. []),
      now = 0\<rparr>"

text \<open>The same host with the Discord URL of the status notification set.\<close>

definition sampleUrl :: string where
  "sampleUrl = DISCORD_PREFIX @ ''1/token''"

definition notifyingPlatform :: platform where
  "notifyingPlatform =
     samplePlatform\<lparr>getProperty :=
       (\<lambda>k. if k = PROP_KEYS_SPREADSHEET_ID then Some ''book-1''
            else if k = PROP_KEYS_DISCORD_URL then Some sampleUrl else None)\<rparr>"

text \<open>The same host with no script property set.\<close>

definition unconfiguredPlatform :: platform where
  "unconfiguredPlatform = samplePlatform\<lparr>getProperty := (\<lambda>k. None)\<rparr>"

text \<open>An event without \<open>postData\<close>.\<close>

definition emptyEvent :: "event option" where
  "emptyEvent = Some \<lparr>postData = None\<rparr>"

text \<open>A state sheet whose row for P1 holds a text that is not JSON.\<close>

definition corruptSheet :: sheet where
  "corruptSheet = [map Text STATE_HEADERS, [Text ''P1'', Text ''{broken'']]"

text \<open>The configuration that \<open>loadConfig\<close> reads on the sample host.\<close>

definition sampleConfig :: config where
  "sampleConfig = \<lparr>spreadsheetId = Some ''book-1'', logSheetName = LOG_NAME_DEFAULT,
                   stateSheetName = STATE_NAME, discordUrl = None,
                   discordUrlSharoushi = None\<rparr>"

text \<open>The configuration that \<open>loadConfig\<close> reads on the host with the Discord URL.\<close>

definition notifyingConfig :: config where
  "notifyingConfig = sampleConfig\<lparr>discordUrl := Some sampleUrl\<rparr>"

text \<open>A spreadsheet without sheets.\<close>

definition emptyBook :: spreadsheet where
  "emptyBook = Map.empty"

text \<open>The spreadsheet after step 2 of a first call: the two sheets with their headers.\<close>

definition freshBook :: spreadsheet where
  "freshBook = emptyBook(LOG_NAME_DEFAULT \<mapsto> [map Text LOG_HEADERS],
                         STATE_NAME \<mapsto> [map Text STATE_HEADERS])"

text \<open>
  A spreadsheet whose state sheet exists and is empty: it was made by hand, without the
  header row that \<open>getOrCreateSheet\<close> gives a sheet it inserts.
\<close>

definition emptyStateBook :: spreadsheet where
  "emptyStateBook = emptyBook(STATE_NAME \<mapsto> [])"

text \<open>A spreadsheet whose state sheet is \<open>corruptSheet\<close>.\<close>

definition corruptBook :: spreadsheet where
  "corruptBook = emptyBook(STATE_NAME \<mapsto> corruptSheet)"

chapter \<open>Properties\<close>

section \<open>extractNotionInfo\<close>

text \<open>
  The status, the person in charge and the liaison status of an extracted record are
  \<open>null\<close> or a non-empty string, so for them truthy means not \<open>null\<close>.
\<close>

lemma extracted_truthy:
  "truthy (status (fst (extractNotionInfo pf pd l))) = (status (fst (extractNotionInfo pf pd l)) \<noteq> None)"
  "truthy (tanto (fst (extractNotionInfo pf pd l))) = (tanto (fst (extractNotionInfo pf pd l)) \<noteq> None)"
  "truthy (sharoushi (fst (extractNotionInfo pf pd l))) = (sharoushi (fst (extractNotionInfo pf pd l)) \<noteq> None)"
  by (auto simp: extractNotionInfo_def Let_def truthy_def or_null_def
      split: option.splits js_value.splits)

lemma sample_info:
  "fst (extractNotionInfo samplePlatform samplePage []) =
     \<lparr>kigyoMei = ''Acme'', status = Some ''Negotiating'', tanto = Some ''Tanaka'',
      sharoushi = None, pageUrl = ''https://www.notion.so/P1'',
      lastEditedTime = ''2025/01/01 09:00:00''\<rparr>"
  by (simp add: extractNotionInfo_def samplePage_def sampleProps_def samplePlatform_def
      getPlainText_def getStatusName_def getSelectName_def or_else_def or_null_def Let_def
      KEY_KIGYOMEI_def KEY_SHODAN_STATUS_def KEY_TANTO_def KEY_SHAROUSHI_def)

text \<open>
  Claim C3, as amended. For every page object whose \<open>properties\<close> is missing (or is
  \<open>null\<close>), \<open>extractNotionInfo\<close> returns (it cannot throw: its result is a record) the
  record whose company name, URL and last edit time are the placeholders for an unknown
  value, and whose status, person in charge and liaison status are \<open>null\<close>.
\<close>

theorem extractNotionInfo_missing_properties:
  "properties pd = Undefined \<or> properties pd = Null \<Longrightarrow>
   fst (extractNotionInfo pf pd logs) =
     \<lparr>kigyoMei = KIGYOMEI_FUMEI, status = None, tanto = None, sharoushi = None,
      pageUrl = URL_FUMEI, lastEditedTime = NICHIJI_FUMEI\<rparr>"
  by (auto simp add: extractNotionInfo_def)

theorem extractNotionInfo_missing_properties_witness:
  "properties (samplePage\<lparr>properties := Undefined\<rparr>) = Undefined \<and>
   fst (extractNotionInfo samplePlatform (samplePage\<lparr>properties := Undefined\<rparr>) []) =
     \<lparr>kigyoMei = KIGYOMEI_FUMEI, status = None, tanto = None, sharoushi = None,
      pageUrl = URL_FUMEI, lastEditedTime = NICHIJI_FUMEI\<rparr>"
  using extractNotionInfo_missing_properties
    [of "samplePage\<lparr>properties := Undefined\<rparr>" samplePlatform "[]"]
  by (simp add: samplePage_def)

text \<open>
  Claim C3 as stated asks for a placeholder in every business field. On a page object
  without \<open>properties\<close> the status is \<open>null\<close>, not a placeholder.
\<close>

theorem extractNotionInfo_status_null_counterexample:
  "status (fst (extractNotionInfo samplePlatform
      \<lparr>page_id = Some ''P1'', url = None, last_edited_time = None, properties = Undefined\<rparr> []))
   = None"
  by (simp add: extractNotionInfo_def)

section \<open>handleNotifications\<close>

lemma types_differ: "TYPE_STATUS_TANTO \<noteq> TYPE_SHAROUSHI"
  by (simp add: TYPE_STATUS_TANTO_def TYPE_SHAROUSHI_def KEY_SHAROUSHI_def)

text \<open>The result of a send does not depend on the execution log.\<close>

lemma sendDiscordMessage_fst:
  "logs \<noteq> [] \<Longrightarrow>
   fst (sendDiscordMessage pf u m logs) = fst (sendDiscordMessage pf u m [])"
  by (simp add: sendDiscordMessage_def Let_def split: option.splits)

lemma handleNotifications_results:
  "fst (handleNotifications pf p c cfg logs) =
     (if needsStatusNotification p c
      then [\<lparr>res_type = TYPE_STATUS_TANTO,
             res_status = send_status (fst (sendDiscordMessage pf (discordUrl cfg) (createStatusChangeMessage p c) [])),
             res_error = send_error (fst (sendDiscordMessage pf (discordUrl cfg) (createStatusChangeMessage p c) []))\<rparr>]
      else []) @
     (if needsSharoushiNotification p c
      then [\<lparr>res_type = TYPE_SHAROUSHI,
             res_status = send_status (fst (sendDiscordMessage pf (discordUrlSharoushi cfg) (createSharoushiUpdateMessage p c) [])),
             res_error = send_error (fst (sendDiscordMessage pf (discordUrlSharoushi cfg) (createSharoushiUpdateMessage p c) []))\<rparr>]
      else [])"
  by (simp add: handleNotifications_def Let_def case_prod_beta sendDiscordMessage_fst)

lemma dispatched_status:
  "(\<exists>x\<in>set (fst (handleNotifications pf p c cfg logs)). res_type x = TYPE_STATUS_TANTO)
     = needsStatusNotification p c"
  using types_differ by (auto simp add: handleNotifications_results)

lemma dispatched_sharoushi:
  "(\<exists>x\<in>set (fst (handleNotifications pf p c cfg logs)). res_type x = TYPE_SHAROUSHI)
     = needsSharoushiNotification p c"
  using types_differ by (auto simp add: handleNotifications_results)

lemma dispatched_length:
  "length (fst (handleNotifications pf p c cfg logs)) =
     (if needsStatusNotification p c then 1 else 0) +
     (if needsSharoushiNotification p c then 1 else 0)"
  by (simp add: handleNotifications_results)

text \<open>
  Claim C1. Let \<open>c\<close> be the record extracted from the current page object and \<open>p\<close> the
  record extracted from the stored one, \<open>None\<close> when the page has no stored state. A
  notification is dispatched when \<open>handleNotifications\<close> calls \<open>sendDiscordMessage\<close> for
  it, that is when the result array has an entry of its type. The status and assignee
  notification is dispatched if and only if \<open>p\<close> is \<open>null\<close> and the status or the assignee
  of \<open>c\<close> is not \<open>null\<close>, or \<open>p\<close> is not \<open>null\<close> and differs from \<open>c\<close> in the status or
  the assignee. The liaison notification is dispatched if and only if \<open>p\<close> is \<open>null\<close> and
  the liaison status of \<open>c\<close> is not \<open>null\<close>, or \<open>p\<close> is not \<open>null\<close> and differs from \<open>c\<close>
  in the liaison status. The two are decided independently: the number of entries is the
  number of conditions that hold, so zero, one or two.
\<close>

theorem handleNotifications_dispatch:
  "let c = fst (extractNotionInfo pf pd l1);
       p = map_option (\<lambda>q. fst (extractNotionInfo pf q l2)) prev;
       results = fst (handleNotifications pf p c cfg logs)
   in ((\<exists>x\<in>set results. res_type x = TYPE_STATUS_TANTO) \<longleftrightarrow>
         (p = None \<and> (status c \<noteq> None \<or> tanto c \<noteq> None)) \<or>
         (\<exists>p'. p = Some p' \<and> (status p' \<noteq> status c \<or> tanto p' \<noteq> tanto c)))
    \<and> ((\<exists>x\<in>set results. res_type x = TYPE_SHAROUSHI) \<longleftrightarrow>
         (p = None \<and> sharoushi c \<noteq> None) \<or>
         (\<exists>p'. p = Some p' \<and> sharoushi p' \<noteq> sharoushi c))
    \<and> length results =
         (if \<exists>x\<in>set results. res_type x = TYPE_STATUS_TANTO then 1 else 0) +
         (if \<exists>x\<in>set results. res_type x = TYPE_SHAROUSHI then 1 else 0)"
  unfolding Let_def dispatched_status dispatched_sharoushi dispatched_length
  by (cases prev)
     (simp_all add: needsStatusNotification_def needsSharoushiNotification_def extracted_truthy)

theorem handleNotifications_dispatch_witness:
  "(\<exists>x\<in>set (fst (handleNotifications samplePlatform None
        (fst (extractNotionInfo samplePlatform samplePage [])) sampleConfig [])).
      res_type x = TYPE_STATUS_TANTO) \<and>
   \<not> (\<exists>x\<in>set (fst (handleNotifications samplePlatform None
        (fst (extractNotionInfo samplePlatform samplePage [])) sampleConfig [])).
      res_type x = TYPE_SHAROUSHI) \<and>
   length (fst (handleNotifications samplePlatform None
        (fst (extractNotionInfo samplePlatform samplePage [])) sampleConfig [])) = 1"
  using handleNotifications_dispatch [of samplePlatform samplePage "[]" "[]" None sampleConfig "[]"]
  unfolding Let_def sample_info
  by simp

section \<open>The overall status of processWebhook\<close>

lemma processPage_status:
  "overallStatus (logData r) \<in> S \<Longrightarrow> STATUS_ICHIBU_ERROR \<in> S \<Longrightarrow>
   overallStatus (logData (processPage pf cfg pd pid r)) \<in> S"
  by (simp add: processPage_def Let_def case_prod_beta throw_def split: sum.splits)

lemma processEvent_status:
  "overallStatus (logData r) \<in> S \<Longrightarrow> STATUS_ICHIBU_ERROR \<in> S \<Longrightarrow>
   overallStatus (logData (processEvent pf cfg e r)) \<in> S"
  by (auto simp add: processEvent_def Let_def case_prod_beta throw_def
      split: option.splits intro!: processPage_status)

lemma tryBlock_status:
  "overallStatus (logData r) \<in> S \<Longrightarrow> STATUS_ICHIBU_ERROR \<in> S \<Longrightarrow>
   overallStatus (logData (tryBlock pf e r)) \<in> S"
  by (auto simp add: tryBlock_def throw_def split: prod.splits sum.splits
      intro!: processEvent_status)

lemma catchBlock_status:
  "overallStatus (logData (catchBlock pf r)) =
     (if thrown r = None then overallStatus (logData r) else STATUS_CHIMEITEKI_ERROR)"
  by (simp add: catchBlock_def split: option.splits)

lemma finallyBlock_logData: "logData (finallyBlock pf r) = logData r"
  by (simp add: finallyBlock_def case_prod_beta split: option.splits)

text \<open>
  The status returned is fatal when an exception left the \<open>try\<close> block, and the status
  that the \<open>try\<close> block set otherwise.
\<close>

lemma processWebhook_status:
  "result_status (fst (processWebhook pf book0 e)) =
     (if thrown (tryBlock pf e (initialRun pf book0)) = None
      then overallStatus (logData (tryBlock pf e (initialRun pf book0)))
      else STATUS_CHIMEITEKI_ERROR)"
  by (simp add: processWebhook_def Let_def finallyBlock_logData catchBlock_status)

lemma statuses_distinct:
  "distinct [STATUS_SEIKOU, STATUS_ICHIBU_ERROR, STATUS_CHIMEITEKI_ERROR]"
  by (simp add: STATUS_SEIKOU_def STATUS_ICHIBU_ERROR_def STATUS_CHIMEITEKI_ERROR_def)

text \<open>
  Claim C10. For every event, every host and every spreadsheet, the object that \<open>doPost\<close>
  serialises has the two fields of the result of \<open>processWebhook\<close> and nothing else; its
  status is one of the three strings for success, partial error and fatal error, which
  are pairwise different, and its message is the constant \<open>Webhook processed.\<close>: no text
  of an exception is part of the response.
\<close>

theorem doPost_result:
  "doPost pf book0 e = fst (processWebhook pf book0 e) \<and>
   result_status (doPost pf book0 e)
     \<in> {STATUS_SEIKOU, STATUS_ICHIBU_ERROR, STATUS_CHIMEITEKI_ERROR} \<and>
   distinct [STATUS_SEIKOU, STATUS_ICHIBU_ERROR, STATUS_CHIMEITEKI_ERROR] \<and>
   result_message (doPost pf book0 e) = MESSAGE_PROCESSED"
proof -
  have eq: "doPost pf book0 e = fst (processWebhook pf book0 e)"
    by (simp add: doPost_def Let_def)
  have msg: "result_message (fst (processWebhook pf book0 e)) = MESSAGE_PROCESSED"
    by (simp add: processWebhook_def Let_def)
  have "overallStatus (logData (tryBlock pf e (initialRun pf book0)))
          \<in> {STATUS_SEIKOU, STATUS_ICHIBU_ERROR, STATUS_CHIMEITEKI_ERROR}"
    by (rule tryBlock_status) (simp_all add: initialRun_def)
  then have st: "result_status (fst (processWebhook pf book0 e))
     \<in> {STATUS_SEIKOU, STATUS_ICHIBU_ERROR, STATUS_CHIMEITEKI_ERROR}"
    unfolding processWebhook_status by simp
  show ?thesis using eq msg st statuses_distinct by simp
qed

section \<open>The requests of a call\<close>

lemma sendDiscordMessage_unusable:
  "\<forall>s. u = Some s \<longrightarrow> \<not> prefix DISCORD_PREFIX s \<Longrightarrow>
   sendDiscordMessage pf u m logs =
     (\<lparr>send_status = SEND_SKIPPED, send_error = None\<rparr>,
      logs @ [''WARN: Discord Webhook URL is not configured or invalid. Skipping notification.''],
      [])"
  by (simp add: sendDiscordMessage_def Let_def split: option.splits)

lemma sendDiscordMessage_requests:
  "logs \<noteq> [] \<Longrightarrow>
   snd (snd (sendDiscordMessage pf u m logs)) = snd (snd (sendDiscordMessage pf u m []))"
  by (simp add: sendDiscordMessage_def Let_def split: option.splits)

lemma sendDiscordMessage_error:
  "truthy (send_error (fst (sendDiscordMessage pf u m logs))) \<Longrightarrow>
   \<exists>x\<in>set (snd (snd (sendDiscordMessage pf u m logs))). fetch pf (fst x) (snd x) \<noteq> None"
  by (auto simp add: sendDiscordMessage_def Let_def truthy_def split: option.splits if_splits)

lemma handleNotifications_requests:
  "snd (snd (handleNotifications pf p c cfg logs)) =
     (if needsStatusNotification p c
      then snd (snd (sendDiscordMessage pf (discordUrl cfg) (createStatusChangeMessage p c) []))
      else []) @
     (if needsSharoushiNotification p c
      then snd (snd (sendDiscordMessage pf (discordUrlSharoushi cfg) (createSharoushiUpdateMessage p c) []))
      else [])"
  by (simp add: handleNotifications_def Let_def case_prod_beta sendDiscordMessage_requests)

lemma handleNotifications_error:
  "list_ex (\<lambda>x. truthy (res_error x)) (fst (handleNotifications pf p c cfg logs)) \<Longrightarrow>
   \<exists>x\<in>set (snd (snd (handleNotifications pf p c cfg logs))). fetch pf (fst x) (snd x) \<noteq> None"
  unfolding handleNotifications_results handleNotifications_requests
  using sendDiscordMessage_error [of pf "discordUrl cfg" "createStatusChangeMessage p c" "[]"]
        sendDiscordMessage_error [of pf "discordUrlSharoushi cfg" "createSharoushiUpdateMessage p c" "[]"]
  by (cases "needsStatusNotification p c"; cases "needsSharoushiNotification p c")
     (auto simp del: split_paired_Ex split_paired_All)

lemma handleNotifications_unusable:
  "\<forall>s. discordUrl cfg = Some s \<longrightarrow> \<not> prefix DISCORD_PREFIX s \<Longrightarrow>
   \<forall>s. discordUrlSharoushi cfg = Some s \<longrightarrow> \<not> prefix DISCORD_PREFIX s \<Longrightarrow>
   snd (snd (handleNotifications pf p c cfg logs)) = []"
  by (simp add: handleNotifications_requests sendDiscordMessage_unusable)

section \<open>Values and the execution log\<close>

text \<open>The values computed do not depend on the execution log.\<close>

lemma extractNotionInfo_fst: "fst (extractNotionInfo pf pd logs) = infoOf pf pd"
  by (simp add: infoOf_def extractNotionInfo_def Let_def split: option.splits js_value.splits)

lemma scanRows_fst:
  "fst (scanRows pf sh pid i logs) = fst (scanRows pf sh pid i [])"
  by (induction i) (simp_all split: option.splits)

lemma getPreviousState_fst:
  "fst (getPreviousState pf sh pid logs) = previousStateOf pf sh pid"
  using scanRows_fst [of pf sh pid _ "logs @ [''Searching for previous state of page ID: '' @ pid]"]
        scanRows_fst [of pf sh pid _ "[''Searching for previous state of page ID: '' @ pid]"]
  by (simp add: getPreviousState_def previousStateOf_def)

lemma handleNotifications_fst:
  "fst (handleNotifications pf p c cfg logs) = resultsOf pf p c cfg"
  by (simp add: handleNotifications_results resultsOf_def)

lemma handleNotifications_snd:
  "snd (snd (handleNotifications pf p c cfg logs)) = requestsOf pf p c cfg"
  by (simp add: handleNotifications_requests requestsOf_def)

lemma updateCurrentState_sheet:
  "map_sum id fst (updateCurrentState pf sh pid props idx logs) = writtenSheet pf sh pid props idx"
  by (simp add: updateCurrentState_def writtenSheet_def Let_def split: option.splits)

lemma writtenSheet_eq:
  "writtenSheet pf sh pid props idx =
     (case stateWriteError pf of
        Some e \<Rightarrow> Inl e
      | None \<Rightarrow>
          if idx > - 1
          then (if idx = 0
                then Inl (JsError ''Exception'' ''The starting row of the range is too small.'')
                else Inr (setValue sh (nat idx) 2
                            (toCell (JSON_stringify pf props))))
          else Inr (sh @ [[Text pid, toCell (JSON_stringify pf props)]]))"
  by (simp add: writtenSheet_def updateCurrentState_def Let_def split: option.splits)

text \<open>The configuration and the page object, as functions of the host and the event.\<close>

lemma loadConfig_fst:
  "fst (loadConfig pf logs) =
     (if truthy (getProperty pf PROP_KEYS_SPREADSHEET_ID)
      then Inr \<lparr>spreadsheetId = getProperty pf PROP_KEYS_SPREADSHEET_ID,
                 logSheetName =
                   or_else (getProperty pf PROP_KEYS_LOG_SHEET_NAME) LOG_NAME_DEFAULT,
                 stateSheetName = STATE_NAME,
                 discordUrl = getProperty pf PROP_KEYS_DISCORD_URL,
                 discordUrlSharoushi = getProperty pf PROP_KEYS_DISCORD_URL_SHAROUSHI\<rparr>
      else Inl (newError notSetMessage))"
  by (simp add: loadConfig_def Let_def)

lemma loadConfig_configOf: "fst (loadConfig pf logs) = configOf pf"
  by (simp add: configOf_def loadConfig_fst)

lemma loadConfig_eq: "loadConfig pf logs = (a, b) \<Longrightarrow> configOf pf = a"
  using loadConfig_configOf [of pf logs] by simp

lemma configOf_fields:
  assumes "configOf pf = Inr cfg"
  shows "discordUrl cfg = getProperty pf PROP_KEYS_DISCORD_URL"
    and "discordUrlSharoushi cfg = getProperty pf PROP_KEYS_DISCORD_URL_SHAROUSHI"
    and "stateSheetName cfg = STATE_NAME"
    and "spreadsheetId cfg = getProperty pf PROP_KEYS_SPREADSHEET_ID"
    and "truthy (spreadsheetId cfg)"
    and "logSheetName cfg = or_else (getProperty pf PROP_KEYS_LOG_SHEET_NAME) LOG_NAME_DEFAULT"
  using assms by (auto simp add: configOf_def loadConfig_fst split: if_splits)

lemma parseWebhookEvent_page:
  "notionPageData (fst (parseWebhookEvent pf e logs)) =
     (case contentsOf e of
        None \<Rightarrow> None
      | Some raw \<Rightarrow> if raw = [] then None
                    else (case JSON_parse_event pf raw of Inl err \<Rightarrow> None | Inr pd \<Rightarrow> pd))"
  by (simp add: parseWebhookEvent_def contentsOf_def Let_def truthy_def or_else_def
      split: option.splits sum.splits)

lemma parseWebhookEvent_pageOf: "notionPageData (fst (parseWebhookEvent pf e logs)) = pageOf pf e"
  by (simp add: pageOf_def parseWebhookEvent_page)

lemma contents_absent_no_page: "contentsOf e = None \<Longrightarrow> pageOf pf e = None"
  by (simp add: pageOf_def parseWebhookEvent_page)

section \<open>The blocks of processWebhook\<close>

lemma initialRun_simps:
  "book (initialRun pf b) = b"
  "executionLogs (initialRun pf b) = [''--- Webhook Execution Start ---'']"
  "logSheet (initialRun pf b) = None"
  "requests (initialRun pf b) = []"
  "notificationResults (initialRun pf b) = []"
  "thrown (initialRun pf b) = None"
  "overallStatus (logData (initialRun pf b)) = STATUS_SEIKOU"
  "notionInfo (logData (initialRun pf b)) = None"
  by (simp_all add: initialRun_def)

lemma processPage_results:
  "notificationResults (processPage pf cfg pd pid r) =
     resultsOf pf (previousInfoOf pf (sheetData (book r) (stateSheetName cfg)) pid)
       (infoOf pf pd) cfg"
  by (simp add: processPage_def Let_def case_prod_beta throw_def previousInfoOf_def
      extractNotionInfo_fst getPreviousState_fst handleNotifications_fst
      split: sum.splits option.splits)

lemma processPage_requests:
  "requests (processPage pf cfg pd pid r) =
     requests r @
     requestsOf pf (previousInfoOf pf (sheetData (book r) (stateSheetName cfg)) pid)
       (infoOf pf pd) cfg"
  by (simp add: processPage_def Let_def case_prod_beta throw_def previousInfoOf_def
      extractNotionInfo_fst getPreviousState_fst handleNotifications_snd
      split: sum.splits option.splits)

lemma processPage_overallStatus:
  "overallStatus (logData (processPage pf cfg pd pid r)) =
     (if list_ex (\<lambda>x. truthy (res_error x))
           (resultsOf pf (previousInfoOf pf (sheetData (book r) (stateSheetName cfg)) pid)
              (infoOf pf pd) cfg)
      then STATUS_ICHIBU_ERROR else overallStatus (logData r))"
  by (simp add: processPage_def Let_def case_prod_beta throw_def previousInfoOf_def
      extractNotionInfo_fst getPreviousState_fst handleNotifications_fst
      split: sum.splits option.splits)

lemma processPage_thrown:
  "thrown (processPage pf cfg pd pid r) =
     (case writtenSheet pf (sheetData (book r) (stateSheetName cfg)) pid (properties pd)
             (rowIndexOf (previousStateOf pf (sheetData (book r) (stateSheetName cfg)) pid)) of
        Inl error \<Rightarrow> Some error | Inr sh \<Rightarrow> thrown r)"
  by (simp add: processPage_def Let_def case_prod_beta throw_def writtenSheet_eq
      updateCurrentState_def getPreviousState_fst split: option.splits)

lemma processPage_book:
  "book (processPage pf cfg pd pid r) =
     (case writtenSheet pf (sheetData (book r) (stateSheetName cfg)) pid (properties pd)
             (rowIndexOf (previousStateOf pf (sheetData (book r) (stateSheetName cfg)) pid)) of
        Inl error \<Rightarrow> book r | Inr sh \<Rightarrow> (book r)(stateSheetName cfg \<mapsto> sh))"
  by (simp add: processPage_def Let_def case_prod_beta throw_def writtenSheet_eq
      updateCurrentState_def getPreviousState_fst split: option.splits)

lemma processPage_logSheet: "logSheet (processPage pf cfg pd pid r) = logSheet r"
  by (simp add: processPage_def Let_def case_prod_beta throw_def split: sum.splits)

lemma processPage_notionInfo:
  "notionInfo (logData (processPage pf cfg pd pid r)) = Some (infoOf pf pd)"
  by (simp add: processPage_def Let_def case_prod_beta throw_def extractNotionInfo_fst
      split: sum.splits)

lemma processEvent_page:
  assumes "pageOf pf e = Some pd" and "page_id pd = Some pid" and "pid \<noteq> []"
  obtains r3 where "processEvent pf cfg e r = processPage pf cfg pd pid r3"
    and "book r3 = book r" and "logSheet r3 = logSheet r" and "requests r3 = requests r"
    and "thrown r3 = thrown r" and "overallStatus (logData r3) = overallStatus (logData r)"
    and "notificationResults r3 = notificationResults r"
proof -
  let ?r3 = "r\<lparr>executionLogs := snd (parseWebhookEvent pf e (executionLogs r)),
               logData := (logData r)
                 \<lparr>ld_rawContents := rawContents (fst (parseWebhookEvent pf e (executionLogs r))),
                  ld_fullEventString :=
                    fullEventString (fst (parseWebhookEvent pf e (executionLogs r)))\<rparr>\<rparr>"
  have "processEvent pf cfg e r = processPage pf cfg pd pid ?r3"
    using assms
    by (simp add: processEvent_def Let_def case_prod_beta parseWebhookEvent_pageOf)
  then show ?thesis by (rule that) simp_all
qed

lemma processEvent_throw:
  assumes "pageOf pf e = None \<or> (\<exists>pd. pageOf pf e = Some pd \<and> \<not> truthy (page_id pd))"
  shows "processEvent pf cfg e r =
     throw (newError ''Notion page data or Page ID could not be parsed.'')
       (r\<lparr>executionLogs := snd (parseWebhookEvent pf e (executionLogs r)),
          logData := (logData r)
            \<lparr>ld_rawContents := rawContents (fst (parseWebhookEvent pf e (executionLogs r))),
             ld_fullEventString :=
               fullEventString (fst (parseWebhookEvent pf e (executionLogs r)))\<rparr>\<rparr>)"
proof -
  from assms consider (a) "pageOf pf e = None"
    | (b) pd where "pageOf pf e = Some pd" "page_id pd = None"
    | (c) pd where "pageOf pf e = Some pd" "page_id pd = Some []"
    by (cases "pageOf pf e") (auto simp: truthy_def split: option.splits)
  then show ?thesis
  proof cases
    case a
    then show ?thesis
      by (simp add: processEvent_def Let_def case_prod_beta parseWebhookEvent_pageOf)
  next
    case b
    then show ?thesis
      by (simp add: processEvent_def Let_def case_prod_beta parseWebhookEvent_pageOf)
  next
    case c
    then show ?thesis
      by (simp add: processEvent_def Let_def case_prod_beta parseWebhookEvent_pageOf)
  qed
qed

lemma processEvent_no_page:
  assumes "pageOf pf e = None \<or> (\<exists>pd. pageOf pf e = Some pd \<and> \<not> truthy (page_id pd))"
  shows "thrown (processEvent pf cfg e r) =
           Some (newError ''Notion page data or Page ID could not be parsed.'')"
    and "book (processEvent pf cfg e r) = book r"
    and "logSheet (processEvent pf cfg e r) = logSheet r"
    and "requests (processEvent pf cfg e r) = requests r"
    and "notificationResults (processEvent pf cfg e r) = notificationResults r"
    and "notionInfo (logData (processEvent pf cfg e r)) = notionInfo (logData r)"
    and "overallStatus (logData (processEvent pf cfg e r)) = overallStatus (logData r)"
  by (simp_all add: processEvent_throw [OF assms] throw_def)

lemma getOrCreateSheets:
  "sheetsOf pf book0 cfg = Inr book2 \<Longrightarrow>
   \<exists>book1. getOrCreateSheet pf book0 (spreadsheetId cfg) (logSheetName cfg) LOG_HEADERS = Inr book1
     \<and> getOrCreateSheet pf book1 (spreadsheetId cfg) (stateSheetName cfg) STATE_HEADERS = Inr book2"
  by (simp add: sheetsOf_def split: sum.splits)

lemma tryBlock_acquired:
  assumes "configOf pf = Inr cfg" and "sheetsOf pf (book r) cfg = Inr book2"
  obtains r2 where "tryBlock pf e r = processEvent pf cfg e r2"
    and "book r2 = book2" and "logSheet r2 = Some (logSheetName cfg)"
    and "requests r2 = requests r" and "thrown r2 = thrown r" and "logData r2 = logData r"
    and "notificationResults r2 = notificationResults r"
proof -
  obtain logs1 where l: "loadConfig pf (executionLogs r) = (Inr cfg, logs1)"
    using assms(1) loadConfig_configOf [of pf "executionLogs r"]
    by (cases "loadConfig pf (executionLogs r)") simp
  obtain book1 where
    b1: "getOrCreateSheet pf (book r) (spreadsheetId cfg) (logSheetName cfg) LOG_HEADERS = Inr book1"
    and b2: "getOrCreateSheet pf book1 (spreadsheetId cfg) (stateSheetName cfg) STATE_HEADERS = Inr book2"
    using getOrCreateSheets [OF assms(2)] by blast
  have "tryBlock pf e r =
          processEvent pf cfg e
            (r\<lparr>executionLogs := logs1, book := book2, logSheet := Some (logSheetName cfg)\<rparr>)"
    by (simp add: tryBlock_def l b1 b2)
  then show ?thesis by (rule that) simp_all
qed

lemma tryBlock_no_config:
  "configOf pf = Inl err \<Longrightarrow>
   thrown (tryBlock pf e r) = Some err \<and> requests (tryBlock pf e r) = requests r \<and>
   notificationResults (tryBlock pf e r) = notificationResults r \<and>
   book (tryBlock pf e r) = book r \<and> logSheet (tryBlock pf e r) = logSheet r"
  using loadConfig_configOf [of pf "executionLogs r"]
  by (cases "loadConfig pf (executionLogs r)") (simp add: tryBlock_def throw_def)

lemma tryBlock_no_sheets:
  assumes "configOf pf = Inr cfg" and "sheetsOf pf (book r) cfg = Inl err"
  shows "thrown (tryBlock pf e r) = Some err \<and> requests (tryBlock pf e r) = requests r \<and>
   notificationResults (tryBlock pf e r) = notificationResults r"
proof -
  obtain logs1 where l: "loadConfig pf (executionLogs r) = (Inr cfg, logs1)"
    using assms(1) loadConfig_configOf [of pf "executionLogs r"]
    by (cases "loadConfig pf (executionLogs r)") simp
  show ?thesis
  proof (cases "getOrCreateSheet pf (book r) (spreadsheetId cfg) (logSheetName cfg) LOG_HEADERS")
    case (Inl a)
    then show ?thesis using assms(2) by (simp add: tryBlock_def l throw_def sheetsOf_def)
  next
    case (Inr book1)
    then show ?thesis using assms(2) by (simp add: tryBlock_def l throw_def sheetsOf_def)
  qed
qed

lemma tryBlock_no_page:
  assumes "configOf pf = Inr cfg" and "sheetsOf pf (book r) cfg = Inr book2"
    and "pageOf pf e = None \<or> (\<exists>pd. pageOf pf e = Some pd \<and> \<not> truthy (page_id pd))"
  shows "thrown (tryBlock pf e r) =
           Some (newError ''Notion page data or Page ID could not be parsed.'')"
    and "book (tryBlock pf e r) = book2"
    and "logSheet (tryBlock pf e r) = Some (logSheetName cfg)"
    and "requests (tryBlock pf e r) = requests r"
    and "notificationResults (tryBlock pf e r) = notificationResults r"
    and "notionInfo (logData (tryBlock pf e r)) = notionInfo (logData r)"
proof -
  obtain r2 where r2: "tryBlock pf e r = processEvent pf cfg e r2" "book r2 = book2"
    "logSheet r2 = Some (logSheetName cfg)" "requests r2 = requests r" "thrown r2 = thrown r"
    "logData r2 = logData r" "notificationResults r2 = notificationResults r"
    by (rule tryBlock_acquired [OF assms(1,2)])
  show "thrown (tryBlock pf e r) = Some (newError ''Notion page data or Page ID could not be parsed.'')"
    and "book (tryBlock pf e r) = book2"
    and "logSheet (tryBlock pf e r) = Some (logSheetName cfg)"
    and "requests (tryBlock pf e r) = requests r"
    and "notificationResults (tryBlock pf e r) = notificationResults r"
    and "notionInfo (logData (tryBlock pf e r)) = notionInfo (logData r)"
    unfolding r2(1) processEvent_no_page [OF assms(3)] by (simp_all add: r2(2-))
qed

lemma tryBlock_page:
  assumes "configOf pf = Inr cfg" and "sheetsOf pf (book r) cfg = Inr book2"
    and "pageOf pf e = Some pd" and "page_id pd = Some pid" and "pid \<noteq> []"
  obtains r3 where "tryBlock pf e r = processPage pf cfg pd pid r3"
    and "book r3 = book2" and "logSheet r3 = Some (logSheetName cfg)"
    and "requests r3 = requests r" and "thrown r3 = thrown r"
    and "overallStatus (logData r3) = overallStatus (logData r)"
    and "notificationResults r3 = notificationResults r"
proof -
  obtain r2 where r2: "tryBlock pf e r = processEvent pf cfg e r2" "book r2 = book2"
    "logSheet r2 = Some (logSheetName cfg)" "requests r2 = requests r" "thrown r2 = thrown r"
    "logData r2 = logData r" "notificationResults r2 = notificationResults r"
    by (rule tryBlock_acquired [OF assms(1,2)])
  obtain r3 where r3: "processEvent pf cfg e r2 = processPage pf cfg pd pid r3"
    "book r3 = book r2" "logSheet r3 = logSheet r2" "requests r3 = requests r2"
    "thrown r3 = thrown r2" "overallStatus (logData r3) = overallStatus (logData r2)"
    "notificationResults r3 = notificationResults r2"
    by (rule processEvent_page [OF assms(3,4,5)])
  show ?thesis
    by (rule that [of r3]) (simp_all only: r2 r3)
qed

text \<open>Every run is of one of the four kinds.\<close>

lemma run_cases:
  obtains (no_config) err where "configOf pf = Inl err"
  | (no_sheets) cfg err where "configOf pf = Inr cfg" "sheetsOf pf b cfg = Inl err"
  | (no_page) cfg book2 where "configOf pf = Inr cfg" "sheetsOf pf b cfg = Inr book2"
      "pageOf pf e = None \<or> (\<exists>pd. pageOf pf e = Some pd \<and> \<not> truthy (page_id pd))"
  | (page) cfg book2 pd pid where "configOf pf = Inr cfg" "sheetsOf pf b cfg = Inr book2"
      "pageOf pf e = Some pd" "page_id pd = Some pid" "pid \<noteq> []"
proof (cases "configOf pf")
  case (Inl err)
  then show ?thesis using no_config by blast
next
  case (Inr cfg)
  note c = this
  show ?thesis
  proof (cases "sheetsOf pf b cfg")
    case (Inl err)
    then show ?thesis using no_sheets c by blast
  next
    case (Inr book2)
    note b = this
    show ?thesis
    proof (cases "pageOf pf e")
      case None
      then show ?thesis using no_page c b by blast
    next
      case (Some pd)
      show ?thesis
      proof (cases "truthy (page_id pd)")
        case True
        then obtain pid where "page_id pd = Some pid" "pid \<noteq> []"
          by (auto simp: truthy_def split: option.splits)
        then show ?thesis using page c b Some by blast
      next
        case False
        then show ?thesis using no_page c b Some by blast
      qed
    qed
  qed
qed

lemma tryBlock_thrown_None:
  assumes "thrown (tryBlock pf e (initialRun pf book0)) = None"
  obtains cfg book2 pd pid r3 where "configOf pf = Inr cfg" "sheetsOf pf book0 cfg = Inr book2"
    "pageOf pf e = Some pd" "page_id pd = Some pid" "pid \<noteq> []"
    "tryBlock pf e (initialRun pf book0) = processPage pf cfg pd pid r3"
    "book r3 = book2" "logSheet r3 = Some (logSheetName cfg)" "requests r3 = []"
    "thrown r3 = None" "overallStatus (logData r3) = STATUS_SEIKOU"
proof (cases rule: run_cases [where pf = pf and b = book0 and e = e])
  case (no_config err)
  then show ?thesis using tryBlock_no_config [OF no_config] assms by simp
next
  case (no_sheets cfg err)
  have "sheetsOf pf (book (initialRun pf book0)) cfg = Inl err"
    using no_sheets(2) by (simp add: initialRun_simps)
  then show ?thesis using tryBlock_no_sheets [OF no_sheets(1)] assms by simp
next
  case (no_page cfg book2)
  have "sheetsOf pf (book (initialRun pf book0)) cfg = Inr book2"
    using no_page(2) by (simp add: initialRun_simps)
  then show ?thesis using tryBlock_no_page(1) [OF no_page(1) _ no_page(3)] assms by simp
next
  case (page cfg book2 pd pid)
  have b: "sheetsOf pf (book (initialRun pf book0)) cfg = Inr book2"
    using page(2) by (simp add: initialRun_simps)
  obtain r3 where r3: "tryBlock pf e (initialRun pf book0) = processPage pf cfg pd pid r3"
    "book r3 = book2" "logSheet r3 = Some (logSheetName cfg)"
    "requests r3 = requests (initialRun pf book0)" "thrown r3 = thrown (initialRun pf book0)"
    "overallStatus (logData r3) = overallStatus (logData (initialRun pf book0))"
    "notificationResults r3 = notificationResults (initialRun pf book0)"
    by (rule tryBlock_page [OF page(1) b page(3,4,5)])
  show ?thesis
    by (rule that [OF page(1,2,3,4,5) r3(1,2,3)]) (simp_all add: r3 initialRun_simps)
qed

lemma catchBlock_fields:
  "book (catchBlock pf r) = book r"
  "logSheet (catchBlock pf r) = logSheet r"
  "requests (catchBlock pf r) = requests r"
  "notificationResults (catchBlock pf r) = notificationResults r"
  "thrown (catchBlock pf r) = thrown r"
  "notionInfo (logData (catchBlock pf r)) = notionInfo (logData r)"
  by (simp_all add: catchBlock_def split: option.splits)

lemma finallyBlock_fields:
  "requests (finallyBlock pf r) = requests r"
  "notificationResults (finallyBlock pf r) = notificationResults r"
  "thrown (finallyBlock pf r) = thrown r"
  by (simp_all add: finallyBlock_def case_prod_beta split: option.splits)

lemma finallyBlock_book:
  "book (finallyBlock pf r) =
     (case logSheet r of
        None \<Rightarrow> book r
      | Some n \<Rightarrow>
          (case logAppendError pf of
             None \<Rightarrow> (book r)(n \<mapsto> sheetData (book r) n @ [logRow (logData r) (executionLogs r)])
           | Some err \<Rightarrow> book r))"
  by (simp add: finallyBlock_def logToSheet_def case_prod_beta split: option.splits)

lemma processWebhook_fields:
  "requests (snd (processWebhook pf b e)) = requests (tryBlock pf e (initialRun pf b))"
  "notificationResults (snd (processWebhook pf b e)) =
     notificationResults (tryBlock pf e (initialRun pf b))"
  "thrown (snd (processWebhook pf b e)) = thrown (tryBlock pf e (initialRun pf b))"
  "book (snd (processWebhook pf b e)) =
     book (finallyBlock pf (catchBlock pf (tryBlock pf e (initialRun pf b))))"
  by (simp_all add: processWebhook_def Let_def finallyBlock_fields catchBlock_fields)

section \<open>The sample host\<close>

lemma sample_configOf: "configOf samplePlatform = Inr sampleConfig"
  by (simp add: configOf_def loadConfig_fst samplePlatform_def sampleConfig_def truthy_def
      or_else_def PROP_KEYS_SPREADSHEET_ID_def PROP_KEYS_LOG_SHEET_NAME_def
      PROP_KEYS_DISCORD_URL_def PROP_KEYS_DISCORD_URL_SHAROUSHI_def)

lemma names_differ: "STATE_NAME \<noteq> LOG_NAME_DEFAULT"
  by (simp add: STATE_NAME_def LOG_NAME_DEFAULT_def)

lemma sample_sheetsOf: "sheetsOf samplePlatform emptyBook sampleConfig = Inr freshBook"
  using names_differ
  by (simp add: sheetsOf_def getOrCreateSheet_def samplePlatform_def sampleConfig_def
      emptyBook_def freshBook_def LOG_HEADERS_def STATE_HEADERS_def)

lemma sample_pageOf: "pageOf samplePlatform sampleEvent = Some samplePage"
  by (simp add: pageOf_def parseWebhookEvent_page contentsOf_def sampleEvent_def
      samplePlatform_def sampleBody_def)

lemma previousStateOf_header_only: "length sh \<le> 1 \<Longrightarrow> previousStateOf pf sh pid = None"
  by (cases sh) (simp_all add: previousStateOf_def getPreviousState_def)

lemma sample_state_sheet: "sheetData freshBook STATE_NAME = [map Text STATE_HEADERS]"
  by (simp add: sheetData_def freshBook_def)

lemma sample_run:
  obtains r3 where
    "tryBlock samplePlatform sampleEvent (initialRun samplePlatform emptyBook) =
       processPage samplePlatform sampleConfig samplePage ''P1'' r3"
    "book r3 = freshBook" "logSheet r3 = Some LOG_NAME_DEFAULT" "requests r3 = []"
    "thrown r3 = None" "overallStatus (logData r3) = STATUS_SEIKOU"
    "notificationResults r3 = []"
proof -
  have b: "sheetsOf samplePlatform (book (initialRun samplePlatform emptyBook)) sampleConfig
             = Inr freshBook"
    by (simp add: initialRun_simps sample_sheetsOf)
  have p: "page_id samplePage = Some ''P1''" "''P1'' \<noteq> []"
    by (simp_all add: samplePage_def)
  obtain r3 where r3:
    "tryBlock samplePlatform sampleEvent (initialRun samplePlatform emptyBook) =
       processPage samplePlatform sampleConfig samplePage ''P1'' r3"
    "book r3 = freshBook" "logSheet r3 = Some (logSheetName sampleConfig)"
    "requests r3 = requests (initialRun samplePlatform emptyBook)"
    "thrown r3 = thrown (initialRun samplePlatform emptyBook)"
    "overallStatus (logData r3) = overallStatus (logData (initialRun samplePlatform emptyBook))"
    "notificationResults r3 = notificationResults (initialRun samplePlatform emptyBook)"
    by (rule tryBlock_page [OF sample_configOf b sample_pageOf p])
  show ?thesis
    by (rule that [OF r3(1,2)]) (simp_all add: r3 initialRun_simps sampleConfig_def)
qed

lemma sample_thrown:
  "thrown (snd (processWebhook samplePlatform emptyBook sampleEvent)) = None"
proof -
  obtain r3 where r3:
    "tryBlock samplePlatform sampleEvent (initialRun samplePlatform emptyBook) =
       processPage samplePlatform sampleConfig samplePage ''P1'' r3"
    "book r3 = freshBook" "thrown r3 = None"
    using sample_run by metis
  have s: "stateSheetName sampleConfig = STATE_NAME"
    by (simp add: sampleConfig_def)
  have w: "stateWriteError samplePlatform = None"
    by (simp add: samplePlatform_def)
  show ?thesis
    by (simp add: processWebhook_fields r3 processPage_thrown s sample_state_sheet
        previousStateOf_header_only rowIndexOf_def writtenSheet_eq w)
qed

lemma sample_results:
  "notificationResults (snd (processWebhook samplePlatform emptyBook sampleEvent)) =
     [\<lparr>res_type = TYPE_STATUS_TANTO, res_status = SEND_SKIPPED, res_error = None\<rparr>]"
proof -
  obtain r3 where r3:
    "tryBlock samplePlatform sampleEvent (initialRun samplePlatform emptyBook) =
       processPage samplePlatform sampleConfig samplePage ''P1'' r3"
    "book r3 = freshBook" "thrown r3 = None"
    using sample_run by metis
  have s: "stateSheetName sampleConfig = STATE_NAME" "discordUrl sampleConfig = None"
    by (simp_all add: sampleConfig_def)
  have i: "infoOf samplePlatform samplePage =
     \<lparr>kigyoMei = ''Acme'', status = Some ''Negotiating'', tanto = Some ''Tanaka'',
      sharoushi = None, pageUrl = ''https://www.notion.so/P1'',
      lastEditedTime = ''2025/01/01 09:00:00''\<rparr>"
    using sample_info by (simp add: infoOf_def)
  show ?thesis
    by (simp add: processWebhook_fields r3 processPage_results s sample_state_sheet
        previousInfoOf_def previousStateOf_header_only resultsOf_def handleNotifications_results
        i needsStatusNotification_def needsSharoushiNotification_def truthy_def
        sendDiscordMessage_unusable)
qed

section \<open>An event without contents\<close>

lemma logRow_not_extracted:
  "notionInfo ld = None \<Longrightarrow>
   length (logRow ld logs) = 9 \<and> logRow ld logs ! 1 = Text NOT_AVAILABLE \<and>
   logRow ld logs ! 2 = Text NOT_AVAILABLE \<and> logRow ld logs ! 3 = Text NOT_AVAILABLE \<and>
   logRow ld logs ! 4 = Text (overallStatus ld)"
  by (simp add: logRow_def)

lemma contents_absent_thrown:
  assumes "contentsOf e = None"
  shows "thrown (tryBlock pf e (initialRun pf book0)) \<noteq> None"
proof -
  have np: "pageOf pf e = None \<or> (\<exists>pd. pageOf pf e = Some pd \<and> \<not> truthy (page_id pd))"
    using contents_absent_no_page [OF assms] by simp
  show ?thesis
  proof (cases rule: run_cases [where pf = pf and b = book0 and e = e])
    case (no_config err)
    then show ?thesis using tryBlock_no_config [OF no_config, of e "initialRun pf book0"] by simp
  next
    case (no_sheets cfg err)
    have "sheetsOf pf (book (initialRun pf book0)) cfg = Inl err"
      using no_sheets(2) by (simp add: initialRun_simps)
    then show ?thesis
      using tryBlock_no_sheets [OF no_sheets(1), of "initialRun pf book0" err e] by simp
  next
    case (no_page cfg book2)
    have "sheetsOf pf (book (initialRun pf book0)) cfg = Inr book2"
      using no_page(2) by (simp add: initialRun_simps)
    then show ?thesis using tryBlock_no_page(1) [OF no_page(1) _ np] by simp
  next
    case (page cfg book2 pd pid)
    then show ?thesis using contents_absent_no_page [OF assms, of pf] by simp
  qed
qed

text \<open>
  Claim C8, as amended. For every event whose \<open>postData.contents\<close> is absent the overall
  status is the fatal one. On a host where the configuration loads, both sheets are
  acquired and the append to the log sheet does not throw, the spreadsheet after the call
  is the spreadsheet after step 2 with exactly one row more on the log sheet, a row of
  nine cells whose company name, status and assignee are \<open>N/A\<close> and whose overall
  status is the fatal one.
\<close>

theorem processWebhook_contents_absent:
  assumes "contentsOf e = None"
  shows "result_status (fst (processWebhook pf book0 e)) = STATUS_CHIMEITEKI_ERROR \<and>
    (configOf pf = Inr cfg \<and> sheetsOf pf book0 cfg = Inr book2 \<and> logAppendError pf = None
     \<longrightarrow> (\<exists>row. book (snd (processWebhook pf book0 e)) =
             book2(logSheetName cfg \<mapsto> sheetData book2 (logSheetName cfg) @ [row]) \<and>
           length row = 9 \<and> row ! 1 = Text NOT_AVAILABLE \<and> row ! 2 = Text NOT_AVAILABLE \<and>
           row ! 3 = Text NOT_AVAILABLE \<and> row ! 4 = Text STATUS_CHIMEITEKI_ERROR))"
proof (intro conjI impI)
  show "result_status (fst (processWebhook pf book0 e)) = STATUS_CHIMEITEKI_ERROR"
    using contents_absent_thrown [OF assms, of pf book0]
    by (auto simp add: processWebhook_status)
next
  assume a: "configOf pf = Inr cfg \<and> sheetsOf pf book0 cfg = Inr book2 \<and> logAppendError pf = None"
  let ?R = "tryBlock pf e (initialRun pf book0)"
  have np: "pageOf pf e = None \<or> (\<exists>pd. pageOf pf e = Some pd \<and> \<not> truthy (page_id pd))"
    using contents_absent_no_page [OF assms] by simp
  have c: "configOf pf = Inr cfg" and l: "logAppendError pf = None"
    using a by simp_all
  have b: "sheetsOf pf (book (initialRun pf book0)) cfg = Inr book2"
    using a by (simp add: initialRun_simps)
  note R = tryBlock_no_page [OF c b np]
  let ?C = "catchBlock pf ?R"
  have ni: "notionInfo (logData ?C) = None"
    by (simp add: catchBlock_fields R(6) initialRun_simps)
  have os: "overallStatus (logData ?C) = STATUS_CHIMEITEKI_ERROR"
    by (simp add: catchBlock_status R(1))
  have bk: "book (snd (processWebhook pf book0 e)) =
      book2(logSheetName cfg \<mapsto>
        sheetData book2 (logSheetName cfg) @ [logRow (logData ?C) (executionLogs ?C)])"
    by (simp add: processWebhook_fields finallyBlock_book catchBlock_fields R(2,3) l)
  show "\<exists>row. book (snd (processWebhook pf book0 e)) =
             book2(logSheetName cfg \<mapsto> sheetData book2 (logSheetName cfg) @ [row]) \<and>
           length row = 9 \<and> row ! 1 = Text NOT_AVAILABLE \<and> row ! 2 = Text NOT_AVAILABLE \<and>
           row ! 3 = Text NOT_AVAILABLE \<and> row ! 4 = Text STATUS_CHIMEITEKI_ERROR"
    using bk logRow_not_extracted [OF ni, of "executionLogs ?C"] os by auto
qed

theorem processWebhook_contents_absent_witness:
  "contentsOf emptyEvent = None \<and> configOf samplePlatform = Inr sampleConfig \<and>
   sheetsOf samplePlatform emptyBook sampleConfig = Inr freshBook \<and>
   logAppendError samplePlatform = None \<and>
   result_status (fst (processWebhook samplePlatform emptyBook emptyEvent))
     = STATUS_CHIMEITEKI_ERROR \<and>
   (\<exists>row. book (snd (processWebhook samplePlatform emptyBook emptyEvent)) =
            freshBook(LOG_NAME_DEFAULT \<mapsto> sheetData freshBook LOG_NAME_DEFAULT @ [row]) \<and>
          length row = 9 \<and> row ! 1 = Text NOT_AVAILABLE \<and> row ! 2 = Text NOT_AVAILABLE \<and>
          row ! 3 = Text NOT_AVAILABLE \<and> row ! 4 = Text STATUS_CHIMEITEKI_ERROR)"
proof -
  have h1: "contentsOf emptyEvent = None"
    by (simp add: contentsOf_def emptyEvent_def)
  have h4: "logAppendError samplePlatform = None"
    by (simp add: samplePlatform_def)
  have n: "logSheetName sampleConfig = LOG_NAME_DEFAULT"
    by (simp add: sampleConfig_def)
  show ?thesis
    using processWebhook_contents_absent [OF h1, of samplePlatform emptyBook sampleConfig freshBook]
      h1 h4 sample_configOf sample_sheetsOf
    unfolding n by simp
qed

lemma unconfigured_run:
  "tryBlock unconfiguredPlatform e (initialRun unconfiguredPlatform emptyBook) =
     (initialRun unconfiguredPlatform emptyBook)
       \<lparr>executionLogs := [''--- Webhook Execution Start ---'', ''FATAL: '' @ notSetMessage],
        thrown := Some (newError notSetMessage)\<rparr>"
  by (simp add: tryBlock_def loadConfig_def unconfiguredPlatform_def samplePlatform_def
      truthy_def throw_def initialRun_def Let_def)

text \<open>
  Claim C8 as stated promises an audit row for every event without contents. On a host
  where the spreadsheet id is not set, \<open>loadConfig\<close> throws before the log sheet is
  there: the status is fatal and no row is written to any sheet.
\<close>

theorem processWebhook_no_log_sheet_counterexample:
  "contentsOf emptyEvent = None \<and>
   result_status (fst (processWebhook unconfiguredPlatform emptyBook emptyEvent))
     = STATUS_CHIMEITEKI_ERROR \<and>
   book (snd (processWebhook unconfiguredPlatform emptyBook emptyEvent)) = emptyBook"
  by (simp add: processWebhook_def unconfigured_run Let_def catchBlock_def finallyBlock_def
      initialRun_simps contentsOf_def emptyEvent_def)

section \<open>Skipped notifications\<close>

lemma processWebhook_requests_unusable:
  assumes u1: "\<forall>s. getProperty pf PROP_KEYS_DISCORD_URL = Some s \<longrightarrow> \<not> prefix DISCORD_PREFIX s"
    and u2: "\<forall>s. getProperty pf PROP_KEYS_DISCORD_URL_SHAROUSHI = Some s
               \<longrightarrow> \<not> prefix DISCORD_PREFIX s"
  shows "requests (snd (processWebhook pf book0 e)) = []"
proof (cases rule: run_cases [where pf = pf and b = book0 and e = e])
  case (no_config err)
  then show ?thesis
    using tryBlock_no_config [OF no_config, of e "initialRun pf book0"]
    by (simp add: processWebhook_fields initialRun_simps)
next
  case (no_sheets cfg err)
  have "sheetsOf pf (book (initialRun pf book0)) cfg = Inl err"
    using no_sheets(2) by (simp add: initialRun_simps)
  then show ?thesis using tryBlock_no_sheets [OF no_sheets(1), of "initialRun pf book0" err e]
    by (simp add: processWebhook_fields initialRun_simps)
next
  case (no_page cfg book2)
  have "sheetsOf pf (book (initialRun pf book0)) cfg = Inr book2"
    using no_page(2) by (simp add: initialRun_simps)
  then show ?thesis using tryBlock_no_page(4) [OF no_page(1) _ no_page(3)]
    by (simp add: processWebhook_fields initialRun_simps)
next
  case (page cfg book2 pd pid)
  have b: "sheetsOf pf (book (initialRun pf book0)) cfg = Inr book2"
    using page(2) by (simp add: initialRun_simps)
  obtain r3 where r3: "tryBlock pf e (initialRun pf book0) = processPage pf cfg pd pid r3"
    "book r3 = book2" "logSheet r3 = Some (logSheetName cfg)"
    "requests r3 = requests (initialRun pf book0)" "thrown r3 = thrown (initialRun pf book0)"
    "overallStatus (logData r3) = overallStatus (logData (initialRun pf book0))"
    "notificationResults r3 = notificationResults (initialRun pf book0)"
    by (rule tryBlock_page [OF page(1) b page(3,4,5)])
  have "requestsOf pf p c cfg = []" for p c
    using handleNotifications_unusable [of cfg pf p c "[]"] u1 u2 configOf_fields(1,2) [OF page(1)]
    by (simp add: requestsOf_def)
  then show ?thesis
    by (simp add: processWebhook_fields r3(1,4) processPage_requests initialRun_simps)
qed

lemma processWebhook_success:
  assumes t: "thrown (snd (processWebhook pf book0 e)) = None"
    and f: "\<forall>x\<in>set (requests (snd (processWebhook pf book0 e))). fetch pf (fst x) (snd x) = None"
  shows "result_status (fst (processWebhook pf book0 e)) = STATUS_SEIKOU"
proof -
  have t': "thrown (tryBlock pf e (initialRun pf book0)) = None"
    using t by (simp add: processWebhook_fields)
  obtain cfg book2 pd pid r3 where r3:
    "tryBlock pf e (initialRun pf book0) = processPage pf cfg pd pid r3"
    "requests r3 = []" "overallStatus (logData r3) = STATUS_SEIKOU"
    using tryBlock_thrown_None [OF t'] by metis
  let ?p = "previousInfoOf pf (sheetData (book r3) (stateSheetName cfg)) pid"
  let ?c = "infoOf pf pd"
  have f': "\<forall>x\<in>set (requestsOf pf ?p ?c cfg). fetch pf (fst x) (snd x) = None"
    using f by (simp add: processWebhook_fields r3(1,2) processPage_requests)
  have "\<not> list_ex (\<lambda>x. truthy (res_error x)) (resultsOf pf ?p ?c cfg)"
    using handleNotifications_error [of pf ?p ?c cfg "[]"] f'
    unfolding resultsOf_def requestsOf_def
    by (auto simp del: split_paired_All split_paired_Ex)
  moreover have "thrown (processPage pf cfg pd pid r3) = None"
    using t' r3(1) by simp
  ultimately show ?thesis
    by (simp add: processWebhook_status r3(1,3) processPage_overallStatus)
qed

text \<open>
  Claim C7. If the webhook URL is absent or does not start with the Discord prefix,
  \<open>sendDiscordMessage\<close> returns the skip status with a \<open>null\<close> error and makes no
  request. If neither configured URL is usable, a call of \<open>processWebhook\<close> makes no
  request at all. And a skip is no failure: when no exception leaves the \<open>try\<close> block
  and no request that was made fails, the status returned is the one for success.
\<close>

theorem sendDiscordMessage_skip:
  "((\<forall>s. webhookUrl = Some s \<longrightarrow> \<not> prefix DISCORD_PREFIX s) \<longrightarrow>
      fst (sendDiscordMessage pf webhookUrl content logs) =
        \<lparr>send_status = SEND_SKIPPED, send_error = None\<rparr> \<and>
      snd (snd (sendDiscordMessage pf webhookUrl content logs)) = [])
   \<and> ((\<forall>s. getProperty pf PROP_KEYS_DISCORD_URL = Some s \<longrightarrow> \<not> prefix DISCORD_PREFIX s) \<and>
       (\<forall>s. getProperty pf PROP_KEYS_DISCORD_URL_SHAROUSHI = Some s
              \<longrightarrow> \<not> prefix DISCORD_PREFIX s)
       \<longrightarrow> requests (snd (processWebhook pf book0 e)) = [])
   \<and> (thrown (snd (processWebhook pf book0 e)) = None \<and>
       (\<forall>x\<in>set (requests (snd (processWebhook pf book0 e))). fetch pf (fst x) (snd x) = None)
       \<longrightarrow> result_status (fst (processWebhook pf book0 e)) = STATUS_SEIKOU)"
  using sendDiscordMessage_unusable [of webhookUrl pf content logs]
    processWebhook_requests_unusable [of pf book0 e] processWebhook_success [of pf book0 e]
  by simp

theorem sendDiscordMessage_skip_witness:
  "fst (sendDiscordMessage samplePlatform None ''hello'' []) =
     \<lparr>send_status = SEND_SKIPPED, send_error = None\<rparr> \<and>
   snd (snd (sendDiscordMessage samplePlatform None ''hello'' [])) = [] \<and>
   requests (snd (processWebhook samplePlatform emptyBook sampleEvent)) = [] \<and>
   thrown (snd (processWebhook samplePlatform emptyBook sampleEvent)) = None \<and>
   result_status (fst (processWebhook samplePlatform emptyBook sampleEvent)) = STATUS_SEIKOU"
proof -
  have u: "getProperty samplePlatform PROP_KEYS_DISCORD_URL = None"
    "getProperty samplePlatform PROP_KEYS_DISCORD_URL_SHAROUSHI = None"
    by (simp_all add: samplePlatform_def PROP_KEYS_DISCORD_URL_def
        PROP_KEYS_DISCORD_URL_SHAROUSHI_def PROP_KEYS_SPREADSHEET_ID_def)
  show ?thesis
    using sendDiscordMessage_skip [of None samplePlatform "''hello''" "[]" emptyBook sampleEvent]
      sample_thrown u
    by simp
qed

section \<open>createStatusChangeMessage\<close>

text \<open>
  Claim C9. For every pair of a previous and a current record, the message of
  \<open>createStatusChangeMessage\<close> is spelled out here: the title, the rule and the company
  line, then the status line, the line of the person in charge, the line of the last edit
  time, the rule and the link. The labels of the two fields are the texts
  \<open>**shoudan status:** \<close> and \<open>**tantou:** \<close> of main.js in UTF-8, a value that is \<open>null\<close>
  is shown as \<open>MISETTEI\<close>. When the status is unchanged, the status line is the plain line
  (the label, the current value, a line feed), and the message is not the one that has
  the transition line (the label, the previous value in backquotes, the arrow, the current
  value in backquotes, \<open>ni henkou\<close>, a line feed) in that place. Likewise for the person in
  charge.
\<close>

theorem createStatusChangeMessage_unchanged:
  "let statusLabel = ''**'' @ [CHR 0xE5, CHR 0x95, CHR 0x86, CHR 0xE8, CHR 0xAB, CHR 0x87, CHR 0xE3, CHR 0x82, CHR 0xB9,
          CHR 0xE3, CHR 0x83, CHR 0x86, CHR 0xE3, CHR 0x83, CHR 0xBC, CHR 0xE3, CHR 0x82, CHR 0xBF,
          CHR 0xE3, CHR 0x82, CHR 0xB9] @ '':** '';
       tantoLabel = ''**'' @ [CHR 0xE6, CHR 0x8B, CHR 0x85, CHR 0xE5, CHR 0xBD, CHR 0x93] @ '':** '';
       lf = [CHR 0x0A];
       opening = ''**'' @ [CHR 0x60];
       arrow = [CHR 0x60] @ ''** '' @ [CHR 0xE2, CHR 0x86, CHR 0x92] @ '' **'' @ [CHR 0x60];
       closing = [CHR 0x60] @ ''** '' @ [CHR 0xE3, CHR 0x81, CHR 0xAB, CHR 0xE5, CHR 0xA4, CHR 0x89, CHR 0xE6, CHR 0x9B, CHR 0xB4] @ lf;
       curS = or_else (status c) MISETTEI;
       prevS = or_else (status p) MISETTEI;
       curT = or_else (tanto c) MISETTEI;
       prevT = or_else (tanto p) MISETTEI;
       plainS = statusLabel @ curS @ lf;
       arrowS = statusLabel @ opening @ prevS @ arrow @ curS @ closing;
       plainT = tantoLabel @ curT @ lf;
       arrowT = tantoLabel @ opening @ prevT @ arrow @ curT @ closing;
       top = MSG_STATUS_TITLE @ MSG_RULE @ MSG_KIGYOMEI @ kigyoMei c @ lf;
       bottom = MSG_LAST_EDITED @ lastEditedTime c @ lf @ MSG_RULE @ MSG_DETAILS @ pageUrl c;
       message = createStatusChangeMessage (Some p) c
   in (status p = status c \<longrightarrow>
         message = top @ plainS @ (if curT \<noteq> prevT then arrowT else plainT) @ bottom \<and>
         message \<noteq> top @ arrowS @ (if curT \<noteq> prevT then arrowT else plainT) @ bottom)
    \<and> (tanto p = tanto c \<longrightarrow>
         message = top @ (if curS \<noteq> prevS then arrowS else plainS) @ plainT @ bottom \<and>
         message \<noteq> top @ (if curS \<noteq> prevS then arrowS else plainS) @ arrowT @ bottom)"
proof -
  have labels:
    "''**'' @ [CHR 0xE5, CHR 0x95, CHR 0x86, CHR 0xE8, CHR 0xAB, CHR 0x87, CHR 0xE3, CHR 0x82, CHR 0xB9,
          CHR 0xE3, CHR 0x83, CHR 0x86, CHR 0xE3, CHR 0x83, CHR 0xBC, CHR 0xE3, CHR 0x82, CHR 0xBF,
          CHR 0xE3, CHR 0x82, CHR 0xB9] @ '':** '' = MSG_STATUS"
    "''**'' @ [CHR 0xE6, CHR 0x8B, CHR 0x85, CHR 0xE5, CHR 0xBD, CHR 0x93] @ '':** '' = MSG_TANTO"
    "[CHR 0x0A] = NL"
    "''**'' @ [CHR 0x60] = MSG_OPEN"
    "[CHR 0x60] @ ''** '' @ [CHR 0xE2, CHR 0x86, CHR 0x92] @ '' **'' @ [CHR 0x60] = MSG_ARROW"
    "[CHR 0x60] @ ''** '' @ [CHR 0xE3, CHR 0x81, CHR 0xAB, CHR 0xE5, CHR 0xA4, CHR 0x89, CHR 0xE6, CHR 0x9B, CHR 0xB4] @ NL
       = MSG_CHANGED"
    by (simp_all add: MSG_STATUS_def MSG_TANTO_def NL_def MSG_OPEN_def MSG_ARROW_def
        MSG_CHANGED_def)
  have ne: "h @ l @ x @ NL @ r \<noteq> h @ l @ MSG_OPEN @ y @ MSG_ARROW @ x @ MSG_CHANGED @ r"
    for h l x r y :: string
  proof
    assume "h @ l @ x @ NL @ r = h @ l @ MSG_OPEN @ y @ MSG_ARROW @ x @ MSG_CHANGED @ r"
    then have "length (h @ l @ x @ NL @ r)
                 = length (h @ l @ MSG_OPEN @ y @ MSG_ARROW @ x @ MSG_CHANGED @ r)"
      by (rule arg_cong)
    then show False by (simp add: NL_def MSG_OPEN_def)
  qed
  let ?top = "MSG_STATUS_TITLE @ MSG_RULE @ MSG_KIGYOMEI @ kigyoMei c @ NL"
  let ?bottom = "MSG_LAST_EDITED @ lastEditedTime c @ NL @ MSG_RULE @ MSG_DETAILS @ pageUrl c"
  let ?curS = "or_else (status c) MISETTEI" and ?prevS = "or_else (status p) MISETTEI"
  let ?curT = "or_else (tanto c) MISETTEI" and ?prevT = "or_else (tanto p) MISETTEI"
  let ?plainS = "MSG_STATUS @ ?curS @ NL"
  let ?arrowS = "MSG_STATUS @ MSG_OPEN @ ?prevS @ MSG_ARROW @ ?curS @ MSG_CHANGED"
  let ?plainT = "MSG_TANTO @ ?curT @ NL"
  let ?arrowT = "MSG_TANTO @ MSG_OPEN @ ?prevT @ MSG_ARROW @ ?curT @ MSG_CHANGED"
  let ?lineS = "if ?curS \<noteq> ?prevS then ?arrowS else ?plainS"
  let ?lineT = "if ?curT \<noteq> ?prevT then ?arrowT else ?plainT"
  have msg: "createStatusChangeMessage (Some p) c = ?top @ ?lineS @ ?lineT @ ?bottom"
    by (simp add: createStatusChangeMessage_def Let_def)
  have s1: "?top @ ?lineS @ ?lineT @ ?bottom = ?top @ ?plainS @ ?lineT @ ?bottom"
    if "status p = status c"
    using that by simp
  have s2: "?top @ ?plainS @ ?lineT @ ?bottom \<noteq> ?top @ ?arrowS @ ?lineT @ ?bottom"
    if "status p = status c"
    using ne [of ?top MSG_STATUS ?curS "?lineT @ ?bottom" ?prevS] that by simp
  have t1: "?top @ ?lineS @ ?lineT @ ?bottom = ?top @ ?lineS @ ?plainT @ ?bottom"
    if "tanto p = tanto c"
    using that by simp
  have t2: "?top @ ?lineS @ ?plainT @ ?bottom \<noteq> ?top @ ?lineS @ ?arrowT @ ?bottom"
    if "tanto p = tanto c"
    using ne [of "?top @ ?lineS" MSG_TANTO ?curT ?bottom ?prevT] that by simp
  show ?thesis
    unfolding Let_def labels msg
    using s1 s2 t1 t2 by metis
qed

theorem createStatusChangeMessage_unchanged_witness:
  "status (infoOf samplePlatform samplePage\<lparr>tanto := Some ''Sato''\<rparr>)
     = status (infoOf samplePlatform samplePage) \<and>
   createStatusChangeMessage (Some (infoOf samplePlatform samplePage\<lparr>tanto := Some ''Sato''\<rparr>))
       (infoOf samplePlatform samplePage) =
     MSG_STATUS_TITLE @ MSG_RULE @ MSG_KIGYOMEI @ ''Acme'' @ [CHR 0x0A]
     @ ''**'' @ [CHR 0xE5, CHR 0x95, CHR 0x86, CHR 0xE8, CHR 0xAB, CHR 0x87, CHR 0xE3, CHR 0x82, CHR 0xB9,
          CHR 0xE3, CHR 0x83, CHR 0x86, CHR 0xE3, CHR 0x83, CHR 0xBC, CHR 0xE3, CHR 0x82, CHR 0xBF,
          CHR 0xE3, CHR 0x82, CHR 0xB9] @ '':** Negotiating'' @ [CHR 0x0A]
     @ ''**'' @ [CHR 0xE6, CHR 0x8B, CHR 0x85, CHR 0xE5, CHR 0xBD, CHR 0x93] @ '':** **'' @ [CHR 0x60] @ ''Sato'' @ [CHR 0x60] @ ''** ''
     @ [CHR 0xE2, CHR 0x86, CHR 0x92] @ '' **'' @ [CHR 0x60] @ ''Tanaka'' @ [CHR 0x60] @ ''** ''
     @ [CHR 0xE3, CHR 0x81, CHR 0xAB, CHR 0xE5, CHR 0xA4, CHR 0x89, CHR 0xE6, CHR 0x9B, CHR 0xB4] @ [CHR 0x0A]
     @ MSG_LAST_EDITED @ ''2025/01/01 09:00:00'' @ [CHR 0x0A] @ MSG_RULE
     @ MSG_DETAILS @ ''https://www.notion.so/P1''"
proof -
  have i: "infoOf samplePlatform samplePage =
     \<lparr>kigyoMei = ''Acme'', status = Some ''Negotiating'', tanto = Some ''Tanaka'',
      sharoushi = None, pageUrl = ''https://www.notion.so/P1'',
      lastEditedTime = ''2025/01/01 09:00:00''\<rparr>"
    using sample_info by (simp add: infoOf_def)
  show ?thesis
    using createStatusChangeMessage_unchanged
      [of "infoOf samplePlatform samplePage" "infoOf samplePlatform samplePage\<lparr>tanto := Some ''Sato''\<rparr>"]
    by (simp add: i or_else_def Let_def)
qed

section \<open>The state sheet\<close>

text \<open>What the search of \<open>getPreviousState\<close> finds: the last row that matches.\<close>

lemma scanRows_none:
  "\<forall>j. 0 < j \<and> j \<le> k \<longrightarrow> cellAt (sh ! j) 0 \<noteq> Text pid \<Longrightarrow>
   fst (scanRows pf sh pid k logs) = None"
  by (induction k) simp_all

lemma scanRows_found:
  "0 < i \<Longrightarrow> i \<le> k \<Longrightarrow> cellAt (sh ! i) 0 = Text pid \<Longrightarrow>
   \<forall>j. i < j \<and> j \<le> k \<longrightarrow> cellAt (sh ! j) 0 \<noteq> Text pid \<Longrightarrow>
   fst (scanRows pf sh pid k logs) =
     map_option (\<lambda>props. \<lparr>rowIndex = i + 1, prev_properties = props\<rparr>)
       (JSON_parse_cell pf (cellAt (sh ! i) 1))"
proof (induction k)
  case 0
  then show ?case by simp
next
  case (Suc k)
  show ?case
  proof (cases "i = Suc k")
    case True
    then show ?thesis using Suc.prems by (simp split: option.splits)
  next
    case False
    then have "i \<le> k" using Suc.prems by simp
    moreover have "cellAt (sh ! Suc k) 0 \<noteq> Text pid" using Suc.prems False by simp
    ultimately show ?thesis using Suc by simp
  qed
qed

lemma scanRows_Some:
  "fst (scanRows pf sh pid k logs) = Some st \<Longrightarrow>
   \<exists>i. 0 < i \<and> i \<le> k \<and> rowIndex st = i + 1 \<and> cellAt (sh ! i) 0 = Text pid \<and>
       JSON_parse_cell pf (cellAt (sh ! i) 1) = Some (prev_properties st) \<and>
       (\<forall>j. i < j \<and> j \<le> k \<longrightarrow> cellAt (sh ! j) 0 \<noteq> Text pid)"
proof (induction k)
  case 0
  then show ?case by simp
next
  case (Suc k)
  show ?case
  proof (cases "cellAt (sh ! Suc k) 0 = Text pid")
    case True
    then show ?thesis using Suc.prems
      by (auto split: option.splits intro!: exI [of _ "Suc k"])
  next
    case False
    then have "fst (scanRows pf sh pid k logs) = Some st" using Suc.prems by simp
    then obtain i where "0 < i" "i \<le> k" "rowIndex st = i + 1" "cellAt (sh ! i) 0 = Text pid"
      "JSON_parse_cell pf (cellAt (sh ! i) 1) = Some (prev_properties st)"
      "\<forall>j. i < j \<and> j \<le> k \<longrightarrow> cellAt (sh ! j) 0 \<noteq> Text pid"
      using Suc.IH by blast
    then show ?thesis using False
      by (intro exI [of _ i]) (auto simp: le_Suc_eq)
  qed
qed

lemma previousStateOf_eq:
  "previousStateOf pf sh pid = fst (scanRows pf sh pid (length sh - 1) [])"
  using scanRows_fst [of pf sh pid "length sh - 1" "[''Searching for previous state of page ID: '' @ pid]"]
  by (simp add: previousStateOf_def getPreviousState_def)

lemma previousStateOf_found:
  assumes "0 < i" "i < length sh" "cellAt (sh ! i) 0 = Text pid"
    and "\<forall>j. i < j \<and> j < length sh \<longrightarrow> cellAt (sh ! j) 0 \<noteq> Text pid"
  shows "previousStateOf pf sh pid =
     map_option (\<lambda>props. \<lparr>rowIndex = i + 1, prev_properties = props\<rparr>)
       (JSON_parse_cell pf (cellAt (sh ! i) 1))"
  unfolding previousStateOf_eq
  using assms by (intro scanRows_found) auto

lemma previousStateOf_Some:
  assumes "previousStateOf pf sh pid = Some st"
  obtains i where "0 < i" "i < length sh" "rowIndex st = i + 1" "cellAt (sh ! i) 0 = Text pid"
    "JSON_parse_cell pf (cellAt (sh ! i) 1) = Some (prev_properties st)"
    "\<forall>j. i < j \<and> j < length sh \<longrightarrow> cellAt (sh ! j) 0 \<noteq> Text pid"
proof -
  obtain i where i: "0 < i" "i \<le> length sh - 1" "rowIndex st = i + 1"
    "cellAt (sh ! i) 0 = Text pid"
    "JSON_parse_cell pf (cellAt (sh ! i) 1) = Some (prev_properties st)"
    "\<forall>j. i < j \<and> j \<le> length sh - 1 \<longrightarrow> cellAt (sh ! j) 0 \<noteq> Text pid"
    using scanRows_Some [of pf sh pid "length sh - 1" "[]" st] assms
    unfolding previousStateOf_eq by blast
  show ?thesis
    by (rule that [of i]) (use i in auto)
qed

lemma previousStateOf_no_row:
  "rowCount sh pid = 0 \<Longrightarrow> previousStateOf pf sh pid = None"
proof -
  assume "rowCount sh pid = 0"
  then have n: "\<forall>row\<in>set sh. cellAt row 0 \<noteq> Text pid"
    by (simp add: rowCount_def filter_empty_conv)
  have "\<forall>j. 0 < j \<and> j \<le> length sh - 1 \<longrightarrow> cellAt (sh ! j) 0 \<noteq> Text pid"
  proof (intro allI impI)
    fix j assume j: "0 < j \<and> j \<le> length sh - 1"
    then have "j < length sh" by arith
    then have "sh ! j \<in> set sh" by (rule nth_mem)
    then show "cellAt (sh ! j) 0 \<noteq> Text pid" using n by blast
  qed
  then show ?thesis unfolding previousStateOf_eq by (rule scanRows_none)
qed

lemma cellAt_padded:
  "cellAt ((row @ replicate (2 - length row) (Text []))[Suc 0 := v]) 0 = cellAt row 0"
  "cellAt ((row @ replicate (2 - length row) (Text []))[Suc 0 := v]) (Suc 0) = v"
proof -
  consider "row = []" | a where "row = [a]" | a b rest where "row = a # b # rest"
    by (cases row; cases "tl row") auto
  then show "cellAt ((row @ replicate (2 - length row) (Text []))[Suc 0 := v]) 0 = cellAt row 0"
    by cases (simp_all add: cellAt_def numeral_2_eq_2)
  consider "row = []" | a where "row = [a]" | a b rest where "row = a # b # rest"
    by (cases row; cases "tl row") auto
  then show "cellAt ((row @ replicate (2 - length row) (Text []))[Suc 0 := v]) (Suc 0) = v"
    by cases (simp_all add: cellAt_def numeral_2_eq_2)
qed

lemma setValue_in_range:
  "0 < i \<Longrightarrow> i < length sh \<Longrightarrow>
   setValue sh (Suc i) 2 v =
     sh[i := ((sh ! i) @ replicate (2 - length (sh ! i)) (Text []))[Suc 0 := v]]"
  by (simp add: setValue_def Let_def)

lemma setValue_keys:
  assumes "0 < i" "i < length sh"
  shows "length (setValue sh (Suc i) 2 v) = length sh"
    and "cellAt (setValue sh (Suc i) 2 v ! j) 0 = cellAt (sh ! j) 0"
    and "cellAt (setValue sh (Suc i) 2 v ! i) (Suc 0) = v"
    and "j \<noteq> i \<Longrightarrow> setValue sh (Suc i) 2 v ! j = sh ! j"
  using assms
  by (simp_all add: setValue_in_range cellAt_padded nth_list_update del: One_nat_def)

lemma rowCount_keys:
  assumes "length sh' = length sh"
    and "\<forall>j<length sh. cellAt (sh' ! j) 0 = cellAt (sh ! j) 0"
  shows "rowCount sh' q = rowCount sh q"
proof -
  have "map (\<lambda>row. cellAt row 0) sh' = map (\<lambda>row. cellAt row 0) sh"
    using assms by (intro nth_equalityI) simp_all
  then have "filter (\<lambda>k. k = Text q) (map (\<lambda>row. cellAt row 0) sh') =
             filter (\<lambda>k. k = Text q) (map (\<lambda>row. cellAt row 0) sh)"
    by simp
  then have "length (filter ((\<lambda>k. k = Text q) \<circ> (\<lambda>row. cellAt row 0)) sh') =
             length (filter ((\<lambda>k. k = Text q) \<circ> (\<lambda>row. cellAt row 0)) sh)"
    unfolding filter_map by (metis length_map)
  then show ?thesis by (simp add: rowCount_def comp_def)
qed

lemma rowCount_append:
  "rowCount (sh @ [[Text pid, v]]) q = rowCount sh q + (if q = pid then 1 else 0)"
  by (simp add: rowCount_def cellAt_def)

lemma updateCurrentState_written:
  "updateCurrentState pf sh pid props idx logs = Inr (sh', logs') \<Longrightarrow>
   writtenSheet pf sh pid props idx = Inr sh'"
  using updateCurrentState_sheet [of pf sh pid props idx logs] by simp

lemma writtenSheet_new:
  assumes "previousStateOf pf sh pid = None"
    and "writtenSheet pf sh pid props (rowIndexOf (previousStateOf pf sh pid)) = Inr sh'"
  shows "sh' = sh @ [[Text pid, toCell (JSON_stringify pf props)]]"
  using assms by (auto simp add: writtenSheet_eq rowIndexOf_def split: option.splits)

lemma nat_one_plus: "nat (1 + int i) = Suc i"
  by linarith

lemma writtenSheet_found:
  assumes "previousStateOf pf sh pid = Some st" and "rowIndex st = i + 1"
    and "writtenSheet pf sh pid props (rowIndexOf (previousStateOf pf sh pid)) = Inr sh'"
  shows "sh' = setValue sh (Suc i) 2 (toCell (JSON_stringify pf props))"
  using assms
  by (auto simp add: writtenSheet_eq rowIndexOf_def nat_one_plus split: option.splits if_splits)

text \<open>
  Among the indices from 1 to \<open>k\<close> there is a last one with a given property, unless there
  is none: the row at which the loop of \<open>getPreviousState\<close> stops.
\<close>

lemma last_index:
  "(\<forall>j. 0 < j \<and> j \<le> (k::nat) \<longrightarrow> \<not> P j) \<or>
   (\<exists>i. 0 < i \<and> i \<le> k \<and> P i \<and> (\<forall>j. i < j \<and> j \<le> k \<longrightarrow> \<not> P j))"
proof (induction k)
  case 0
  show ?case by simp
next
  case (Suc k)
  show ?case
  proof (cases "P (Suc k)")
    case True
    then have "0 < Suc k \<and> Suc k \<le> Suc k \<and> P (Suc k) \<and>
               (\<forall>j. Suc k < j \<and> j \<le> Suc k \<longrightarrow> \<not> P j)"
      by auto
    then show ?thesis by blast
  next
    case False
    from Suc show ?thesis
    proof
      assume "\<forall>j. 0 < j \<and> j \<le> k \<longrightarrow> \<not> P j"
      then have "\<forall>j. 0 < j \<and> j \<le> Suc k \<longrightarrow> \<not> P j"
        using False by (auto simp: le_Suc_eq)
      then show ?thesis by blast
    next
      assume "\<exists>i. 0 < i \<and> i \<le> k \<and> P i \<and> (\<forall>j. i < j \<and> j \<le> k \<longrightarrow> \<not> P j)"
      then obtain i where "0 < i" "i \<le> k" "P i" "\<forall>j. i < j \<and> j \<le> k \<longrightarrow> \<not> P j"
        by blast
      then have "0 < i \<and> i \<le> Suc k \<and> P i \<and> (\<forall>j. i < j \<and> j \<le> Suc k \<longrightarrow> \<not> P j)"
        using False by (auto simp: le_Suc_eq)
      then show ?thesis by blast
    qed
  qed
qed

lemma rowCount_pos:
  "0 < rowCount sh pid \<longleftrightarrow> (\<exists>i<length sh. cellAt (sh ! i) 0 = Text pid)"
proof -
  have "0 < rowCount sh pid \<longleftrightarrow> (\<exists>row\<in>set sh. cellAt row 0 = Text pid)"
    by (simp add: rowCount_def filter_empty_conv)
  also have "\<dots> \<longleftrightarrow> (\<exists>i<length sh. cellAt (sh ! i) 0 = Text pid)"
  proof
    assume "\<exists>row\<in>set sh. cellAt row 0 = Text pid"
    then obtain row where "row \<in> set sh" "cellAt row 0 = Text pid"
      by blast
    then show "\<exists>i<length sh. cellAt (sh ! i) 0 = Text pid"
      by (metis in_set_conv_nth)
  next
    assume "\<exists>i<length sh. cellAt (sh ! i) 0 = Text pid"
    then obtain i where "i < length sh" "cellAt (sh ! i) 0 = Text pid"
      by blast
    then show "\<exists>row\<in>set sh. cellAt row 0 = Text pid"
      by (metis nth_mem)
  qed
  finally show ?thesis .
qed

lemma last_row:
  assumes "0 < rowCount sh pid" and first: "cellAt (sh ! 0) 0 \<noteq> Text pid"
  shows "\<exists>i. 0 < i \<and> i < length sh \<and> cellAt (sh ! i) 0 = Text pid \<and>
             (\<forall>j. i < j \<and> j < length sh \<longrightarrow> cellAt (sh ! j) 0 \<noteq> Text pid)"
proof -
  obtain m where m: "m < length sh" "cellAt (sh ! m) 0 = Text pid"
    using assms(1) rowCount_pos by blast
  have m0: "0 < m"
  proof (rule ccontr)
    assume "\<not> 0 < m"
    then have "m = 0" by simp
    then show False using m(2) first by simp
  qed
  have "\<not> (\<forall>j. 0 < j \<and> j \<le> length sh - 1 \<longrightarrow> \<not> cellAt (sh ! j) 0 = Text pid)"
    using m m0 by (auto intro!: exI [of _ m])
  then obtain i where "0 < i" "i \<le> length sh - 1" "cellAt (sh ! i) 0 = Text pid"
    "\<forall>j. i < j \<and> j \<le> length sh - 1 \<longrightarrow> \<not> cellAt (sh ! j) 0 = Text pid"
    using last_index [of "length sh - 1" "\<lambda>j. cellAt (sh ! j) 0 = Text pid"] by blast
  then have "0 < i \<and> i < length sh \<and> cellAt (sh ! i) 0 = Text pid \<and>
             (\<forall>j. i < j \<and> j < length sh \<longrightarrow> cellAt (sh ! j) 0 \<noteq> Text pid)"
    using m(1) by auto
  then show ?thesis by blast
qed

text \<open>The three kinds of write that \<open>processWebhook\<close> makes with the row of its lookup.\<close>

lemma written_first:
  assumes w: "writtenSheet pf sh pid props (rowIndexOf (previousStateOf pf sh pid)) = Inr sh'"
    and z: "rowCount sh pid = 0"
  shows "sh' = sh @ [[Text pid, toCell (JSON_stringify pf props)]]"
    and "rowCount sh' pid = 1"
    and "\<forall>q. q \<noteq> pid \<longrightarrow> rowCount sh' q = rowCount sh q"
proof -
  show e: "sh' = sh @ [[Text pid, toCell (JSON_stringify pf props)]]"
    by (rule writtenSheet_new [OF previousStateOf_no_row [OF z] w])
  show "rowCount sh' pid = 1"
    unfolding e rowCount_append using z by simp
  show "\<forall>q. q \<noteq> pid \<longrightarrow> rowCount sh' q = rowCount sh q"
    unfolding e rowCount_append by simp
qed

lemma written_in_place:
  assumes w: "writtenSheet pf sh pid props (rowIndexOf (previousStateOf pf sh pid)) = Inr sh'"
    and i: "0 < i" "i < length sh" "cellAt (sh ! i) 0 = Text pid"
      "\<forall>j. i < j \<and> j < length sh \<longrightarrow> cellAt (sh ! j) 0 \<noteq> Text pid"
    and ok: "JSON_parse_cell pf (cellAt (sh ! i) 1) \<noteq> None"
  shows "length sh' = length sh"
    and "cellAt (sh' ! i) 1 = toCell (JSON_stringify pf props)"
    and "\<forall>j. j \<noteq> i \<longrightarrow> sh' ! j = sh ! j"
    and "\<forall>j. cellAt (sh' ! j) 0 = cellAt (sh ! j) 0"
    and "\<forall>q. rowCount sh' q = rowCount sh q"
proof -
  let ?v = "toCell (JSON_stringify pf props)"
  obtain v where v: "JSON_parse_cell pf (cellAt (sh ! i) 1) = Some v"
    using ok by blast
  have st: "previousStateOf pf sh pid = Some \<lparr>rowIndex = i + 1, prev_properties = v\<rparr>"
    using previousStateOf_found [OF i, of pf] v by simp
  have e: "sh' = setValue sh (Suc i) 2 ?v"
    by (rule writtenSheet_found [OF st _ w]) simp
  show l: "length sh' = length sh"
    unfolding e by (rule setValue_keys(1) [OF i(1,2)])
  show "cellAt (sh' ! i) 1 = ?v"
    unfolding e using setValue_keys(3) [OF i(1,2)] by simp
  show "\<forall>j. j \<noteq> i \<longrightarrow> sh' ! j = sh ! j"
    unfolding e using setValue_keys(4) [OF i(1,2)] by blast
  show k: "\<forall>j. cellAt (sh' ! j) 0 = cellAt (sh ! j) 0"
    unfolding e using setValue_keys(2) [OF i(1,2)] by blast
  show "\<forall>q. rowCount sh' q = rowCount sh q"
    using rowCount_keys [OF l] k by blast
qed

lemma written_appended:
  assumes w: "writtenSheet pf sh pid props (rowIndexOf (previousStateOf pf sh pid)) = Inr sh'"
    and i: "0 < i" "i < length sh" "cellAt (sh ! i) 0 = Text pid"
      "\<forall>j. i < j \<and> j < length sh \<longrightarrow> cellAt (sh ! j) 0 \<noteq> Text pid"
    and bad: "JSON_parse_cell pf (cellAt (sh ! i) 1) = None"
  shows "sh' = sh @ [[Text pid, toCell (JSON_stringify pf props)]]"
    and "rowCount sh' pid = rowCount sh pid + 1"
    and "\<forall>q. q \<noteq> pid \<longrightarrow> rowCount sh' q = rowCount sh q"
proof -
  have n: "previousStateOf pf sh pid = None"
    using previousStateOf_found [OF i, of pf] bad by simp
  show e: "sh' = sh @ [[Text pid, toCell (JSON_stringify pf props)]]"
    by (rule writtenSheet_new [OF n w])
  show "rowCount sh' pid = rowCount sh pid + 1"
    unfolding e rowCount_append by simp
  show "\<forall>q. q \<noteq> pid \<longrightarrow> rowCount sh' q = rowCount sh q"
    unfolding e rowCount_append by simp
qed

lemma written_keys:
  assumes w: "writtenSheet pf sh pid props (rowIndexOf (previousStateOf pf sh pid)) = Inr sh'"
  shows "length sh \<le> length sh'"
    and "\<forall>j<length sh. cellAt (sh' ! j) 0 = cellAt (sh ! j) 0"
proof -
  let ?v = "toCell (JSON_stringify pf props)"
  have c: "sh' = sh @ [[Text pid, ?v]] \<or>
           (length sh' = length sh \<and> (\<forall>j. cellAt (sh' ! j) 0 = cellAt (sh ! j) 0))"
  proof (cases "previousStateOf pf sh pid")
    case None
    then show ?thesis using writtenSheet_new [OF None w] by simp
  next
    case (Some st)
    obtain i where i: "0 < i" "i < length sh" "rowIndex st = i + 1"
      by (rule previousStateOf_Some [OF Some])
    have e: "sh' = setValue sh (Suc i) 2 ?v"
      by (rule writtenSheet_found [OF Some i(3) w])
    have "length sh' = length sh"
      unfolding e by (rule setValue_keys(1) [OF i(1,2)])
    moreover have "\<forall>j. cellAt (sh' ! j) 0 = cellAt (sh ! j) 0"
      unfolding e using setValue_keys(2) [OF i(1,2)] by blast
    ultimately show ?thesis by blast
  qed
  show "length sh \<le> length sh'"
    using c by auto
  show "\<forall>j<length sh. cellAt (sh' ! j) 0 = cellAt (sh ! j) 0"
    using c by (auto simp: nth_append)
qed

lemma written_invariant:
  assumes first: "cellAt (sh ! 0) 0 \<noteq> Text pid"
    and w: "writtenSheet pf sh pid props (rowIndexOf (previousStateOf pf sh pid)) = Inr sh'"
    and inv: "\<forall>q. rowCount sh q \<le> 1"
  shows "(\<forall>q. rowCount sh' q \<le> 1) \<longleftrightarrow>
         \<not> (\<exists>i. 0 < i \<and> i < length sh \<and> cellAt (sh ! i) 0 = Text pid \<and>
                (\<forall>j. i < j \<and> j < length sh \<longrightarrow> cellAt (sh ! j) 0 \<noteq> Text pid) \<and>
                JSON_parse_cell pf (cellAt (sh ! i) 1) = None)"
proof
  assume a: "\<forall>q. rowCount sh' q \<le> 1"
  show "\<not> (\<exists>i. 0 < i \<and> i < length sh \<and> cellAt (sh ! i) 0 = Text pid \<and>
                (\<forall>j. i < j \<and> j < length sh \<longrightarrow> cellAt (sh ! j) 0 \<noteq> Text pid) \<and>
                JSON_parse_cell pf (cellAt (sh ! i) 1) = None)"
  proof
    assume "\<exists>i. 0 < i \<and> i < length sh \<and> cellAt (sh ! i) 0 = Text pid \<and>
                (\<forall>j. i < j \<and> j < length sh \<longrightarrow> cellAt (sh ! j) 0 \<noteq> Text pid) \<and>
                JSON_parse_cell pf (cellAt (sh ! i) 1) = None"
    then obtain i where i: "0 < i" "i < length sh" "cellAt (sh ! i) 0 = Text pid"
      "\<forall>j. i < j \<and> j < length sh \<longrightarrow> cellAt (sh ! j) 0 \<noteq> Text pid"
      and bad: "JSON_parse_cell pf (cellAt (sh ! i) 1) = None"
      by blast
    have "rowCount sh' pid = rowCount sh pid + 1"
      by (rule written_appended(2) [OF w i bad])
    moreover have "0 < rowCount sh pid"
      using i(2,3) rowCount_pos by blast
    moreover have "rowCount sh' pid \<le> 1" using a by blast
    ultimately show False by simp
  qed
next
  assume a: "\<not> (\<exists>i. 0 < i \<and> i < length sh \<and> cellAt (sh ! i) 0 = Text pid \<and>
                (\<forall>j. i < j \<and> j < length sh \<longrightarrow> cellAt (sh ! j) 0 \<noteq> Text pid) \<and>
                JSON_parse_cell pf (cellAt (sh ! i) 1) = None)"
  show "\<forall>q. rowCount sh' q \<le> 1"
  proof (cases "rowCount sh pid = 0")
    case True
    have p1: "rowCount sh' pid = 1"
      by (rule written_first(2) [OF w True])
    have p2: "\<forall>q. q \<noteq> pid \<longrightarrow> rowCount sh' q = rowCount sh q"
      by (rule written_first(3) [OF w True])
    show ?thesis
    proof
      fix q
      show "rowCount sh' q \<le> 1"
      proof (cases "q = pid")
        case True
        then show ?thesis using p1 by simp
      next
        case False
        then have "rowCount sh' q = rowCount sh q" using p2 by blast
        then show ?thesis using inv by simp
      qed
    qed
  next
    case False
    then have "0 < rowCount sh pid" by simp
    from last_row [OF this first]
    obtain i where i: "0 < i" "i < length sh" "cellAt (sh ! i) 0 = Text pid"
      "\<forall>j. i < j \<and> j < length sh \<longrightarrow> cellAt (sh ! j) 0 \<noteq> Text pid"
      by blast
    have ok: "JSON_parse_cell pf (cellAt (sh ! i) 1) \<noteq> None"
    proof
      assume "JSON_parse_cell pf (cellAt (sh ! i) 1) = None"
      then have "0 < i \<and> i < length sh \<and> cellAt (sh ! i) 0 = Text pid \<and>
                (\<forall>j. i < j \<and> j < length sh \<longrightarrow> cellAt (sh ! j) 0 \<noteq> Text pid) \<and>
                JSON_parse_cell pf (cellAt (sh ! i) 1) = None"
        using i by blast
      then show False using a by blast
    qed
    have "\<forall>q. rowCount sh' q = rowCount sh q"
      by (rule written_in_place(5) [OF w i ok])
    then show ?thesis using inv by simp
  qed
qed

text \<open>
  Claim C5, as amended. Take a state sheet that has a first row which is not a row of the
  sighted page id, as on a sheet with the header row that \<open>getOrCreateSheet\<close> writes, and
  take the write that \<open>processWebhook\<close> makes for that id, with the row index of its own
  lookup. The rows of an id are all the rows of the sheet whose first cell is the id.
  \<^item> No row is deleted and no page id cell changes.
  \<^item> First sighting: when the sheet has no row for the id, exactly one row is appended, the
    id and the payload; the id then has one row and every other id as many as before.
  \<^item> Later sighting: when the id has a row, it has a last one, below the first row, and the
    lookup returns what \<open>JSON.parse\<close> makes of the payload of that row. When that payload
    deserializes, the row gets the new payload, every other row stays as it is, nothing
    is appended, and every id has as many rows as before. When it does not deserialize,
    the write appends a further row for the id, which then has one row more.
  \<^item> So a sheet with at most one row per page id has at most one row per page id after the
    write exactly when the last row of the sighted id does not hold a payload that fails
    to deserialize.
\<close>

theorem updateCurrentState_rows:
  assumes hdr: "sh \<noteq> []"
    and first: "cellAt (sh ! 0) 0 \<noteq> Text pageId"
    and upd: "updateCurrentState pf sh pageId props
                (rowIndexOf (fst (getPreviousState pf sh pageId l1))) l2 = Inr (sh', l3)"
  shows "length sh \<le> length sh' \<and>
    (\<forall>j<length sh. cellAt (sh' ! j) 0 = cellAt (sh ! j) 0) \<and>
    (rowCount sh pageId = 0 \<longrightarrow>
       sh' = sh @ [[Text pageId, toCell (JSON_stringify pf props)]] \<and>
       rowCount sh' pageId = 1 \<and>
       (\<forall>q. q \<noteq> pageId \<longrightarrow> rowCount sh' q = rowCount sh q)) \<and>
    (0 < rowCount sh pageId \<longrightarrow>
       (\<exists>i. 0 < i \<and> i < length sh \<and> cellAt (sh ! i) 0 = Text pageId \<and>
            (\<forall>j. i < j \<and> j < length sh \<longrightarrow> cellAt (sh ! j) 0 \<noteq> Text pageId))) \<and>
    (\<forall>i. 0 < i \<and> i < length sh \<and> cellAt (sh ! i) 0 = Text pageId \<and>
         (\<forall>j. i < j \<and> j < length sh \<longrightarrow> cellAt (sh ! j) 0 \<noteq> Text pageId) \<longrightarrow>
       fst (getPreviousState pf sh pageId l1) =
         map_option (\<lambda>v. \<lparr>rowIndex = i + 1, prev_properties = v\<rparr>)
           (JSON_parse_cell pf (cellAt (sh ! i) 1)) \<and>
       (JSON_parse_cell pf (cellAt (sh ! i) 1) \<noteq> None \<longrightarrow>
          length sh' = length sh \<and>
          cellAt (sh' ! i) 1 = toCell (JSON_stringify pf props) \<and>
          (\<forall>j. j \<noteq> i \<longrightarrow> sh' ! j = sh ! j) \<and>
          (\<forall>q. rowCount sh' q = rowCount sh q)) \<and>
       (JSON_parse_cell pf (cellAt (sh ! i) 1) = None \<longrightarrow>
          sh' = sh @ [[Text pageId, toCell (JSON_stringify pf props)]] \<and>
          rowCount sh' pageId = rowCount sh pageId + 1 \<and>
          (\<forall>q. q \<noteq> pageId \<longrightarrow> rowCount sh' q = rowCount sh q))) \<and>
    ((\<forall>q. rowCount sh q \<le> 1) \<longrightarrow>
       ((\<forall>q. rowCount sh' q \<le> 1) \<longleftrightarrow>
        \<not> (\<exists>i. 0 < i \<and> i < length sh \<and> cellAt (sh ! i) 0 = Text pageId \<and>
               (\<forall>j. i < j \<and> j < length sh \<longrightarrow> cellAt (sh ! j) 0 \<noteq> Text pageId) \<and>
               JSON_parse_cell pf (cellAt (sh ! i) 1) = None)))"
proof -
  have w: "writtenSheet pf sh pageId props (rowIndexOf (previousStateOf pf sh pageId)) = Inr sh'"
    using updateCurrentState_written [OF upd [unfolded getPreviousState_fst]] .
  have c1: "length sh \<le> length sh'"
    and c2: "\<forall>j<length sh. cellAt (sh' ! j) 0 = cellAt (sh ! j) 0"
    by (rule written_keys [OF w])+
  have c3: "rowCount sh pageId = 0 \<longrightarrow>
       sh' = sh @ [[Text pageId, toCell (JSON_stringify pf props)]] \<and>
       rowCount sh' pageId = 1 \<and>
       (\<forall>q. q \<noteq> pageId \<longrightarrow> rowCount sh' q = rowCount sh q)"
    using written_first [OF w] by blast
  have c4: "0 < rowCount sh pageId \<longrightarrow>
       (\<exists>i. 0 < i \<and> i < length sh \<and> cellAt (sh ! i) 0 = Text pageId \<and>
            (\<forall>j. i < j \<and> j < length sh \<longrightarrow> cellAt (sh ! j) 0 \<noteq> Text pageId))"
    using last_row [OF _ first] by blast
  have c5: "\<forall>i. 0 < i \<and> i < length sh \<and> cellAt (sh ! i) 0 = Text pageId \<and>
         (\<forall>j. i < j \<and> j < length sh \<longrightarrow> cellAt (sh ! j) 0 \<noteq> Text pageId) \<longrightarrow>
       fst (getPreviousState pf sh pageId l1) =
         map_option (\<lambda>v. \<lparr>rowIndex = i + 1, prev_properties = v\<rparr>)
           (JSON_parse_cell pf (cellAt (sh ! i) 1)) \<and>
       (JSON_parse_cell pf (cellAt (sh ! i) 1) \<noteq> None \<longrightarrow>
          length sh' = length sh \<and>
          cellAt (sh' ! i) 1 = toCell (JSON_stringify pf props) \<and>
          (\<forall>j. j \<noteq> i \<longrightarrow> sh' ! j = sh ! j) \<and>
          (\<forall>q. rowCount sh' q = rowCount sh q)) \<and>
       (JSON_parse_cell pf (cellAt (sh ! i) 1) = None \<longrightarrow>
          sh' = sh @ [[Text pageId, toCell (JSON_stringify pf props)]] \<and>
          rowCount sh' pageId = rowCount sh pageId + 1 \<and>
          (\<forall>q. q \<noteq> pageId \<longrightarrow> rowCount sh' q = rowCount sh q))"
  proof (intro allI impI)
    fix i
    assume i: "0 < i \<and> i < length sh \<and> cellAt (sh ! i) 0 = Text pageId \<and>
         (\<forall>j. i < j \<and> j < length sh \<longrightarrow> cellAt (sh ! j) 0 \<noteq> Text pageId)"
    have i': "0 < i" "i < length sh" "cellAt (sh ! i) 0 = Text pageId"
      "\<forall>j. i < j \<and> j < length sh \<longrightarrow> cellAt (sh ! j) 0 \<noteq> Text pageId"
      using i by blast+
    have a: "fst (getPreviousState pf sh pageId l1) =
         map_option (\<lambda>v. \<lparr>rowIndex = i + 1, prev_properties = v\<rparr>)
           (JSON_parse_cell pf (cellAt (sh ! i) 1))"
      unfolding getPreviousState_fst by (rule previousStateOf_found [OF i'])
    have b: "length sh' = length sh \<and>
          cellAt (sh' ! i) 1 = toCell (JSON_stringify pf props) \<and>
          (\<forall>j. j \<noteq> i \<longrightarrow> sh' ! j = sh ! j) \<and>
          (\<forall>q. rowCount sh' q = rowCount sh q)"
      if "JSON_parse_cell pf (cellAt (sh ! i) 1) \<noteq> None"
      using written_in_place(1,2,3,5) [OF w i' that] by blast
    have c: "sh' = sh @ [[Text pageId, toCell (JSON_stringify pf props)]] \<and>
          rowCount sh' pageId = rowCount sh pageId + 1 \<and>
          (\<forall>q. q \<noteq> pageId \<longrightarrow> rowCount sh' q = rowCount sh q)"
      if "JSON_parse_cell pf (cellAt (sh ! i) 1) = None"
      using written_appended [OF w i' that] by blast
    show "fst (getPreviousState pf sh pageId l1) =
         map_option (\<lambda>v. \<lparr>rowIndex = i + 1, prev_properties = v\<rparr>)
           (JSON_parse_cell pf (cellAt (sh ! i) 1)) \<and>
       (JSON_parse_cell pf (cellAt (sh ! i) 1) \<noteq> None \<longrightarrow>
          length sh' = length sh \<and>
          cellAt (sh' ! i) 1 = toCell (JSON_stringify pf props) \<and>
          (\<forall>j. j \<noteq> i \<longrightarrow> sh' ! j = sh ! j) \<and>
          (\<forall>q. rowCount sh' q = rowCount sh q)) \<and>
       (JSON_parse_cell pf (cellAt (sh ! i) 1) = None \<longrightarrow>
          sh' = sh @ [[Text pageId, toCell (JSON_stringify pf props)]] \<and>
          rowCount sh' pageId = rowCount sh pageId + 1 \<and>
          (\<forall>q. q \<noteq> pageId \<longrightarrow> rowCount sh' q = rowCount sh q))"
      using a b c by blast
  qed
  have c6: "(\<forall>q. rowCount sh q \<le> 1) \<longrightarrow>
       ((\<forall>q. rowCount sh' q \<le> 1) \<longleftrightarrow>
        \<not> (\<exists>i. 0 < i \<and> i < length sh \<and> cellAt (sh ! i) 0 = Text pageId \<and>
               (\<forall>j. i < j \<and> j < length sh \<longrightarrow> cellAt (sh ! j) 0 \<noteq> Text pageId) \<and>
               JSON_parse_cell pf (cellAt (sh ! i) 1) = None))"
    using written_invariant [OF first w] by blast
  show ?thesis
    by (intro conjI) (rule c1 c2 c3 c4 c5 c6)+
qed

lemma samplePlatform_simps:
  "stateWriteError samplePlatform = None"
  "logAppendError samplePlatform = None"
  "JSON_stringify_properties samplePlatform p = sampleJson"
  "JSON_parse_properties samplePlatform s = (if s = sampleJson then Some sampleProps else None)"
  "fetch samplePlatform u c = None"
  by (simp_all add: samplePlatform_def)

lemma sample_lookup_fresh:
  "fst (getPreviousState samplePlatform [map Text STATE_HEADERS] ''P1'' []) = None"
  by (simp add: getPreviousState_def)

lemma sample_append:
  "updateCurrentState samplePlatform [map Text STATE_HEADERS] ''P1'' (Object sampleProps)
     (rowIndexOf (fst (getPreviousState samplePlatform [map Text STATE_HEADERS] ''P1'' []))) []
   = Inr ([map Text STATE_HEADERS, [Text ''P1'', Text sampleJson]],
          [''Appended new state for page P1.''])"
  by (simp add: sample_lookup_fresh rowIndexOf_def updateCurrentState_def samplePlatform_simps
      toCell_def JSON_stringify_def)

lemma sample_stored:
  "JSON_parse_cell samplePlatform (Text (JSON_stringify_properties samplePlatform sampleProps))
     = Some (Object sampleProps)"
  by (simp add: JSON_parse_cell_def samplePlatform_simps sampleJson_def)

lemma sample_lookup_stored:
  "fst (getPreviousState samplePlatform
          [map Text STATE_HEADERS, [Text ''P1'', Text sampleJson]] ''P1'' []) =
     Some \<lparr>rowIndex = 2, prev_properties = Object sampleProps\<rparr>"
proof -
  have "JSON_parse_cell samplePlatform (Text sampleJson) = Some (Object sampleProps)"
    using sample_stored by (simp add: samplePlatform_simps)
  then show ?thesis
    by (simp add: getPreviousState_def cellAt_def)
qed

lemma sample_update:
  "updateCurrentState samplePlatform
     [map Text STATE_HEADERS, [Text ''P1'', Text sampleJson]] ''P1'' Null
     (rowIndexOf (fst (getPreviousState samplePlatform
        [map Text STATE_HEADERS, [Text ''P1'', Text sampleJson]] ''P1'' []))) []
   = Inr ([map Text STATE_HEADERS, [Text ''P1'', Text ''null'']],
          [''Updated state for page P1 at row '' @ showNat 2 @ ''.''])"
  by (simp add: sample_lookup_stored rowIndexOf_def updateCurrentState_def samplePlatform_simps
      toCell_def JSON_stringify_def setValue_def Let_def)

theorem updateCurrentState_rows_witness:
  "[map Text STATE_HEADERS] \<noteq> [] \<and>
   cellAt ([map Text STATE_HEADERS] ! 0) 0 \<noteq> Text ''P1'' \<and>
   updateCurrentState samplePlatform [map Text STATE_HEADERS] ''P1'' (Object sampleProps)
     (rowIndexOf (fst (getPreviousState samplePlatform [map Text STATE_HEADERS] ''P1'' []))) []
   = Inr ([map Text STATE_HEADERS, [Text ''P1'', Text sampleJson]],
          [''Appended new state for page P1.'']) \<and>
   rowCount [map Text STATE_HEADERS] ''P1'' = 0 \<and>
   rowCount [map Text STATE_HEADERS, [Text ''P1'', Text sampleJson]] ''P1'' = 1 \<and>
   updateCurrentState samplePlatform
     [map Text STATE_HEADERS, [Text ''P1'', Text sampleJson]] ''P1'' Null
     (rowIndexOf (fst (getPreviousState samplePlatform
        [map Text STATE_HEADERS, [Text ''P1'', Text sampleJson]] ''P1'' []))) []
   = Inr ([map Text STATE_HEADERS, [Text ''P1'', Text ''null'']],
          [''Updated state for page P1 at row '' @ showNat 2 @ ''.'']) \<and>
   JSON_parse_cell samplePlatform
     (cellAt ([map Text STATE_HEADERS, [Text ''P1'', Text sampleJson]] ! 1) 1) \<noteq> None \<and>
   (\<forall>q. rowCount [map Text STATE_HEADERS, [Text ''P1'', Text ''null'']] q =
        rowCount [map Text STATE_HEADERS, [Text ''P1'', Text sampleJson]] q)"
proof -
  let ?sh0 = "[map Text STATE_HEADERS]"
  let ?sh1 = "[map Text STATE_HEADERS, [Text ''P1'', Text sampleJson]]"
  let ?sh2 = "[map Text STATE_HEADERS, [Text ''P1'', Text ''null'']]"
  have h1: "?sh0 \<noteq> []" and h2: "?sh1 \<noteq> []"
    by simp_all
  have f1: "cellAt (?sh0 ! 0) 0 \<noteq> Text ''P1''" and f2: "cellAt (?sh1 ! 0) 0 \<noteq> Text ''P1''"
    by (simp_all add: cellAt_def STATE_HEADERS_def)
  have z: "rowCount ?sh0 ''P1'' = 0"
    using f1 by (simp add: rowCount_def)
  have v: "toCell (JSON_stringify samplePlatform (Object sampleProps)) = Text sampleJson"
    by (simp add: toCell_def JSON_stringify_def samplePlatform_simps)
  have "rowCount ?sh0 ''P1'' = 0 \<longrightarrow>
       ?sh1 = ?sh0 @ [[Text ''P1'', toCell (JSON_stringify samplePlatform (Object sampleProps))]] \<and>
       rowCount ?sh1 ''P1'' = 1 \<and>
       (\<forall>q. q \<noteq> ''P1'' \<longrightarrow> rowCount ?sh1 q = rowCount ?sh0 q)"
    by (rule updateCurrentState_rows
          [OF h1 f1 sample_append, THEN conjunct2, THEN conjunct2, THEN conjunct1])
  then have one: "rowCount ?sh1 ''P1'' = 1"
    using z by blast
  have r: "0 < (1::nat) \<and> 1 < length ?sh1 \<and> cellAt (?sh1 ! 1) 0 = Text ''P1'' \<and>
           (\<forall>j. 1 < j \<and> j < length ?sh1 \<longrightarrow> cellAt (?sh1 ! j) 0 \<noteq> Text ''P1'')"
    by (auto simp add: cellAt_def)
  have p: "JSON_parse_cell samplePlatform (cellAt (?sh1 ! 1) 1) \<noteq> None"
    using sample_stored by (simp add: samplePlatform_simps cellAt_def)
  have "(JSON_parse_cell samplePlatform (cellAt (?sh1 ! 1) 1) \<noteq> None \<longrightarrow>
          length ?sh2 = length ?sh1 \<and>
          cellAt (?sh2 ! 1) 1 = toCell (JSON_stringify samplePlatform Null) \<and>
          (\<forall>j. j \<noteq> 1 \<longrightarrow> ?sh2 ! j = ?sh1 ! j) \<and>
          (\<forall>q. rowCount ?sh2 q = rowCount ?sh1 q))"
    using updateCurrentState_rows
          [OF h2 f2 sample_update, THEN conjunct2, THEN conjunct2, THEN conjunct2,
           THEN conjunct2, THEN conjunct1, THEN spec, THEN mp, OF r]
    by blast
  then have same: "\<forall>q. rowCount ?sh2 q = rowCount ?sh1 q"
    using p by blast
  show ?thesis
    using h1 f1 sample_append z one sample_update p same by blast
qed

lemma corrupt_lookup: "fst (getPreviousState samplePlatform corruptSheet ''P1'' []) = None"
  by (simp add: getPreviousState_def corruptSheet_def cellAt_def JSON_parse_cell_def
      samplePlatform_simps sampleJson_def)

lemma empty_lookup: "fst (getPreviousState pf [] pid []) = None"
  by (simp add: getPreviousState_def)

lemma first_row_lookup: "fst (getPreviousState pf [row] pid []) = None"
  by (simp add: getPreviousState_def)

text \<open>
  Claim C5 as stated says that a sighting of an id that has a row never appends a second
  one. When the payload of that row is not JSON, the lookup returns \<open>null\<close> and the
  write appends: the sheet with one row for P1 has two afterwards. And on a state sheet
  that exists and is empty, the row of the first sighting is written to the first row of
  the sheet, where the lookup never looks: the second sighting appends a second row for
  P1, although the payload of the first deserializes.
\<close>

theorem updateCurrentState_duplicate_counterexample:
  "rowCount corruptSheet ''P1'' = 1 \<and>
   map_sum id fst
     (updateCurrentState samplePlatform corruptSheet ''P1'' (Object sampleProps)
        (rowIndexOf (fst (getPreviousState samplePlatform corruptSheet ''P1'' []))) [])
     = Inr (corruptSheet @ [[Text ''P1'', Text sampleJson]]) \<and>
   rowCount (corruptSheet @ [[Text ''P1'', Text sampleJson]]) ''P1'' = 2 \<and>
   map_sum id fst
     (updateCurrentState samplePlatform [] ''P1'' (Object sampleProps)
        (rowIndexOf (fst (getPreviousState samplePlatform [] ''P1'' []))) [])
     = Inr [[Text ''P1'', Text sampleJson]] \<and>
   JSON_parse_cell samplePlatform (Text sampleJson) = Some (Object sampleProps) \<and>
   map_sum id fst
     (updateCurrentState samplePlatform [[Text ''P1'', Text sampleJson]] ''P1''
        (Object sampleProps)
        (rowIndexOf (fst (getPreviousState samplePlatform
           [[Text ''P1'', Text sampleJson]] ''P1'' []))) [])
     = Inr [[Text ''P1'', Text sampleJson], [Text ''P1'', Text sampleJson]] \<and>
   rowCount [[Text ''P1'', Text sampleJson], [Text ''P1'', Text sampleJson]] ''P1'' = 2"
proof -
  have "JSON_parse_cell samplePlatform (Text sampleJson) = Some (Object sampleProps)"
    using sample_stored by (simp add: samplePlatform_simps)
  then show ?thesis
    by (simp add: corrupt_lookup empty_lookup first_row_lookup rowIndexOf_def
        updateCurrentState_def samplePlatform_simps toCell_def JSON_stringify_def rowCount_def)
       (simp add: corruptSheet_def cellAt_def STATE_HEADERS_def)
qed

text \<open>
  After the write of \<open>processWebhook\<close> on a sheet with its header row, the lookup finds
  the row written: its result is decided by the payload just stored.
\<close>

lemma lookup_after_write:
  assumes hdr: "sh \<noteq> []"
    and w: "writtenSheet pf sh pid props (rowIndexOf (previousStateOf pf sh pid)) = Inr sh'"
  shows "\<exists>i. 0 < i \<and> i < length sh' \<and> cellAt (sh' ! i) 0 = Text pid \<and>
     cellAt (sh' ! i) 1 = toCell (JSON_stringify pf props) \<and>
     (\<forall>j. i < j \<and> j < length sh' \<longrightarrow> cellAt (sh' ! j) 0 \<noteq> Text pid) \<and>
     previousStateOf pf sh' pid =
       map_option (\<lambda>p. \<lparr>rowIndex = i + 1, prev_properties = p\<rparr>)
         (JSON_parse_cell pf (toCell (JSON_stringify pf props)))"
proof -
  let ?v = "toCell (JSON_stringify pf props)"
  have "\<exists>i. 0 < i \<and> i < length sh' \<and> cellAt (sh' ! i) 0 = Text pid \<and>
     cellAt (sh' ! i) 1 = ?v \<and>
     (\<forall>j. i < j \<and> j < length sh' \<longrightarrow> cellAt (sh' ! j) 0 \<noteq> Text pid)"
  proof (cases "previousStateOf pf sh pid")
    case None
    have sh': "sh' = sh @ [[Text pid, ?v]]"
      by (rule writtenSheet_new [OF None w])
    have "0 < length sh \<and> length sh < length sh' \<and> cellAt (sh' ! length sh) 0 = Text pid \<and>
     cellAt (sh' ! length sh) 1 = ?v \<and>
     (\<forall>j. length sh < j \<and> j < length sh' \<longrightarrow> cellAt (sh' ! j) 0 \<noteq> Text pid)"
      using hdr by (auto simp: sh' cellAt_def)
    then show ?thesis by blast
  next
    case (Some st)
    obtain i where i: "0 < i" "i < length sh" "rowIndex st = i + 1"
      "cellAt (sh ! i) 0 = Text pid"
      "JSON_parse_cell pf (cellAt (sh ! i) 1) = Some (prev_properties st)"
      "\<forall>j. i < j \<and> j < length sh \<longrightarrow> cellAt (sh ! j) 0 \<noteq> Text pid"
      by (rule previousStateOf_Some [OF Some])
    have sh': "sh' = setValue sh (Suc i) 2 ?v"
      by (rule writtenSheet_found [OF Some i(3) w])
    have "0 < i \<and> i < length sh' \<and> cellAt (sh' ! i) 0 = Text pid \<and>
     (\<forall>j. i < j \<and> j < length sh' \<longrightarrow> cellAt (sh' ! j) 0 \<noteq> Text pid)"
      using i by (simp add: sh' setValue_keys(1,2) del: One_nat_def)
    moreover have "cellAt (sh' ! i) 1 = ?v"
      unfolding sh' using setValue_keys(3) [OF i(1,2)] by simp
    ultimately show ?thesis by blast
  qed
  then obtain i where i: "0 < i" "i < length sh'" "cellAt (sh' ! i) 0 = Text pid"
    "cellAt (sh' ! i) 1 = ?v"
    "\<forall>j. i < j \<and> j < length sh' \<longrightarrow> cellAt (sh' ! j) 0 \<noteq> Text pid"
    by blast
  have "previousStateOf pf sh' pid =
       map_option (\<lambda>p. \<lparr>rowIndex = i + 1, prev_properties = p\<rparr>) (JSON_parse_cell pf ?v)"
    using previousStateOf_found [OF i(1,2,3,5), of pf] i(4) by simp
  then show ?thesis using i by blast
qed

text \<open>The business fields of a record depend on the properties only.\<close>

lemma infoOf_tracked:
  "properties pd = properties pd' \<Longrightarrow>
   kigyoMei (infoOf pf pd) = kigyoMei (infoOf pf pd') \<and>
   status (infoOf pf pd) = status (infoOf pf pd') \<and>
   tanto (infoOf pf pd) = tanto (infoOf pf pd') \<and>
   sharoushi (infoOf pf pd) = sharoushi (infoOf pf pd')"
  by (simp add: infoOf_def extractNotionInfo_def Let_def split: js_value.splits)

text \<open>
  Claim C6, as amended. Take a state sheet that is not empty, so that it has its header
  row, a properties object and the write that \<open>processWebhook\<close> makes of it for a page
  id, with the row index of its own lookup. Afterwards the sheet has, below the first row,
  a last row of that id, which holds the text that \<open>JSON.stringify\<close> made of the object,
  and \<open>getPreviousState\<close> for that id returns what \<open>JSON.parse\<close> makes of that text, with
  the number of that row. So when \<open>JSON.parse\<close> returns an object that has, under the four
  property keys that \<open>extractNotionInfo\<close> reads, the title text, the status names and the
  select name of the original (in particular when it returns the original object),
  \<open>getPreviousState\<close> retrieves that object, \<open>extractNotionInfo\<close> gives on
  \<open>{properties: retrieved}\<close> the record it gives on \<open>{properties: original}\<close>, and the
  company name, the status, the person in charge and the liaison status of that record
  are those of the record of any page object that carries the original properties; its
  URL and its last edit time are the placeholders, whatever the page object has there.
\<close>

theorem state_roundtrip:
  assumes hdr: "sh \<noteq> []"
    and upd: "updateCurrentState pf sh pageId (Object props)
                (rowIndexOf (fst (getPreviousState pf sh pageId l1))) l2 = Inr (sh', l3)"
  shows "(\<exists>i. 0 < i \<and> i < length sh' \<and> cellAt (sh' ! i) 0 = Text pageId \<and>
            cellAt (sh' ! i) 1 = Text (JSON_stringify_properties pf props) \<and>
            (\<forall>j. i < j \<and> j < length sh' \<longrightarrow> cellAt (sh' ! j) 0 \<noteq> Text pageId) \<and>
            fst (getPreviousState pf sh' pageId la) =
              map_option (\<lambda>v. \<lparr>rowIndex = i + 1, prev_properties = v\<rparr>)
                (JSON_parse_cell pf (Text (JSON_stringify_properties pf props)))) \<and>
         (\<forall>retrieved.
            JSON_parse_cell pf (Text (JSON_stringify_properties pf props))
              = Some (Object retrieved) \<and>
            getPlainText (retrieved KEY_KIGYOMEI) = getPlainText (props KEY_KIGYOMEI) \<and>
            getStatusName (retrieved KEY_SHODAN_STATUS) = getStatusName (props KEY_SHODAN_STATUS) \<and>
            getSelectName (retrieved KEY_TANTO) = getSelectName (props KEY_TANTO) \<and>
            getStatusName (retrieved KEY_SHAROUSHI) = getStatusName (props KEY_SHAROUSHI)
          \<longrightarrow>
          (\<exists>st. fst (getPreviousState pf sh' pageId la) = Some st \<and>
                prev_properties st = Object retrieved \<and>
                fst (extractNotionInfo pf
                       \<lparr>page_id = None, url = None, last_edited_time = None,
                         properties = prev_properties st\<rparr> lb) =
                fst (extractNotionInfo pf
                       \<lparr>page_id = None, url = None, last_edited_time = None,
                         properties = Object props\<rparr> lc) \<and>
                pageUrl (fst (extractNotionInfo pf
                       \<lparr>page_id = None, url = None, last_edited_time = None,
                         properties = prev_properties st\<rparr> lb)) = URL_FUMEI \<and>
                lastEditedTime (fst (extractNotionInfo pf
                       \<lparr>page_id = None, url = None, last_edited_time = None,
                         properties = prev_properties st\<rparr> lb)) = NICHIJI_FUMEI \<and>
                (properties pd = Object props \<longrightarrow>
                   kigyoMei (fst (extractNotionInfo pf
                       \<lparr>page_id = None, url = None, last_edited_time = None,
                         properties = prev_properties st\<rparr> lb)) =
                     kigyoMei (fst (extractNotionInfo pf pd lc)) \<and>
                   status (fst (extractNotionInfo pf
                       \<lparr>page_id = None, url = None, last_edited_time = None,
                         properties = prev_properties st\<rparr> lb)) =
                     status (fst (extractNotionInfo pf pd lc)) \<and>
                   tanto (fst (extractNotionInfo pf
                       \<lparr>page_id = None, url = None, last_edited_time = None,
                         properties = prev_properties st\<rparr> lb)) =
                     tanto (fst (extractNotionInfo pf pd lc)) \<and>
                   sharoushi (fst (extractNotionInfo pf
                       \<lparr>page_id = None, url = None, last_edited_time = None,
                         properties = prev_properties st\<rparr> lb)) =
                     sharoushi (fst (extractNotionInfo pf pd lc)))))"
proof -
  let ?t = "JSON_stringify_properties pf props"
  let ?w = "\<lparr>page_id = None, url = None, last_edited_time = None,
             properties = Object props\<rparr>"
  have w: "writtenSheet pf sh pageId (Object props) (rowIndexOf (previousStateOf pf sh pageId))
             = Inr sh'"
    using updateCurrentState_written [OF upd [unfolded getPreviousState_fst]] .
  have v: "toCell (JSON_stringify pf (Object props)) = Text ?t"
    by (simp add: toCell_def JSON_stringify_def)
  obtain i where i: "0 < i" "i < length sh'" "cellAt (sh' ! i) 0 = Text pageId"
    "cellAt (sh' ! i) 1 = Text ?t"
    "\<forall>j. i < j \<and> j < length sh' \<longrightarrow> cellAt (sh' ! j) 0 \<noteq> Text pageId"
    "previousStateOf pf sh' pageId =
       map_option (\<lambda>p. \<lparr>rowIndex = i + 1, prev_properties = p\<rparr>) (JSON_parse_cell pf (Text ?t))"
    using lookup_after_write [OF hdr w] unfolding v by blast
  have a: "\<exists>i. 0 < i \<and> i < length sh' \<and> cellAt (sh' ! i) 0 = Text pageId \<and>
            cellAt (sh' ! i) 1 = Text ?t \<and>
            (\<forall>j. i < j \<and> j < length sh' \<longrightarrow> cellAt (sh' ! j) 0 \<noteq> Text pageId) \<and>
            fst (getPreviousState pf sh' pageId la) =
              map_option (\<lambda>v. \<lparr>rowIndex = i + 1, prev_properties = v\<rparr>)
                (JSON_parse_cell pf (Text ?t))"
    unfolding getPreviousState_fst using i by blast
  have u: "pageUrl (infoOf pf ?w) = URL_FUMEI" "lastEditedTime (infoOf pf ?w) = NICHIJI_FUMEI"
    by (simp_all add: infoOf_def extractNotionInfo_def Let_def or_else_def)
  have t: "properties pd = Object props \<longrightarrow>
             kigyoMei (infoOf pf ?w) = kigyoMei (infoOf pf pd) \<and>
             status (infoOf pf ?w) = status (infoOf pf pd) \<and>
             tanto (infoOf pf ?w) = tanto (infoOf pf pd) \<and>
             sharoushi (infoOf pf ?w) = sharoushi (infoOf pf pd)"
  proof
    assume "properties pd = Object props"
    then have "properties ?w = properties pd" by simp
    then show "kigyoMei (infoOf pf ?w) = kigyoMei (infoOf pf pd) \<and>
             status (infoOf pf ?w) = status (infoOf pf pd) \<and>
             tanto (infoOf pf ?w) = tanto (infoOf pf pd) \<and>
             sharoushi (infoOf pf ?w) = sharoushi (infoOf pf pd)"
      by (rule infoOf_tracked)
  qed
  have b: "\<exists>st. fst (getPreviousState pf sh' pageId la) = Some st \<and>
                prev_properties st = Object retrieved \<and>
                infoOf pf \<lparr>page_id = None, url = None, last_edited_time = None,
                           properties = prev_properties st\<rparr> = infoOf pf ?w \<and>
                pageUrl (infoOf pf \<lparr>page_id = None, url = None, last_edited_time = None,
                           properties = prev_properties st\<rparr>) = URL_FUMEI \<and>
                lastEditedTime (infoOf pf \<lparr>page_id = None, url = None, last_edited_time = None,
                           properties = prev_properties st\<rparr>) = NICHIJI_FUMEI \<and>
                (properties pd = Object props \<longrightarrow>
                   kigyoMei (infoOf pf \<lparr>page_id = None, url = None, last_edited_time = None,
                           properties = prev_properties st\<rparr>) = kigyoMei (infoOf pf pd) \<and>
                   status (infoOf pf \<lparr>page_id = None, url = None, last_edited_time = None,
                           properties = prev_properties st\<rparr>) = status (infoOf pf pd) \<and>
                   tanto (infoOf pf \<lparr>page_id = None, url = None, last_edited_time = None,
                           properties = prev_properties st\<rparr>) = tanto (infoOf pf pd) \<and>
                   sharoushi (infoOf pf \<lparr>page_id = None, url = None, last_edited_time = None,
                           properties = prev_properties st\<rparr>) = sharoushi (infoOf pf pd))"
    if rt: "JSON_parse_cell pf (Text ?t) = Some (Object retrieved) \<and>
            getPlainText (retrieved KEY_KIGYOMEI) = getPlainText (props KEY_KIGYOMEI) \<and>
            getStatusName (retrieved KEY_SHODAN_STATUS) = getStatusName (props KEY_SHODAN_STATUS) \<and>
            getSelectName (retrieved KEY_TANTO) = getSelectName (props KEY_TANTO) \<and>
            getStatusName (retrieved KEY_SHAROUSHI) = getStatusName (props KEY_SHAROUSHI)"
    for retrieved
  proof -
    let ?r = "\<lparr>page_id = None, url = None, last_edited_time = None,
               properties = Object retrieved\<rparr>"
    have l: "fst (getPreviousState pf sh' pageId la) =
            Some \<lparr>rowIndex = i + 1, prev_properties = Object retrieved\<rparr>"
      unfolding getPreviousState_fst using i(6) rt by simp
    have e: "infoOf pf ?r = infoOf pf ?w"
      using rt by (simp add: infoOf_def extractNotionInfo_def Let_def)
    show ?thesis
      unfolding l using e u t by simp
  qed
  show ?thesis
    unfolding extractNotionInfo_fst
    by (intro conjI allI impI) (rule a, rule b)
qed

theorem state_roundtrip_witness:
  "[map Text STATE_HEADERS] \<noteq> [] \<and>
   updateCurrentState samplePlatform [map Text STATE_HEADERS] ''P1'' (Object sampleProps)
     (rowIndexOf (fst (getPreviousState samplePlatform [map Text STATE_HEADERS] ''P1'' []))) []
   = Inr ([map Text STATE_HEADERS, [Text ''P1'', Text sampleJson]],
          [''Appended new state for page P1.'']) \<and>
   JSON_parse_cell samplePlatform (Text (JSON_stringify_properties samplePlatform sampleProps))
     = Some (Object sampleProps) \<and>
   properties samplePage = Object sampleProps \<and>
   (\<exists>st. fst (getPreviousState samplePlatform
                 [map Text STATE_HEADERS, [Text ''P1'', Text sampleJson]] ''P1'' []) = Some st \<and>
         prev_properties st = Object sampleProps \<and>
         status (fst (extractNotionInfo samplePlatform
                        \<lparr>page_id = None, url = None, last_edited_time = None,
                          properties = prev_properties st\<rparr> [])) = Some ''Negotiating'')"
proof -
  have h: "[map Text STATE_HEADERS] \<noteq> []" by simp
  have p: "properties samplePage = Object sampleProps"
    by (simp add: samplePage_def)
  have s: "status (fst (extractNotionInfo samplePlatform samplePage [])) = Some ''Negotiating''"
    by (simp add: sample_info)
  have "\<exists>st. fst (getPreviousState samplePlatform
                 [map Text STATE_HEADERS, [Text ''P1'', Text sampleJson]] ''P1'' []) = Some st \<and>
         prev_properties st = Object sampleProps \<and>
         status (fst (extractNotionInfo samplePlatform
                        \<lparr>page_id = None, url = None, last_edited_time = None,
                          properties = prev_properties st\<rparr> [])) =
           status (fst (extractNotionInfo samplePlatform samplePage []))"
    using state_roundtrip [OF h sample_append, where la = "[]" and lb = "[]" and lc = "[]"
          and pd = samplePage, THEN conjunct2, THEN spec, of sampleProps]
      sample_stored p
    by blast
  then show ?thesis
    using h sample_append sample_stored p s by simp
qed

text \<open>
  Claim C6 as stated holds for every state sheet. On a state sheet that exists and is
  empty, the write appends the row of P1 as the first row of the sheet; the payload
  deserializes to the properties, and still \<open>getPreviousState\<close> returns \<open>null\<close> for P1,
  because its search never looks at the first row.
\<close>

theorem state_roundtrip_empty_sheet_counterexample:
  "updateCurrentState samplePlatform [] ''P1'' (Object sampleProps)
     (rowIndexOf (fst (getPreviousState samplePlatform [] ''P1'' []))) []
   = Inr ([[Text ''P1'', Text sampleJson]], [''Appended new state for page P1.'']) \<and>
   JSON_parse_cell samplePlatform (Text sampleJson) = Some (Object sampleProps) \<and>
   fst (getPreviousState samplePlatform [[Text ''P1'', Text sampleJson]] ''P1'' []) = None"
proof -
  have "JSON_parse_cell samplePlatform (Text sampleJson) = Some (Object sampleProps)"
    using sample_stored by (simp add: samplePlatform_simps)
  then show ?thesis
    by (simp add: empty_lookup first_row_lookup rowIndexOf_def updateCurrentState_def
        samplePlatform_simps toCell_def JSON_stringify_def)
qed

text \<open>
  Claim C4. If the last row whose first cell is the page id holds a payload that does not
  parse, \<open>getPreviousState\<close> returns \<open>null\<close> (it cannot throw: its result is an option).
  The call goes on as for a page without stored state: the notifications are those of
  \<open>handleNotifications\<close> with \<open>null\<close> as the previous record and, unless the write to
  the state sheet throws, no exception is raised and a new row is appended for the page.
\<close>

theorem getPreviousState_corrupt:
  assumes "0 < i" and "i < length sh" and "cellAt (sh ! i) 0 = Text pageId"
    and "\<forall>j. i < j \<and> j < length sh \<longrightarrow> cellAt (sh ! j) 0 \<noteq> Text pageId"
    and "JSON_parse_cell pf (cellAt (sh ! i) 1) = None"
  shows "fst (getPreviousState pf sh pageId logs) = None \<and>
    (sheetData (book r) (stateSheetName cfg) = sh \<longrightarrow>
       notificationResults (processPage pf cfg pd pageId r) =
         fst (handleNotifications pf None (fst (extractNotionInfo pf pd l1)) cfg l2) \<and>
       (stateWriteError pf = None \<longrightarrow>
          thrown (processPage pf cfg pd pageId r) = thrown r \<and>
          book (processPage pf cfg pd pageId r) =
            (book r)(stateSheetName cfg \<mapsto>
               sh @ [[Text pageId,
                      toCell (JSON_stringify pf (properties pd))]])))"
proof -
  have n: "previousStateOf pf sh pageId = None"
    using previousStateOf_found [OF assms(1,2,3,4), of pf] assms(5) by simp
  show ?thesis
    unfolding getPreviousState_fst extractNotionInfo_fst handleNotifications_fst
    by (simp add: n processPage_results processPage_thrown processPage_book previousInfoOf_def
        rowIndexOf_def writtenSheet_eq)
qed

lemma sample_new_page_results:
  "fst (handleNotifications samplePlatform None
          (fst (extractNotionInfo samplePlatform samplePage [])) sampleConfig []) =
     [\<lparr>res_type = TYPE_STATUS_TANTO, res_status = SEND_SKIPPED, res_error = None\<rparr>]"
  by (simp add: handleNotifications_results sample_info needsStatusNotification_def
      needsSharoushiNotification_def truthy_def sendDiscordMessage_unusable sampleConfig_def)

theorem getPreviousState_corrupt_witness:
  "(0::nat) < 1 \<and> 1 < length corruptSheet \<and> cellAt (corruptSheet ! 1) 0 = Text ''P1'' \<and>
   JSON_parse_cell samplePlatform (cellAt (corruptSheet ! 1) 1) = None \<and>
   fst (getPreviousState samplePlatform corruptSheet ''P1'' []) = None \<and>
   notificationResults
     (processPage samplePlatform sampleConfig samplePage ''P1''
        (initialRun samplePlatform corruptBook)) =
     [\<lparr>res_type = TYPE_STATUS_TANTO, res_status = SEND_SKIPPED, res_error = None\<rparr>]"
proof -
  have h1: "(0::nat) < 1" by simp
  have h2: "1 < length corruptSheet" by (simp add: corruptSheet_def)
  have h3: "cellAt (corruptSheet ! 1) 0 = Text ''P1''"
    by (simp add: corruptSheet_def cellAt_def)
  have h4: "\<forall>j. 1 < j \<and> j < length corruptSheet \<longrightarrow> cellAt (corruptSheet ! j) 0 \<noteq> Text ''P1''"
    by (auto simp add: corruptSheet_def)
  have h5: "JSON_parse_cell samplePlatform (cellAt (corruptSheet ! 1) 1) = None"
    by (simp add: corruptSheet_def cellAt_def JSON_parse_cell_def samplePlatform_simps
        sampleJson_def)
  have s: "sheetData (book (initialRun samplePlatform corruptBook)) (stateSheetName sampleConfig)
             = corruptSheet"
    by (simp add: initialRun_simps sheetData_def corruptBook_def sampleConfig_def)
  show ?thesis
    using getPreviousState_corrupt [OF h1 h2 h3 h4 h5, of "[]"
        "initialRun samplePlatform corruptBook" sampleConfig samplePage "[]" "[]"]
      h2 h3 h5 s sample_new_page_results
    by simp
qed

section \<open>Two calls with the same payload\<close>

lemma scanRows_cong:
  "\<forall>j. 0 < j \<and> j \<le> k \<longrightarrow> a ! j = b ! j \<Longrightarrow>
   fst (scanRows pf a pid k logs) = fst (scanRows pf b pid k logs)"
  by (induction k) (simp_all split: option.splits)

lemma previousStateOf_append_other:
  assumes "cellAt row 0 \<noteq> Text pid"
  shows "previousStateOf pf (sh @ [row]) pid = previousStateOf pf sh pid"
proof (cases "sh = []")
  case True
  then show ?thesis by (simp add: previousStateOf_eq)
next
  case False
  then obtain k where k: "length sh = Suc k" by (cases sh) auto
  have "fst (scanRows pf (sh @ [row]) pid (Suc k) []) = fst (scanRows pf (sh @ [row]) pid k [])"
    using assms k by (simp add: nth_append)
  also have "\<dots> = fst (scanRows pf sh pid k [])"
    by (rule scanRows_cong) (simp add: nth_append k)
  finally show ?thesis by (simp add: previousStateOf_eq k)
qed

lemma headers_nonempty: "LOG_HEADERS \<noteq> []" "STATE_HEADERS \<noteq> []"
  by (simp_all add: LOG_HEADERS_def STATE_HEADERS_def)

lemma sheetsOf_Inr:
  assumes "sheetsOf pf b cfg = Inr b2"
  shows "openById pf (or_else (spreadsheetId cfg) ''null'') = None"
    and "b2 (logSheetName cfg) \<noteq> None"
    and "b2 (stateSheetName cfg) \<noteq> None"
    and "b (stateSheetName cfg) \<noteq> Some [] \<Longrightarrow> sheetData b2 (stateSheetName cfg) \<noteq> []"
  using assms headers_nonempty
  by (auto simp add: sheetsOf_def getOrCreateSheet_def sheetData_def
      split: sum.splits option.splits if_splits)

lemma sheetsOf_existing:
  assumes "openById pf (or_else (spreadsheetId cfg) ''null'') = None"
    and "b (logSheetName cfg) \<noteq> None" and "b (stateSheetName cfg) \<noteq> None"
  shows "sheetsOf pf b cfg = Inr b"
  using assms by (auto simp add: sheetsOf_def getOrCreateSheet_def)

lemma logRow_first: "cellAt (logRow ld logs) 0 \<noteq> Text pid"
  by (simp add: logRow_def cellAt_def case_prod_beta)

lemma no_notifications:
  "\<not> needsStatusNotification p c \<Longrightarrow> \<not> needsSharoushiNotification p c \<Longrightarrow>
   resultsOf pf p c cfg = [] \<and> requestsOf pf p c cfg = []"
  by (simp add: resultsOf_def requestsOf_def handleNotifications_results
      handleNotifications_requests)

lemma infoOf_no_properties:
  "properties pd = Undefined \<or> properties pd = Null \<Longrightarrow>
   status (infoOf pf pd) = None \<and> tanto (infoOf pf pd) = None \<and> sharoushi (infoOf pf pd) = None"
  by (auto simp add: infoOf_def extractNotionInfo_def)

lemma unchanged_page:
  assumes "sh \<noteq> []"
    and w: "writtenSheet pf sh pid (properties pd) (rowIndexOf (previousStateOf pf sh pid)) = Inr sh'"
    and rt: "\<forall>props. properties pd = Object props \<longrightarrow>
               JSON_parse_cell pf (Text (JSON_stringify_properties pf props)) = Some (Object props)"
  shows "\<not> needsStatusNotification (previousInfoOf pf sh' pid) (infoOf pf pd) \<and>
         \<not> needsSharoushiNotification (previousInfoOf pf sh' pid) (infoOf pf pd)"
proof -
  obtain i where i: "previousStateOf pf sh' pid =
     map_option (\<lambda>p. \<lparr>rowIndex = i + 1, prev_properties = p\<rparr>)
       (JSON_parse_cell pf (toCell (JSON_stringify pf (properties pd))))"
    using lookup_after_write [OF assms(1) w] by blast
  show ?thesis
  proof (cases "properties pd")
    case Undefined
    then have "previousInfoOf pf sh' pid = None"
      using i by (simp add: previousInfoOf_def toCell_def JSON_parse_cell_def JSON_stringify_def)
    moreover have "status (infoOf pf pd) = None \<and> tanto (infoOf pf pd) = None \<and>
                   sharoushi (infoOf pf pd) = None"
      by (rule infoOf_no_properties) (simp add: Undefined)
    ultimately show ?thesis
      by (simp add: needsStatusNotification_def needsSharoushiNotification_def truthy_def)
  next
    case Null
    let ?w = "\<lparr>page_id = None, url = None, last_edited_time = None,
               properties = Null :: properties js_value\<rparr>"
    have "previousInfoOf pf sh' pid = Some (infoOf pf ?w)"
      using i Null
      by (simp add: previousInfoOf_def toCell_def JSON_parse_cell_def JSON_stringify_def)
    moreover have "status (infoOf pf pd) = None \<and> tanto (infoOf pf pd) = None \<and>
                   sharoushi (infoOf pf pd) = None"
      by (rule infoOf_no_properties) (simp add: Null)
    moreover have "status (infoOf pf ?w) = None \<and> tanto (infoOf pf ?w) = None \<and>
                   sharoushi (infoOf pf ?w) = None"
      by (rule infoOf_no_properties) simp
    ultimately show ?thesis
      by (simp add: needsStatusNotification_def needsSharoushiNotification_def)
  next
    case (Object props)
    let ?w = "\<lparr>page_id = None, url = None, last_edited_time = None,
               properties = Object props\<rparr>"
    have "previousInfoOf pf sh' pid = Some (infoOf pf ?w)"
      using i rt Object by (simp add: previousInfoOf_def toCell_def JSON_stringify_def)
    moreover have "properties ?w = properties pd"
      using Object by simp
    then have "kigyoMei (infoOf pf ?w) = kigyoMei (infoOf pf pd) \<and>
               status (infoOf pf ?w) = status (infoOf pf pd) \<and>
               tanto (infoOf pf ?w) = tanto (infoOf pf pd) \<and>
               sharoushi (infoOf pf ?w) = sharoushi (infoOf pf pd)"
      by (rule infoOf_tracked)
    ultimately show ?thesis
      by (simp add: needsStatusNotification_def needsSharoushiNotification_def)
  qed
qed

text \<open>
  Claim C2, as amended. Let a call of \<open>processWebhook\<close> for an event end without an
  exception, so that it has written the properties of the page to the state sheet; let the
  state sheet, if it existed before the call, not be empty, so that it has its header row
  as \<open>getOrCreateSheet\<close> writes it; and let \<open>JSON.parse\<close> give the properties object back
  on the text that \<open>JSON.stringify\<close> stored for it. Then a second call for the same event,
  on the spreadsheet the first call left, dispatches no notification and makes no request.
  This covers a page without \<open>properties\<close>, a page whose \<open>properties\<close> is \<open>null\<close>, and a
  log sheet that is the same sheet as the state sheet.
\<close>

theorem processWebhook_idempotent:
  assumes hdr: "book0 STATE_NAME \<noteq> Some []"
    and first: "thrown (snd (processWebhook pf book0 e)) = None"
    and rt: "\<forall>pd props. pageOf pf e = Some pd \<and> properties pd = Object props \<longrightarrow>
               JSON_parse_cell pf (Text (JSON_stringify_properties pf props)) = Some (Object props)"
  shows "notificationResults (snd (processWebhook pf (book (snd (processWebhook pf book0 e))) e)) = []
       \<and> requests (snd (processWebhook pf (book (snd (processWebhook pf book0 e))) e)) = []"
proof -
  let ?R1 = "tryBlock pf e (initialRun pf book0)"
  let ?B1 = "book (snd (processWebhook pf book0 e))"
  have t1: "thrown ?R1 = None"
    using first by (simp add: processWebhook_fields)
  obtain cfg book2 pd pid r3 where c: "configOf pf = Inr cfg"
    and s: "sheetsOf pf book0 cfg = Inr book2"
    and p: "pageOf pf e = Some pd" "page_id pd = Some pid" "pid \<noteq> []"
    and R1: "?R1 = processPage pf cfg pd pid r3"
    and r3: "book r3 = book2" "logSheet r3 = Some (logSheetName cfg)"
    by (rule tryBlock_thrown_None [OF t1])
  let ?sn = "stateSheetName cfg"
  let ?ln = "logSheetName cfg"
  let ?sh = "sheetData book2 ?sn"
  have sn: "?sn = STATE_NAME" by (rule configOf_fields(3) [OF c])
  have ne: "?sh \<noteq> []"
    by (rule sheetsOf_Inr(4) [OF s]) (use hdr sn in simp)
  obtain sh' where w: "writtenSheet pf ?sh pid (properties pd)
      (rowIndexOf (previousStateOf pf ?sh pid)) = Inr sh'"
    using t1 unfolding R1 processPage_thrown r3
    by (cases "writtenSheet pf ?sh pid (properties pd) (rowIndexOf (previousStateOf pf ?sh pid))")
       simp_all
  have bR1: "book ?R1 = book2(?sn \<mapsto> sh')"
    unfolding R1 processPage_book r3 by (simp add: w)
  have lR1: "logSheet ?R1 = Some ?ln"
    unfolding R1 processPage_logSheet by (rule r3(2))
  let ?row = "logRow (logData (catchBlock pf ?R1)) (executionLogs (catchBlock pf ?R1))"
  have B1eq: "?B1 =
      (case logAppendError pf of
         None \<Rightarrow> (book2(?sn \<mapsto> sh'))(?ln \<mapsto> sheetData (book2(?sn \<mapsto> sh')) ?ln @ [?row])
       | Some err \<Rightarrow> book2(?sn \<mapsto> sh'))"
    by (simp add: processWebhook_fields finallyBlock_book catchBlock_fields lR1 bR1
        split: option.splits)
  have row: "cellAt ?row 0 \<noteq> Text pid"
    by (rule logRow_first)
  have B1: "?B1 = book2(?sn \<mapsto> sh') \<or>
      ?B1 = (book2(?sn \<mapsto> sh'))(?ln \<mapsto> sheetData (book2(?sn \<mapsto> sh')) ?ln @ [?row])"
    unfolding B1eq by (cases "logAppendError pf") simp_all
  have ex: "book2 ?ln \<noteq> None" "book2 ?sn \<noteq> None"
    and op: "openById pf (or_else (spreadsheetId cfg) ''null'') = None"
    using sheetsOf_Inr(1,2,3) [OF s] by blast+
  have B1ex: "?B1 ?ln \<noteq> None" "?B1 ?sn \<noteq> None"
    using B1 ex by auto
  have look: "previousStateOf pf (sheetData ?B1 ?sn) pid = previousStateOf pf sh' pid"
    using B1 previousStateOf_append_other [OF row, of pf sh']
    by (auto simp add: sheetData_def)
  have s2: "sheetsOf pf (book (initialRun pf ?B1)) cfg = Inr ?B1"
    unfolding initialRun_simps by (rule sheetsOf_existing [OF op B1ex])
  obtain r3' where R2: "tryBlock pf e (initialRun pf ?B1) = processPage pf cfg pd pid r3'"
    and r3': "book r3' = ?B1" "requests r3' = requests (initialRun pf ?B1)"
    using tryBlock_page [OF c s2 p] by metis
  have pi: "previousInfoOf pf (sheetData ?B1 ?sn) pid = previousInfoOf pf sh' pid"
    using look by (simp add: previousInfoOf_def)
  have rt': "\<forall>props. properties pd = Object props \<longrightarrow>
               JSON_parse_cell pf (Text (JSON_stringify_properties pf props)) = Some (Object props)"
    using rt p(1) by blast
  have z: "resultsOf pf (previousInfoOf pf sh' pid) (infoOf pf pd) cfg = [] \<and>
        requestsOf pf (previousInfoOf pf sh' pid) (infoOf pf pd) cfg = []"
    using unchanged_page [OF ne w rt'] no_notifications by blast
  have n: "notificationResults (tryBlock pf e (initialRun pf ?B1)) = [] \<and>
           requests (tryBlock pf e (initialRun pf ?B1)) = []"
    unfolding R2 processPage_results processPage_requests r3' pi
    using z by (simp add: initialRun_simps)
  show ?thesis
    unfolding processWebhook_fields(1,2) by (rule n)
qed

theorem processWebhook_idempotent_witness:
  "emptyBook STATE_NAME \<noteq> Some [] \<and>
   thrown (snd (processWebhook samplePlatform emptyBook sampleEvent)) = None \<and>
   notificationResults (snd (processWebhook samplePlatform emptyBook sampleEvent)) =
     [\<lparr>res_type = TYPE_STATUS_TANTO, res_status = SEND_SKIPPED, res_error = None\<rparr>] \<and>
   notificationResults
     (snd (processWebhook samplePlatform
             (book (snd (processWebhook samplePlatform emptyBook sampleEvent))) sampleEvent)) = [] \<and>
   requests
     (snd (processWebhook samplePlatform
             (book (snd (processWebhook samplePlatform emptyBook sampleEvent))) sampleEvent)) = []"
proof -
  have h: "emptyBook STATE_NAME \<noteq> Some []"
    by (simp add: emptyBook_def)
  have rt: "\<forall>pd props. pageOf samplePlatform sampleEvent = Some pd \<and> properties pd = Object props \<longrightarrow>
      JSON_parse_cell samplePlatform (Text (JSON_stringify_properties samplePlatform props))
        = Some (Object props)"
    using sample_stored by (auto simp add: sample_pageOf samplePage_def samplePlatform_simps)
  show ?thesis
    using processWebhook_idempotent [OF h sample_thrown rt] h sample_thrown sample_results
    by simp
qed


section \<open>Two calls on a state sheet without its header row\<close>

text \<open>One call of \<open>processWebhook\<close> for a page, in terms of the values it computes.\<close>

lemma processWebhook_page:
  assumes c: "configOf pf = Inr cfg" and s: "sheetsOf pf b cfg = Inr b2"
    and p: "pageOf pf e = Some pd" "page_id pd = Some pid" "pid \<noteq> []"
  shows "notificationResults (snd (processWebhook pf b e)) =
           resultsOf pf (previousInfoOf pf (sheetData b2 (stateSheetName cfg)) pid)
             (infoOf pf pd) cfg"
    and "requests (snd (processWebhook pf b e)) =
           requestsOf pf (previousInfoOf pf (sheetData b2 (stateSheetName cfg)) pid)
             (infoOf pf pd) cfg"
    and "thrown (snd (processWebhook pf b e)) =
           (case writtenSheet pf (sheetData b2 (stateSheetName cfg)) pid (properties pd)
                   (rowIndexOf (previousStateOf pf (sheetData b2 (stateSheetName cfg)) pid)) of
              Inl error \<Rightarrow> Some error | Inr sh \<Rightarrow> None)"
    and "logAppendError pf = None \<Longrightarrow> logSheetName cfg \<noteq> stateSheetName cfg \<Longrightarrow>
         writtenSheet pf (sheetData b2 (stateSheetName cfg)) pid (properties pd)
           (rowIndexOf (previousStateOf pf (sheetData b2 (stateSheetName cfg)) pid)) = Inr sh' \<Longrightarrow>
         \<exists>row. book (snd (processWebhook pf b e)) =
           (b2(stateSheetName cfg \<mapsto> sh'))
             (logSheetName cfg \<mapsto> sheetData b2 (logSheetName cfg) @ [row])"
proof -
  have s': "sheetsOf pf (book (initialRun pf b)) cfg = Inr b2"
    using s by (simp add: initialRun_simps)
  obtain r3 where R: "tryBlock pf e (initialRun pf b) = processPage pf cfg pd pid r3"
    and r3: "book r3 = b2" "logSheet r3 = Some (logSheetName cfg)"
      "requests r3 = requests (initialRun pf b)" "thrown r3 = thrown (initialRun pf b)"
    by (rule tryBlock_page [OF c s' p])
  show "notificationResults (snd (processWebhook pf b e)) =
           resultsOf pf (previousInfoOf pf (sheetData b2 (stateSheetName cfg)) pid)
             (infoOf pf pd) cfg"
    unfolding processWebhook_fields R processPage_results r3 ..
  show "requests (snd (processWebhook pf b e)) =
           requestsOf pf (previousInfoOf pf (sheetData b2 (stateSheetName cfg)) pid)
             (infoOf pf pd) cfg"
    unfolding processWebhook_fields R processPage_requests r3 by (simp add: initialRun_simps)
  show "thrown (snd (processWebhook pf b e)) =
           (case writtenSheet pf (sheetData b2 (stateSheetName cfg)) pid (properties pd)
                   (rowIndexOf (previousStateOf pf (sheetData b2 (stateSheetName cfg)) pid)) of
              Inl error \<Rightarrow> Some error | Inr sh \<Rightarrow> None)"
    unfolding processWebhook_fields R processPage_thrown r3
    by (simp add: initialRun_simps split: sum.splits)
  show "\<exists>row. book (snd (processWebhook pf b e)) =
           (b2(stateSheetName cfg \<mapsto> sh'))
             (logSheetName cfg \<mapsto> sheetData b2 (logSheetName cfg) @ [row])"
    if la: "logAppendError pf = None" and d: "logSheetName cfg \<noteq> stateSheetName cfg"
      and w: "writtenSheet pf (sheetData b2 (stateSheetName cfg)) pid (properties pd)
           (rowIndexOf (previousStateOf pf (sheetData b2 (stateSheetName cfg)) pid)) = Inr sh'"
  proof -
    let ?R1 = "tryBlock pf e (initialRun pf b)"
    have bR1: "book ?R1 = b2(stateSheetName cfg \<mapsto> sh')"
      unfolding R processPage_book r3 by (simp add: w)
    have lR1: "logSheet ?R1 = Some (logSheetName cfg)"
      unfolding R processPage_logSheet by (rule r3(2))
    have "book (snd (processWebhook pf b e)) =
           (b2(stateSheetName cfg \<mapsto> sh'))
             (logSheetName cfg \<mapsto> sheetData b2 (logSheetName cfg) @
                [logRow (logData (catchBlock pf ?R1)) (executionLogs (catchBlock pf ?R1))])"
      using d
      by (simp add: processWebhook_fields finallyBlock_book catchBlock_fields lR1 bR1 la
          sheetData_def)
    then show ?thesis by blast
  qed
qed

text \<open>The host with the Discord URL, on the spreadsheet whose state sheet is empty.\<close>

lemma notifyingPlatform_simps:
  "stateWriteError notifyingPlatform = None"
  "logAppendError notifyingPlatform = None"
  "JSON_stringify_properties notifyingPlatform q = sampleJson"
  "JSON_parse_properties notifyingPlatform t = (if t = sampleJson then Some sampleProps else None)"
  "fetch notifyingPlatform u m = None"
  "openById notifyingPlatform i = None"
  by (simp_all add: notifyingPlatform_def samplePlatform_def)

lemma notifying_configOf: "configOf notifyingPlatform = Inr notifyingConfig"
  by (simp add: configOf_def loadConfig_fst notifyingPlatform_def notifyingConfig_def
      sampleConfig_def truthy_def or_else_def PROP_KEYS_SPREADSHEET_ID_def
      PROP_KEYS_LOG_SHEET_NAME_def PROP_KEYS_DISCORD_URL_def
      PROP_KEYS_DISCORD_URL_SHAROUSHI_def)

lemma notifying_names:
  "stateSheetName notifyingConfig = STATE_NAME"
  "logSheetName notifyingConfig = LOG_NAME_DEFAULT"
  "spreadsheetId notifyingConfig = Some ''book-1''"
  "discordUrl notifyingConfig = Some sampleUrl"
  "discordUrlSharoushi notifyingConfig = None"
  by (simp_all add: notifyingConfig_def sampleConfig_def)

lemma notifying_sheetsOf:
  "sheetsOf notifyingPlatform emptyStateBook notifyingConfig =
     Inr (emptyStateBook(LOG_NAME_DEFAULT \<mapsto> [map Text LOG_HEADERS]))"
  using names_differ headers_nonempty
  by (simp add: sheetsOf_def getOrCreateSheet_def notifyingPlatform_simps notifying_names
      emptyStateBook_def emptyBook_def)

lemma notifying_pageOf: "pageOf notifyingPlatform sampleEvent = Some samplePage"
  by (simp add: pageOf_def parseWebhookEvent_page contentsOf_def sampleEvent_def
      notifyingPlatform_def samplePlatform_def sampleBody_def)

lemma notifying_info:
  "infoOf notifyingPlatform samplePage =
     \<lparr>kigyoMei = ''Acme'', status = Some ''Negotiating'', tanto = Some ''Tanaka'',
      sharoushi = None, pageUrl = ''https://www.notion.so/P1'',
      lastEditedTime = ''2025/01/01 09:00:00''\<rparr>"
  by (simp add: infoOf_def extractNotionInfo_def samplePage_def sampleProps_def
      notifyingPlatform_def samplePlatform_def
      getPlainText_def getStatusName_def getSelectName_def or_else_def or_null_def Let_def
      KEY_KIGYOMEI_def KEY_SHODAN_STATUS_def KEY_TANTO_def KEY_SHAROUSHI_def)

lemma sendDiscordMessage_sent:
  "prefix DISCORD_PREFIX u \<Longrightarrow> u \<noteq> [] \<Longrightarrow> fetch pf u m = None \<Longrightarrow>
   sendDiscordMessage pf (Some u) m logs =
     (\<lparr>send_status = SEND_OK, send_error = None\<rparr>,
      logs @ [''Successfully sent message to Discord.''], [(u, m)])"
  by (simp add: sendDiscordMessage_def Let_def)

lemma notifying_new_page:
  "resultsOf notifyingPlatform None (infoOf notifyingPlatform samplePage) notifyingConfig =
     [\<lparr>res_type = TYPE_STATUS_TANTO, res_status = SEND_OK, res_error = None\<rparr>]"
  "requestsOf notifyingPlatform None (infoOf notifyingPlatform samplePage) notifyingConfig =
     [(sampleUrl, createStatusChangeMessage None (infoOf notifyingPlatform samplePage))]"
proof -
  have u: "prefix DISCORD_PREFIX sampleUrl" "sampleUrl \<noteq> []"
    by (simp_all add: sampleUrl_def DISCORD_PREFIX_def)
  have n: "needsStatusNotification None (infoOf notifyingPlatform samplePage)"
    "\<not> needsSharoushiNotification None (infoOf notifyingPlatform samplePage)"
    by (simp_all add: notifying_info needsStatusNotification_def
        needsSharoushiNotification_def truthy_def)
  show "resultsOf notifyingPlatform None (infoOf notifyingPlatform samplePage) notifyingConfig =
     [\<lparr>res_type = TYPE_STATUS_TANTO, res_status = SEND_OK, res_error = None\<rparr>]"
    by (simp add: resultsOf_def handleNotifications_results n notifying_names
        sendDiscordMessage_sent [OF u] notifyingPlatform_simps)
  show "requestsOf notifyingPlatform None (infoOf notifyingPlatform samplePage) notifyingConfig =
     [(sampleUrl, createStatusChangeMessage None (infoOf notifyingPlatform samplePage))]"
    by (simp add: requestsOf_def handleNotifications_requests n notifying_names
        sendDiscordMessage_sent [OF u] notifyingPlatform_simps)
qed

lemma notifying_written:
  "writtenSheet notifyingPlatform [] ''P1'' (properties samplePage)
     (rowIndexOf (previousStateOf notifyingPlatform [] ''P1'')) =
   Inr [[Text ''P1'', Text sampleJson]]"
  by (simp add: writtenSheet_eq previousStateOf_header_only rowIndexOf_def
      notifyingPlatform_simps samplePage_def toCell_def JSON_stringify_def)

text \<open>
  Claim C2 as stated holds for every payload that carries a page id. Take the spreadsheet
  whose state sheet exists and is empty, the host with the Discord URL set, on which the
  stored text parses back to the properties, and the event of page P1. The first call
  ends without an exception, sends the notification of a new page and writes the row of
  P1 to the first row of the state sheet. The second call, with the same event on the
  spreadsheet the first call left, does not find that row, because the search never looks
  at the first row: it dispatches the same notification again and sends the same request.
\<close>

theorem processWebhook_empty_state_sheet_counterexample:
  "thrown (snd (processWebhook notifyingPlatform emptyStateBook sampleEvent)) = None \<and>
   notificationResults (snd (processWebhook notifyingPlatform emptyStateBook sampleEvent)) =
     [\<lparr>res_type = TYPE_STATUS_TANTO, res_status = SEND_OK, res_error = None\<rparr>] \<and>
   JSON_parse_cell notifyingPlatform
     (Text (JSON_stringify_properties notifyingPlatform sampleProps)) = Some (Object sampleProps) \<and>
   sheetData (book (snd (processWebhook notifyingPlatform emptyStateBook sampleEvent))) STATE_NAME
     = [[Text ''P1'', Text sampleJson]] \<and>
   notificationResults
     (snd (processWebhook notifyingPlatform
             (book (snd (processWebhook notifyingPlatform emptyStateBook sampleEvent)))
             sampleEvent)) =
     [\<lparr>res_type = TYPE_STATUS_TANTO, res_status = SEND_OK, res_error = None\<rparr>] \<and>
   requests
     (snd (processWebhook notifyingPlatform
             (book (snd (processWebhook notifyingPlatform emptyStateBook sampleEvent)))
             sampleEvent)) =
     [(sampleUrl,
       createStatusChangeMessage None
         \<lparr>kigyoMei = ''Acme'', status = Some ''Negotiating'', tanto = Some ''Tanaka'',
          sharoushi = None, pageUrl = ''https://www.notion.so/P1'',
          lastEditedTime = ''2025/01/01 09:00:00''\<rparr>)]"
proof -
  let ?b2 = "emptyStateBook(LOG_NAME_DEFAULT \<mapsto> [map Text LOG_HEADERS])"
  let ?B1 = "book (snd (processWebhook notifyingPlatform emptyStateBook sampleEvent))"
  have p: "page_id samplePage = Some ''P1''" "''P1'' \<noteq> []"
    by (simp_all add: samplePage_def)
  have d: "logSheetName notifyingConfig \<noteq> stateSheetName notifyingConfig"
    using names_differ by (simp add: notifying_names)
  have sh: "sheetData ?b2 (stateSheetName notifyingConfig) = []"
    using names_differ by (simp add: sheetData_def emptyStateBook_def notifying_names)
  have w: "writtenSheet notifyingPlatform (sheetData ?b2 (stateSheetName notifyingConfig))
      ''P1'' (properties samplePage)
      (rowIndexOf (previousStateOf notifyingPlatform
         (sheetData ?b2 (stateSheetName notifyingConfig)) ''P1'')) =
     Inr [[Text ''P1'', Text sampleJson]]"
    unfolding sh by (rule notifying_written)
  have t1: "thrown (snd (processWebhook notifyingPlatform emptyStateBook sampleEvent)) = None"
    unfolding processWebhook_page(3) [OF notifying_configOf notifying_sheetsOf notifying_pageOf p]
    by (simp add: w)
  have pi1: "previousInfoOf notifyingPlatform (sheetData ?b2 (stateSheetName notifyingConfig)) ''P1''
              = None"
    by (simp add: sh previousInfoOf_def previousStateOf_header_only)
  have r1: "notificationResults (snd (processWebhook notifyingPlatform emptyStateBook sampleEvent)) =
     [\<lparr>res_type = TYPE_STATUS_TANTO, res_status = SEND_OK, res_error = None\<rparr>]"
    unfolding processWebhook_page(1) [OF notifying_configOf notifying_sheetsOf notifying_pageOf p]
      pi1
    by (rule notifying_new_page(1))
  obtain row where B1: "?B1 =
      (?b2(stateSheetName notifyingConfig \<mapsto> [[Text ''P1'', Text sampleJson]]))
        (logSheetName notifyingConfig \<mapsto> sheetData ?b2 (logSheetName notifyingConfig) @ [row])"
    using processWebhook_page(4)
      [OF notifying_configOf notifying_sheetsOf notifying_pageOf p
          notifyingPlatform_simps(2) d w]
    by blast
  have st: "sheetData ?B1 STATE_NAME = [[Text ''P1'', Text sampleJson]]"
    unfolding B1 using names_differ by (simp add: sheetData_def notifying_names)
  have ex: "?B1 (logSheetName notifyingConfig) \<noteq> None"
    "?B1 (stateSheetName notifyingConfig) \<noteq> None"
    unfolding B1 by simp_all
  have s2: "sheetsOf notifyingPlatform ?B1 notifyingConfig = Inr ?B1"
    by (rule sheetsOf_existing [OF notifyingPlatform_simps(6) ex])
  have pi: "previousInfoOf notifyingPlatform (sheetData ?B1 (stateSheetName notifyingConfig)) ''P1''
              = None"
    by (simp add: notifying_names st previousInfoOf_def previousStateOf_header_only)
  have rt: "JSON_parse_cell notifyingPlatform
     (Text (JSON_stringify_properties notifyingPlatform sampleProps)) = Some (Object sampleProps)"
    by (simp add: JSON_parse_cell_def notifyingPlatform_simps sampleJson_def)
  have r2: "notificationResults (snd (processWebhook notifyingPlatform ?B1 sampleEvent)) =
     [\<lparr>res_type = TYPE_STATUS_TANTO, res_status = SEND_OK, res_error = None\<rparr>]"
    unfolding processWebhook_page(1) [OF notifying_configOf s2 notifying_pageOf p] pi
    by (rule notifying_new_page(1))
  have q2: "requests (snd (processWebhook notifyingPlatform ?B1 sampleEvent)) =
     [(sampleUrl, createStatusChangeMessage None (infoOf notifyingPlatform samplePage))]"
    unfolding processWebhook_page(2) [OF notifying_configOf s2 notifying_pageOf p] pi
    by (rule notifying_new_page(2))
  show ?thesis
    using t1 r1 rt st r2 q2 unfolding notifying_info by blast
qed

end
